theory Spec2Isabelle
  imports Complex_Main
begin

section \<open>The training driver of nmt/train.py\<close>

text \<open>
  The driver is orchestration code around a graph-execution framework. The framework is
  not part of the program, so it appears here in two ways:
  \<^item> every call into it that has an effect is an \<^emph>\<open>event\<close>; a run of the driver produces
    the list of its events, in order;
  \<^item> every value the framework hands back (the outcome of a training step, a perplexity,
    a random index, ...) comes from an \<^emph>\<open>oracle\<close> of the record \<open>world\<close>, which may
    depend on all events so far.
  Floating-point numbers are kept abstract: the type \<open>'f\<close> with the operations of the
  record \<open>fops\<close>. Exceptions of the source are values of the type \<open>error\<close>.
\<close>

subsection \<open>Errors, floats, events\<close>

datatype error =
  ValueError | ZeroDivisionError | KeyError | AttributeError | TypeError | IndexError
  | NameError

datatype mode = TRAIN | EVAL | INFER

datatype creator = Model | AttentionModel | GNMTModel

record 'f fops =
  fzero :: 'f
  fadd :: "'f \<Rightarrow> 'f \<Rightarrow> 'f"
  fmul :: "'f \<Rightarrow> 'f \<Rightarrow> 'f"
  fdiv :: "'f \<Rightarrow> 'f \<Rightarrow> 'f"
  float_of_int :: "int \<Rightarrow> 'f"
  safe_exp :: "'f \<Rightarrow> 'f"
  isnan :: "'f \<Rightarrow> bool"
  fis_zero :: "'f \<Rightarrow> bool"
  fgt :: "'f \<Rightarrow> 'f \<Rightarrow> bool"

text \<open>The tuple returned by a successful \<open>train_model.train(train_sess)\<close>
  (the update op and the step summary carry no data the driver reads).\<close>

record 'f step_result =
  step_loss :: 'f
  step_predict_count :: int
  step_global_step :: int
  step_word_count :: int
  step_batch_size :: int

text \<open>The messages of \<open>utils.print_out\<close>, by their format string and arguments
  (time stamps are left out).\<close>

datatype 'f msg =
    LogFileMsg string
  | StartStepMsg int 'f
  | InitTrainIteratorMsg int
  | FinishedEpochMsg int
  | StatsMsg int 'f 'f 'f 'f "(string \<times> 'f) list"
  | SaveEvalMsg int
  | BestDevMsg "(string \<times> 'f) list"
  | FinalMsg int 'f 'f 'f 'f "(string \<times> 'f \<times> (string \<times> 'f) list) list"
  | DecodeIdMsg int
  | SrcMsg string
  | RefMsg string
  | NmtMsg string
  | ExternalEvalMsg int

datatype 'f event =
    NewGraph mode
  | NewIterator mode
  | NewModel creator mode
  | CreateInferModel creator
  | LoadData string "string list"
  | OpenLogFile string
  | PrintOut "'f msg"
  | PrintLog "'f msg"
  | NewSession mode
  | CreateOrLoadModel mode string int
  | NewSummaryWriter string string
  | InitTrainIterator int
  | TrainStep "'f step_result option"
  | AddStepSummary int
  | AddSummary int string 'f
  | SaveCheckpoint mode string string int
  | InitEvalIterator string string
  | ComputePerplexity string 'f
  | RandInt int int int
  | InitInferIterator "string list" int
  | Decode string bool
  | AddAttentionSummary int
  | DecodeAndEvaluate string string string bool "(string \<times> 'f) list"
  | SaveHParams string
  | CloseSummaryWriter
  | PrintTime

text \<open>The oracles. Each takes the events so far.
  \<open>train_step\<close> is \<open>None\<close> when the step raises \<open>tf.errors.OutOfRangeError\<close>.\<close>

record 'f world =
  load_data :: "'f event list \<Rightarrow> string \<Rightarrow> string list"
  create_or_load_model :: "'f event list \<Rightarrow> mode \<Rightarrow> string \<Rightarrow> int"
  train_step :: "'f event list \<Rightarrow> 'f step_result option"
  learning_rate :: "'f event list \<Rightarrow> 'f"
  elapsed :: "'f event list \<Rightarrow> 'f"
  compute_perplexity :: "'f event list \<Rightarrow> string \<Rightarrow> 'f"
  randint :: "'f event list \<Rightarrow> int \<Rightarrow> int \<Rightarrow> int"
  decode :: "'f event list \<Rightarrow> string \<times> bool"
  decode_and_evaluate :: "'f event list \<Rightarrow> string \<Rightarrow> bool \<Rightarrow> (string \<times> 'f) list"

subsection \<open>Computations with events and exceptions\<close>

text \<open>A computation reads the events so far and returns the events it adds, with either
  the exception it raises or its value.\<close>

type_synonym ('f, 'a) io = "'f event list \<Rightarrow> 'f event list \<times> (error + 'a)"

definition ret :: "'a \<Rightarrow> ('f, 'a) io" where
  "ret x = (\<lambda>h. ([], Inr x))"

definition raise :: "error \<Rightarrow> ('f, 'a) io" where
  "raise e = (\<lambda>h. ([], Inl e))"

definition lift :: "error + 'a \<Rightarrow> ('f, 'a) io" where
  "lift r = (\<lambda>h. ([], r))"

definition emit :: "'f event \<Rightarrow> ('f, unit) io" where
  "emit ev = (\<lambda>h. ([ev], Inr ()))"

definition ask :: "('f event list \<Rightarrow> 'a) \<Rightarrow> ('f, 'a) io" where
  "ask q = (\<lambda>h. ([], Inr (q h)))"

definition call :: "('f event list \<Rightarrow> 'a) \<Rightarrow> ('a \<Rightarrow> 'f event) \<Rightarrow> ('f, 'a) io" where
  "call q ev = (\<lambda>h. ([ev (q h)], Inr (q h)))"

definition bnd :: "('f, 'a) io \<Rightarrow> ('a \<Rightarrow> ('f, 'b) io) \<Rightarrow> ('f, 'b) io" where
  "bnd m f = (\<lambda>h. case m h of
       (es, Inl e) \<Rightarrow> (es, Inl e)
     | (es, Inr x) \<Rightarrow> (case f x (h @ es) of (es', r) \<Rightarrow> (es @ es', r)))"

definition thn :: "('f, unit) io \<Rightarrow> ('f, 'b) io \<Rightarrow> ('f, 'b) io" where
  "thn m n = bnd m (\<lambda>_. n)"

subsection \<open>Python values\<close>

text \<open>List subscription \<open>xs[i]\<close>. Python accepts \<open>-len(xs) \<le> i < len(xs)\<close> and reads
  a negative \<open>i\<close> from the end of the list; any other index raises \<open>IndexError\<close>.\<close>

definition py_index :: "'a list \<Rightarrow> int \<Rightarrow> error + 'a" where
  "py_index xs i =
     (if 0 \<le> i \<and> i < int (length xs) then Inr (xs ! nat i)
      else if i < 0 \<and> - int (length xs) \<le> i then Inr (xs ! nat (int (length xs) + i))
      else Inl IndexError)"

text \<open>\<open>a % b\<close> on integers: the sign of the divisor, as \<open>mod\<close> on \<open>int\<close>.\<close>

definition py_mod :: "int \<Rightarrow> int \<Rightarrow> error + int" where
  "py_mod a b = (if b = 0 then Inl ZeroDivisionError else Inr (a mod b))"

text \<open>Truth values: \<open>None\<close>, the empty string and \<open>0\<close> are falsy.\<close>

definition truthy_str :: "string option \<Rightarrow> bool" where
  "truthy_str s = (case s of None \<Rightarrow> False | Some t \<Rightarrow> t \<noteq> [])"

definition truthy_int :: "int option \<Rightarrow> bool" where
  "truthy_int n = (case n of None \<Rightarrow> False | Some k \<Rightarrow> k \<noteq> 0)"

text \<open>\<open>"%s.%s" % (prefix, suffix)\<close>\<close>

definition dot :: "string \<Rightarrow> string \<Rightarrow> string" where
  "dot prefix suffix = prefix @ ''.'' @ suffix"

subsection \<open>Hyperparameters\<close>

text \<open>
  The attributes of \<open>hparams\<close> the driver itself reads or writes. The attributes
  \<open>best_<metric>\<close> and \<open>best_<metric>_dir\<close> are found by name at run time
  (\<open>getattr\<close>): they are the two maps \<open>best\<close> and \<open>best_dir\<close>, from the metric's name,
  and a missing attribute is \<open>None\<close>. Attributes that are only handed on to the
  framework (\<open>sos\<close>, \<open>eos\<close>, \<open>num_buckets\<close>, ...) are left out.
\<close>

record 'f hparams =
  out_dir :: string
  num_train_steps :: int
  steps_per_stats :: int
  steps_per_external_eval :: "int option"
  train_prefix :: string
  dev_prefix :: string
  test_prefix :: "string option"
  src :: string
  tgt :: string
  attention :: string
  attention_architecture :: string
  batch_size :: int
  infer_batch_size :: int
  epoch_step :: int
  metrics :: "string list"
  best :: "string \<Rightarrow> 'f option"
  best_dir :: "string \<Rightarrow> string option"

subsection \<open>Graph construction (create_train_model, create_eval_model)\<close>

text \<open>Each of the two functions makes a graph, an iterator over the data set and the
  model, by the given model class. \<open>inference.create_infer_model\<close> is outside this file:
  its call is one event.\<close>

definition create_train_model :: "creator \<Rightarrow> 'f hparams \<Rightarrow> ('f, unit) io" where
  "create_train_model model_creator hparams =
     thn (emit (NewGraph TRAIN))
    (thn (emit (NewIterator TRAIN))
         (emit (NewModel model_creator TRAIN)))"

definition create_eval_model :: "creator \<Rightarrow> 'f hparams \<Rightarrow> ('f, unit) io" where
  "create_eval_model model_creator hparams =
     thn (emit (NewGraph EVAL))
    (thn (emit (NewIterator EVAL))
         (emit (NewModel model_creator EVAL)))"

subsection \<open>The helpers at the end of the file\<close>

text \<open>\<open>_get_best_results\<close>: one token per metric, from \<open>getattr(hparams, "best_" + metric)\<close>.\<close>

primrec best_tokens :: "'f hparams \<Rightarrow> string list \<Rightarrow> error + (string \<times> 'f) list" where
  "best_tokens hparams [] = Inr []"
| "best_tokens hparams (metric # rest) =
     (case best hparams metric of
        None \<Rightarrow> Inl AttributeError
      | Some b \<Rightarrow> (case best_tokens hparams rest of
                    Inl e \<Rightarrow> Inl e
                  | Inr tokens \<Rightarrow> Inr ((metric, b) # tokens)))"

definition get_best_results :: "'f hparams \<Rightarrow> error + (string \<times> 'f) list" where
  "get_best_results hparams = best_tokens hparams (metrics hparams)"

text \<open>\<open>_format_results\<close>: \<open>"%.2f" % ppl\<close> raises on \<open>None\<close>; the scores are read
  only when \<open>scores\<close> is truthy (neither \<open>None\<close> nor an empty dictionary).\<close>

primrec format_scores :: "(string \<times> 'f) list \<Rightarrow> string list \<Rightarrow> error + (string \<times> 'f) list" where
  "format_scores scores [] = Inr []"
| "format_scores scores (metric # rest) =
     (case map_of scores metric of
        None \<Rightarrow> Inl KeyError
      | Some s \<Rightarrow> (case format_scores scores rest of
                    Inl e \<Rightarrow> Inl e
                  | Inr r \<Rightarrow> Inr ((metric, s) # r)))"

definition format_results ::
  "string \<Rightarrow> 'f option \<Rightarrow> (string \<times> 'f) list option \<Rightarrow> string list
     \<Rightarrow> error + (string \<times> 'f \<times> (string \<times> 'f) list)" where
  "format_results name ppl scores metrics_v =
     (case ppl of
        None \<Rightarrow> Inl TypeError
      | Some p \<Rightarrow>
          (case scores of
             None \<Rightarrow> Inr (name, p, [])
           | Some sc \<Rightarrow>
               if sc = [] then Inr (name, p, [])
               else (case format_scores sc metrics_v of
                       Inl e \<Rightarrow> Inl e
                     | Inr r \<Rightarrow> Inr (name, p, r))))"

text \<open>\<open>_internal_eval\<close>: the feed dictionary gives the two files of the eval iterator.\<close>

definition internal_eval ::
  "'f world \<Rightarrow> int \<Rightarrow> string \<times> string \<Rightarrow> string \<Rightarrow> ('f, 'f) io" where
  "internal_eval w global_step_v iterator_feed_dict label =
     thn (emit (InitEvalIterator (fst iterator_feed_dict) (snd iterator_feed_dict)))
    (bnd (call (\<lambda>h. compute_perplexity w h label) (ComputePerplexity label)) (\<lambda>ppl.
     thn (emit (AddSummary global_step_v (label @ ''_ppl'') ppl))
         (ret ppl)))"

text \<open>\<open>_sample_decode\<close>: \<open>random.randint(a, b)\<close> raises \<open>ValueError\<close> on an empty range.\<close>

definition sample_decode ::
  "'f world \<Rightarrow> int \<Rightarrow> string list \<Rightarrow> string list \<Rightarrow> ('f, unit) io" where
  "sample_decode w global_step_v src_data tgt_data =
     (if int (length src_data) - 1 < 0 then raise ValueError
      else
        bnd (call (\<lambda>h. randint w h 0 (int (length src_data) - 1))
                  (RandInt 0 (int (length src_data) - 1))) (\<lambda>decode_id.
        thn (emit (PrintOut (DecodeIdMsg decode_id)))
       (bnd (lift (py_index src_data decode_id)) (\<lambda>s.
        thn (emit (InitInferIterator [s] 1))
       (bnd (call (decode w) (\<lambda>(t, a). Decode t a)) (\<lambda>(translation, attention_summary).
        thn (emit (PrintOut (SrcMsg s)))
       (bnd (lift (py_index tgt_data decode_id)) (\<lambda>r.
        thn (emit (PrintOut (RefMsg r)))
       (thn (emit (PrintOut (NmtMsg translation)))
            (if attention_summary then emit (AddAttentionSummary global_step_v)
             else ret ()))))))))))"

text \<open>\<open>_external_eval\<close>, first its loop over \<open>hparams.metrics\<close>. The checkpoint of a new
  best score is written by the infer model's saver, at that model's global step.\<close>

primrec external_eval_metrics ::
  "'f fops \<Rightarrow> int \<Rightarrow> string \<Rightarrow> (string \<times> 'f) list \<Rightarrow> bool \<Rightarrow> string list \<Rightarrow> 'f hparams
     \<Rightarrow> ('f, 'f hparams) io" where
  "external_eval_metrics fl global_step_v label scores save_on_best [] hparams = ret hparams"
| "external_eval_metrics fl global_step_v label scores save_on_best (metric # rest) hparams =
     (case map_of scores metric of
        None \<Rightarrow> raise KeyError
      | Some s \<Rightarrow>
          thn (emit (AddSummary global_step_v (label @ ''_'' @ metric) s))
          (if save_on_best then
             (case best hparams metric of
                None \<Rightarrow> raise AttributeError
              | Some b \<Rightarrow>
                  if fgt fl s b then
                    (case best_dir hparams metric of
                       None \<Rightarrow> raise AttributeError
                     | Some d \<Rightarrow>
                         thn (emit (SaveCheckpoint INFER d ''translate.ckpt'' global_step_v))
                             (external_eval_metrics fl global_step_v label scores save_on_best rest
                                (hparams\<lparr>best := (best hparams)(metric \<mapsto> s)\<rparr>)))
                  else external_eval_metrics fl global_step_v label scores save_on_best rest hparams)
           else external_eval_metrics fl global_step_v label scores save_on_best rest hparams))"

definition external_eval ::
  "'f world \<Rightarrow> 'f fops \<Rightarrow> int \<Rightarrow> 'f hparams \<Rightarrow> string list \<Rightarrow> string \<Rightarrow> string \<Rightarrow> bool
     \<Rightarrow> ('f, (string \<times> 'f) list \<times> 'f hparams) io" where
  "external_eval w fl global_step_v hparams iterator_feed_data tgt_file label save_on_best =
     thn (if global_step_v > 0 then emit (PrintOut (ExternalEvalMsg global_step_v)) else ret ())
    (thn (emit (InitInferIterator iterator_feed_data (infer_batch_size hparams)))
    (bnd (call (\<lambda>h. decode_and_evaluate w h label (global_step_v > 0))
               (DecodeAndEvaluate label (out_dir hparams) tgt_file (global_step_v > 0))) (\<lambda>scores.
     if global_step_v > 0 then
       bnd (external_eval_metrics fl global_step_v label scores save_on_best
              (metrics hparams) hparams) (\<lambda>hparams'.
       thn (emit (SaveHParams (out_dir hparams')))
           (ret (scores, hparams')))
     else ret (scores, hparams))))"

subsection \<open>The local variables of train\<close>

text \<open>The locals that are fixed once the set-up is done (lines 134 to 197); the two
  nested functions \<open>run_internal_eval\<close> and \<open>run_external_eval\<close> read them as well.
  \<open>test_files\<close> and \<open>test_src_data\<close> are \<open>None\<close> when \<open>hparams.test_prefix\<close> is falsy
  and the source leaves the variables unbound.\<close>

record ctx =
  loc_out_dir :: string
  loc_num_train_steps :: int
  loc_steps_per_stats :: int
  steps_per_eval :: int
  loc_steps_per_external_eval :: int
  dev_src_file :: string
  dev_tgt_file :: string
  test_files :: "(string \<times> string) option"
  dev_src_data :: "string list"
  dev_tgt_data :: "string list"
  test_src_data :: "string list option"
  summary_name :: string
  model_dir :: string
  eval_only :: bool

text \<open>The locals the training loop changes, with \<open>hparams\<close> (field \<open>hp\<close>), whose
  attributes \<open>epoch_step\<close> and \<open>best_<metric>\<close> the run updates.\<close>

record 'f vars =
  hp :: "'f hparams"
  global_step :: int
  step_time :: 'f
  checkpoint_loss :: 'f
  checkpoint_predict_count :: 'f
  checkpoint_total_count :: 'f
  avg_step_time :: 'f
  speed :: 'f
  train_ppl :: 'f
  dev_ppl :: 'f
  test_ppl :: "'f option"
  dev_scores :: "(string \<times> 'f) list"
  test_scores :: "(string \<times> 'f) list option"
  all_dev_perplexities :: "'f list"
  all_test_perplexities :: "'f option list"
  all_steps :: "int list"

datatype flow = Continue | Break

subsection \<open>train, lines 134 to 197: names, model class, graphs, data, mode\<close>

definition model_creator_of :: "'f hparams \<Rightarrow> error + creator" where
  "model_creator_of hparams =
     (if attention hparams = [] then Inr Model
      else if attention_architecture hparams = ''standard'' then Inr AttentionModel
      else if attention_architecture hparams \<in> set [''gnmt'', ''gnmt_v2''] then Inr GNMTModel
      else Inl ValueError)"

definition train_setup :: "'f world \<Rightarrow> 'f hparams \<Rightarrow> bool \<Rightarrow> ('f, ctx) io" where
  "train_setup w hparams eval_only_v =
     (let steps_per_eval_v = 10 * steps_per_stats hparams;
          steps_per_external_eval_v =
            (case steps_per_external_eval hparams of
               None \<Rightarrow> 5 * steps_per_eval_v
             | Some k \<Rightarrow> if k = 0 then 5 * steps_per_eval_v else k);
          dev_src_file_v = dot (dev_prefix hparams) (src hparams);
          dev_tgt_file_v = dot (dev_prefix hparams) (tgt hparams);
          test_files_v =
            (case test_prefix hparams of
               None \<Rightarrow> None
             | Some p \<Rightarrow> if p = [] then None
                         else Some (dot p (src hparams), dot p (tgt hparams)))
      in
        bnd (lift (model_creator_of hparams)) (\<lambda>model_creator.
        thn (create_train_model model_creator hparams)
       (thn (create_eval_model model_creator hparams)
       (thn (emit (CreateInferModel model_creator))
       (bnd (call (\<lambda>h. load_data w h dev_src_file_v) (LoadData dev_src_file_v)) (\<lambda>dev_src_data_v.
        bnd (call (\<lambda>h. load_data w h dev_tgt_file_v) (LoadData dev_tgt_file_v)) (\<lambda>dev_tgt_data_v.
        bnd (case test_files_v of
               None \<Rightarrow> ret None
             | Some fs \<Rightarrow>
                 bnd (call (\<lambda>h. load_data w h (fst fs)) (LoadData (fst fs))) (\<lambda>d.
                 ret (Some d))) (\<lambda>test_src_data_v.
        bnd (if eval_only_v then
               (if length (metrics hparams) \<noteq> 1 then raise ValueError
                else (case best_dir hparams (hd (metrics hparams)) of
                        None \<Rightarrow> raise AttributeError
                      | Some d \<Rightarrow> ret (''eval_log'', d)))
             else ret (''train_log'', out_dir hparams)) (\<lambda>(summary_name_v, model_dir_v).
        ret \<lparr> loc_out_dir = out_dir hparams,
              loc_num_train_steps = num_train_steps hparams,
              loc_steps_per_stats = steps_per_stats hparams,
              steps_per_eval = steps_per_eval_v,
              loc_steps_per_external_eval = steps_per_external_eval_v,
              dev_src_file = dev_src_file_v,
              dev_tgt_file = dev_tgt_file_v,
              test_files = test_files_v,
              dev_src_data = dev_src_data_v,
              dev_tgt_data = dev_tgt_data_v,
              test_src_data = test_src_data_v,
              summary_name = summary_name_v,
              model_dir = model_dir_v,
              eval_only = eval_only_v \<rparr>)))))))))"

subsection \<open>The nested functions run_internal_eval and run_external_eval\<close>

definition run_internal_eval :: "'f world \<Rightarrow> ctx \<Rightarrow> 'f hparams \<Rightarrow> ('f, 'f \<times> 'f option) io" where
  "run_internal_eval w c hparams =
     bnd (call (\<lambda>h. create_or_load_model w h INFER (model_dir c))
               (CreateOrLoadModel INFER (model_dir c))) (\<lambda>global_step_i.
     thn (sample_decode w global_step_i (dev_src_data c) (dev_tgt_data c))
    (bnd (call (\<lambda>h. create_or_load_model w h EVAL (model_dir c))
               (CreateOrLoadModel EVAL (model_dir c))) (\<lambda>global_step_e.
     bnd (internal_eval w global_step_e (dev_src_file c, dev_tgt_file c) ''dev'') (\<lambda>dev_ppl_v.
     if truthy_str (test_prefix hparams) then
       (case test_files c of
          None \<Rightarrow> raise NameError
        | Some fs \<Rightarrow>
            bnd (internal_eval w global_step_e fs ''test'') (\<lambda>test_ppl_v.
            ret (dev_ppl_v, Some test_ppl_v)))
     else ret (dev_ppl_v, None)))))"

definition run_external_eval ::
  "'f world \<Rightarrow> 'f fops \<Rightarrow> ctx \<Rightarrow> 'f hparams
     \<Rightarrow> ('f, ((string \<times> 'f) list \<times> (string \<times> 'f) list option) \<times> 'f hparams) io" where
  "run_external_eval w fl c hparams =
     bnd (call (\<lambda>h. create_or_load_model w h INFER (model_dir c))
               (CreateOrLoadModel INFER (model_dir c))) (\<lambda>global_step_i.
     thn (sample_decode w global_step_i (dev_src_data c) (dev_tgt_data c))
    (bnd (external_eval w fl global_step_i hparams (dev_src_data c) (dev_tgt_file c) ''dev''
            (\<not> eval_only c)) (\<lambda>(dev_scores_v, hparams1).
     if truthy_str (test_prefix hparams1) then
       (case (test_files c, test_src_data c) of
          (Some fs, Some d) \<Rightarrow>
            bnd (external_eval w fl global_step_i hparams1 d (snd fs) ''test'' False)
              (\<lambda>(test_scores_v, hparams2).
            ret ((dev_scores_v, Some test_scores_v), hparams2))
        | _ \<Rightarrow> raise NameError)
     else ret ((dev_scores_v, None), hparams1))))"

subsection \<open>train, lines 199 to 313: log, sessions, first evaluation, iterator\<close>

definition train_start :: "'f world \<Rightarrow> 'f fops \<Rightarrow> ctx \<Rightarrow> 'f hparams \<Rightarrow> ('f, 'f vars) io" where
  "train_start w fl c hparams =
     thn (emit (OpenLogFile (loc_out_dir c)))
    (thn (emit (PrintLog (LogFileMsg (loc_out_dir c))))
    (thn (emit (NewSession TRAIN))
    (thn (emit (NewSession EVAL))
    (thn (emit (NewSession INFER))
    (bnd (call (\<lambda>h. create_or_load_model w h TRAIN (model_dir c))
               (CreateOrLoadModel TRAIN (model_dir c))) (\<lambda>global_step_v.
     thn (emit (NewSummaryWriter (loc_out_dir c) (summary_name c)))
    (bnd (run_internal_eval w c hparams) (\<lambda>(dev_ppl_v, test_ppl_v).
     bnd (run_external_eval w fl c hparams) (\<lambda>((dev_scores_v, test_scores_v), hparams1).
     bnd (ask (learning_rate w)) (\<lambda>lr.
     thn (emit (PrintLog (StartStepMsg global_step_v lr)))
    (thn (emit (PrintOut (InitTrainIteratorMsg (batch_size hparams1 * epoch_step hparams1))))
    (thn (emit (InitTrainIterator (batch_size hparams1 * epoch_step hparams1)))
         (ret \<lparr> hp = hparams1,
                global_step = global_step_v,
                step_time = fzero fl,
                checkpoint_loss = fzero fl,
                checkpoint_predict_count = fzero fl,
                checkpoint_total_count = fzero fl,
                avg_step_time = fzero fl,
                speed = fzero fl,
                train_ppl = fzero fl,
                dev_ppl = dev_ppl_v,
                test_ppl = test_ppl_v,
                dev_scores = dev_scores_v,
                test_scores = test_scores_v,
                all_dev_perplexities = [dev_ppl_v],
                all_test_perplexities = [test_ppl_v],
                all_steps = [global_step_v] \<rparr>)))))))))))))"

subsection \<open>train, lines 315 to 388: one pass through the body of the loop\<close>

text \<open>Lines 348 to 363. \<open>step_time\<close> and \<open>checkpoint_total_count\<close> are Python floats, so the
  division for \<open>speed\<close> raises on a zero divisor, as does the remainder (or, for a
  NumPy integer on the left, the division by \<open>steps_per_stats\<close> after it) when
  \<open>steps_per_stats\<close> is 0. \<open>checkpoint_loss / checkpoint_predict_count\<close> is a division of
  NumPy floats and does not raise.\<close>

definition print_statistics ::
  "'f world \<Rightarrow> 'f fops \<Rightarrow> ctx \<Rightarrow> 'f vars \<Rightarrow> ('f, flow \<times> 'f vars) io" where
  "print_statistics w fl c v =
     bnd (lift (py_mod (global_step v) (loc_steps_per_stats c))) (\<lambda>r.
     if r = 0 then
       (let avg_step_time_v = fdiv fl (step_time v) (float_of_int fl (loc_steps_per_stats c));
            train_ppl_v = safe_exp fl (fdiv fl (checkpoint_loss v) (checkpoint_predict_count v));
            divisor = fmul fl (float_of_int fl 1000) (step_time v)
        in
          if fis_zero fl divisor then raise ZeroDivisionError
          else
            (let speed_v = fdiv fl (checkpoint_total_count v) divisor;
                 v1 = v\<lparr>avg_step_time := avg_step_time_v, train_ppl := train_ppl_v,
                        speed := speed_v\<rparr>
             in
               bnd (ask (learning_rate w)) (\<lambda>lr.
               bnd (lift (get_best_results (hp v))) (\<lambda>best_v.
               thn (emit (PrintLog (StatsMsg (global_step v) lr avg_step_time_v speed_v
                                      train_ppl_v best_v)))
                   (if isnan fl train_ppl_v then ret (Break, v1)
                    else ret (Continue,
                           v1\<lparr>step_time := fzero fl, checkpoint_loss := fzero fl,
                              checkpoint_predict_count := fzero fl,
                              checkpoint_total_count := fzero fl\<rparr>))))))
     else ret (Continue, v))"

text \<open>Lines 365 to 380.\<close>

definition save_eval :: "'f world \<Rightarrow> ctx \<Rightarrow> 'f vars \<Rightarrow> ('f, 'f vars) io" where
  "save_eval w c v =
     bnd (lift (py_mod (global_step v) (steps_per_eval c))) (\<lambda>r.
     if r = 0 then
       thn (emit (PrintOut (SaveEvalMsg (global_step v))))
      (thn (emit (AddSummary (global_step v) ''train_ppl'' (train_ppl v)))
      (thn (emit (SaveCheckpoint TRAIN (loc_out_dir c) ''translate.ckpt'' (global_step v)))
      (bnd (run_internal_eval w c (hp v)) (\<lambda>(dev_ppl_v, test_ppl_v).
       ret (v\<lparr>dev_ppl := dev_ppl_v, test_ppl := test_ppl_v,
               all_dev_perplexities := all_dev_perplexities v @ [dev_ppl_v],
               all_test_perplexities := all_test_perplexities v @ [test_ppl_v],
               all_steps := all_steps v @ [global_step v]\<rparr>)))))
     else ret v)"

text \<open>Lines 382 to 388.\<close>

definition save_external_eval :: "'f world \<Rightarrow> 'f fops \<Rightarrow> ctx \<Rightarrow> 'f vars \<Rightarrow> ('f, 'f vars) io" where
  "save_external_eval w fl c v =
     bnd (lift (py_mod (global_step v) (loc_steps_per_external_eval c))) (\<lambda>r.
     if r = 0 then
       thn (emit (SaveCheckpoint TRAIN (loc_out_dir c) ''translate.ckpt'' (global_step v)))
      (bnd (run_external_eval w fl c (hp v)) (\<lambda>((dev_scores_v, test_scores_v), hparams1).
       ret (v\<lparr>hp := hparams1, dev_scores := dev_scores_v, test_scores := test_scores_v\<rparr>)))
     else ret v)"

text \<open>Lines 323 to 335: the handler of \<open>tf.errors.OutOfRangeError\<close>.\<close>

definition next_epoch :: "'f world \<Rightarrow> 'f fops \<Rightarrow> ctx \<Rightarrow> 'f vars \<Rightarrow> ('f, flow \<times> 'f vars) io" where
  "next_epoch w fl c v =
     thn (emit (PrintOut (FinishedEpochMsg (global_step v))))
    (bnd (run_external_eval w fl c ((hp v)\<lparr>epoch_step := 0\<rparr>))
       (\<lambda>((dev_scores_v, test_scores_v), hparams1).
     thn (emit (InitTrainIterator 0))
         (ret (Continue,
               v\<lparr>hp := hparams1, dev_scores := dev_scores_v, test_scores := test_scores_v\<rparr>))))"

text \<open>Lines 337 to 388: what follows a step that returned.\<close>

definition after_step ::
  "'f world \<Rightarrow> 'f fops \<Rightarrow> ctx \<Rightarrow> 'f step_result \<Rightarrow> 'f vars \<Rightarrow> ('f, flow \<times> 'f vars) io" where
  "after_step w fl c r v =
     (let v1 = v\<lparr>global_step := step_global_step r,
                 hp := (hp v)\<lparr>epoch_step := epoch_step (hp v) + 1\<rparr>\<rparr>
      in
        thn (emit (AddStepSummary (global_step v1)))
       (bnd (ask (elapsed w)) (\<lambda>dt.
        bnd (print_statistics w fl c
               (v1\<lparr>step_time := fadd fl (step_time v1) dt,
                   checkpoint_loss :=
                     fadd fl (checkpoint_loss v1)
                       (fmul fl (step_loss r) (float_of_int fl (step_batch_size r))),
                   checkpoint_predict_count :=
                     fadd fl (checkpoint_predict_count v1)
                       (float_of_int fl (step_predict_count r)),
                   checkpoint_total_count :=
                     fadd fl (checkpoint_total_count v1)
                       (float_of_int fl (step_word_count r))\<rparr>)) (\<lambda>(fw, v3).
        case fw of
          Break \<Rightarrow> ret (Break, v3)
        | Continue \<Rightarrow>
            bnd (save_eval w c v3) (\<lambda>v4.
            bnd (save_external_eval w fl c v4) (\<lambda>v5.
            ret (Continue, v5)))))))"

definition train_iteration ::
  "'f world \<Rightarrow> 'f fops \<Rightarrow> ctx \<Rightarrow> 'f vars \<Rightarrow> ('f, flow \<times> 'f vars) io" where
  "train_iteration w fl c v =
     bnd (call (train_step w) TrainStep) (\<lambda>step_result.
     case step_result of
       None \<Rightarrow> next_epoch w fl c v
     | Some r \<Rightarrow> after_step w fl c r v)"

subsection \<open>train, line 315: the loop\<close>

text \<open>The loop may run forever (a step that never advances \<open>global_step\<close>, a data set
  that is always exhausted), so it takes the number of passes it may make: \<open>None\<close> is a
  run that needs more.\<close>

definition loop_condition :: "ctx \<Rightarrow> 'f vars \<Rightarrow> bool" where
  "loop_condition c v = (global_step v < loc_num_train_steps c \<and> \<not> eval_only c)"

primrec train_loop ::
  "nat \<Rightarrow> 'f world \<Rightarrow> 'f fops \<Rightarrow> ctx \<Rightarrow> 'f vars \<Rightarrow> 'f event list
     \<Rightarrow> ('f event list \<times> (error + 'f vars)) option" where
  "train_loop 0 w fl c v h =
     (if loop_condition c v then None else Some ([], Inr v))"
| "train_loop (Suc n) w fl c v h =
     (if loop_condition c v then
        (case train_iteration w fl c v h of
           (es, Inl e) \<Rightarrow> Some (es, Inl e)
         | (es, Inr (Break, v')) \<Rightarrow> Some (es, Inr v')
         | (es, Inr (Continue, v')) \<Rightarrow>
             (case train_loop n w fl c v' (h @ es) of
                None \<Rightarrow> None
              | Some (es', r) \<Rightarrow> Some (es @ es', r)))
      else Some ([], Inr v))"

subsection \<open>train, lines 390 to 420: after the loop\<close>

definition train_finish ::
  "'f world \<Rightarrow> 'f fops \<Rightarrow> ctx \<Rightarrow> 'f vars \<Rightarrow> ('f, 'f list \<times> 'f option list \<times> int list) io" where
  "train_finish w fl c v =
     bnd (if \<not> eval_only c then
            thn (emit (SaveCheckpoint TRAIN (loc_out_dir c) ''translate.ckpt'' (global_step v)))
           (bnd (run_internal_eval w c (hp v)) (\<lambda>(dev_ppl_v, test_ppl_v).
            bnd (run_external_eval w fl c (hp v)) (\<lambda>((dev_scores_v, test_scores_v), hparams1).
            ret (v\<lparr>hp := hparams1, dev_ppl := dev_ppl_v, test_ppl := test_ppl_v,
                    dev_scores := dev_scores_v, test_scores := test_scores_v\<rparr>))))
          else ret v) (\<lambda>v1.
     bnd (lift (get_best_results (hp v1))) (\<lambda>best_v.
     thn (emit (PrintOut (BestDevMsg best_v)))
    (bnd (lift (format_results ''dev'' (Some (dev_ppl v1)) (Some (dev_scores v1))
                  (metrics (hp v1)))) (\<lambda>dev_results.
     bnd (if truthy_str (test_prefix (hp v1)) then
            bnd (lift (format_results ''test'' (test_ppl v1) (test_scores v1)
                         (metrics (hp v1)))) (\<lambda>test_results.
            ret [dev_results, test_results])
          else ret [dev_results]) (\<lambda>eval_results.
     bnd (ask (learning_rate w)) (\<lambda>lr.
     thn (emit (PrintLog (FinalMsg (global_step v1) lr (avg_step_time v1) (speed v1)
                            (train_ppl v1) eval_results)))
    (thn (emit CloseSummaryWriter)
    (thn (emit PrintTime)
         (ret (all_dev_perplexities v1 @ [dev_ppl v1],
               all_test_perplexities v1 @ [test_ppl v1],
               all_steps v1 @ [global_step v1]))))))))))"

subsection \<open>train\<close>

text \<open>The argument \<open>scope\<close> is only handed on to the model classes and is left out.
  The last argument bounds the passes through the loop.\<close>

definition train ::
  "'f world \<Rightarrow> 'f fops \<Rightarrow> 'f hparams \<Rightarrow> bool \<Rightarrow> nat
     \<Rightarrow> ('f event list \<times> (error + 'f list \<times> 'f option list \<times> int list)) option" where
  "train w fl hparams eval_only_v fuel =
     (case bnd (train_setup w hparams eval_only_v) (\<lambda>c.
           bnd (train_start w fl c hparams) (\<lambda>v. ret (c, v))) [] of
        (es1, Inl e) \<Rightarrow> Some (es1, Inl e)
      | (es1, Inr (c, v)) \<Rightarrow>
          (case train_loop fuel w fl c v es1 of
             None \<Rightarrow> None
           | Some (es2, Inl e) \<Rightarrow> Some (es1 @ es2, Inl e)
           | Some (es2, Inr v') \<Rightarrow>
               (case train_finish w fl c v' (es1 @ es2) of
                  (es3, r) \<Rightarrow> Some (es1 @ es2 @ es3, r))))"

subsection \<open>Reading a run's events\<close>

text \<open>The check points written by the train model's saver, the global steps of the
  training steps that returned, and the events that belong to the loop's own
  book-keeping: an event is \<open>quiet\<close> when it is none of those.\<close>

fun ckpt_of :: "'f event \<Rightarrow> (string \<times> string \<times> int) list" where
  "ckpt_of (SaveCheckpoint TRAIN d n g) = [(d, n, g)]"
| "ckpt_of _ = []"

definition train_ckpts :: "'f event list \<Rightarrow> (string \<times> string \<times> int) list" where
  "train_ckpts es = concat (map ckpt_of es)"

fun step_of :: "'f event \<Rightarrow> int list" where
  "step_of (TrainStep (Some r)) = [step_global_step r]"
| "step_of _ = []"

definition steps_done :: "'f event list \<Rightarrow> int list" where
  "steps_done es = concat (map step_of es)"

fun is_train_step :: "'f event \<Rightarrow> bool" where
  "is_train_step (TrainStep r) = True"
| "is_train_step _ = False"

fun is_init_train_iterator :: "'f event \<Rightarrow> bool" where
  "is_init_train_iterator (InitTrainIterator k) = True"
| "is_init_train_iterator _ = False"

fun is_save_eval_msg :: "'f event \<Rightarrow> bool" where
  "is_save_eval_msg (PrintOut (SaveEvalMsg g)) = True"
| "is_save_eval_msg _ = False"

fun nan_stats :: "'f fops \<Rightarrow> 'f event \<Rightarrow> bool" where
  "nan_stats fl (PrintLog (StatsMsg g lr a s p b)) = isnan fl p"
| "nan_stats fl _ = False"

fun quiet :: "'f event \<Rightarrow> bool" where
  "quiet (TrainStep r) = False"
| "quiet (SaveCheckpoint TRAIN d n g) = False"
| "quiet (PrintLog (StatsMsg g lr a s p b)) = False"
| "quiet (PrintOut (SaveEvalMsg g)) = False"
| "quiet (InitTrainIterator k) = False"
| "quiet _ = True"

text \<open>All events a computation adds, whatever the events before it, satisfy \<open>Q\<close>.\<close>

definition all_ev :: "('f event \<Rightarrow> bool) \<Rightarrow> ('f, 'a) io \<Rightarrow> bool" where
  "all_ev Q m = (\<forall>h. list_all Q (fst (m h)))"

subsection \<open>A concrete world, for runs on concrete inputs\<close>

text \<open>An interpretation of the floats: exact real arithmetic with one more value,
  \<open>NaN\<close>, which every operation hands on and no comparison accepts; a division by
  zero gives \<open>NaN\<close> (there are no infinities).\<close>

datatype xfloat = Fin real | NaN

fun xadd :: "xfloat \<Rightarrow> xfloat \<Rightarrow> xfloat" where
  "xadd (Fin a) (Fin b) = Fin (a + b)"
| "xadd _ _ = NaN"

fun xmul :: "xfloat \<Rightarrow> xfloat \<Rightarrow> xfloat" where
  "xmul (Fin a) (Fin b) = Fin (a * b)"
| "xmul _ _ = NaN"

fun xdiv :: "xfloat \<Rightarrow> xfloat \<Rightarrow> xfloat" where
  "xdiv (Fin a) (Fin b) = (if b = 0 then NaN else Fin (a / b))"
| "xdiv _ _ = NaN"

fun xexp :: "xfloat \<Rightarrow> xfloat" where
  "xexp (Fin a) = Fin (exp a)"
| "xexp NaN = NaN"

fun xgt :: "xfloat \<Rightarrow> xfloat \<Rightarrow> bool" where
  "xgt (Fin a) (Fin b) = (a > b)"
| "xgt _ _ = False"

definition exact_fops :: "xfloat fops" where
  "exact_fops =
     \<lparr> fzero = Fin 0, fadd = xadd, fmul = xmul, fdiv = xdiv,
       float_of_int = (\<lambda>i. Fin (of_int i)), safe_exp = xexp,
       isnan = (\<lambda>x. x = NaN), fis_zero = (\<lambda>x. x = Fin 0), fgt = xgt \<rparr>"

text \<open>A world that plays a given list of training steps (and then reports the end of
  the data), loads a model at the global step of the latest check point of the train
  model in the directory, and answers everything else with constants.\<close>

definition latest_ckpt :: "string \<Rightarrow> 'f event list \<Rightarrow> int" where
  "latest_ckpt d h =
     (case filter (\<lambda>x. fst x = d) (train_ckpts h) of
        [] \<Rightarrow> 0
      | x # xs \<Rightarrow> snd (snd (last (x # xs))))"

definition script_world :: "xfloat step_result option list \<Rightarrow> xfloat world" where
  "script_world script =
     \<lparr> load_data = (\<lambda>h f. if f = ''dev.en'' then [''a house'', ''a tree'']
                          else [''ein haus'', ''ein baum'']),
       create_or_load_model = (\<lambda>h m d. latest_ckpt d h),
       train_step = (\<lambda>h. let i = length (filter is_train_step h)
                         in if i < length script then script ! i else None),
       learning_rate = (\<lambda>h. Fin 1),
       elapsed = (\<lambda>h. Fin 2),
       compute_perplexity = (\<lambda>h label. Fin 50),
       randint = (\<lambda>h lo hi. hi),
       decode = (\<lambda>h. (''a tree'', False)),
       decode_and_evaluate = (\<lambda>h label dec. if dec then [(''bleu'', Fin 20)] else []) \<rparr>"

definition step_at :: "int \<Rightarrow> xfloat \<Rightarrow> xfloat step_result" where
  "step_at g loss =
     \<lparr> step_loss = loss, step_predict_count = 8, step_global_step = g,
       step_word_count = 16, step_batch_size = 4 \<rparr>"

definition hp0 :: "xfloat hparams" where
  "hp0 =
     \<lparr> out_dir = ''out'', num_train_steps = 10, steps_per_stats = 1,
       steps_per_external_eval = None, train_prefix = ''train'', dev_prefix = ''dev'',
       test_prefix = Some ''test'', src = ''de'', tgt = ''en'', attention = [],
       attention_architecture = ''standard'', batch_size = 4, infer_batch_size = 2,
       epoch_step = 3, metrics = [''bleu''],
       best = [''bleu'' \<mapsto> Fin 0], best_dir = [''bleu'' \<mapsto> ''out/best_bleu''] \<rparr>"

text \<open>The locals \<open>train\<close> sets up for \<open>hp0\<close> in a training run.\<close>

definition ctx0 :: ctx where
  "ctx0 =
     \<lparr> loc_out_dir = ''out'', loc_num_train_steps = 10, loc_steps_per_stats = 1,
       steps_per_eval = 10, loc_steps_per_external_eval = 50,
       dev_src_file = ''dev.de'', dev_tgt_file = ''dev.en'',
       test_files = Some (''test.de'', ''test.en''),
       dev_src_data = [''ein haus'', ''ein baum''],
       dev_tgt_data = [''a house'', ''a tree''],
       test_src_data = Some [''ein haus'', ''ein baum''],
       summary_name = ''train_log'', model_dir = ''out'', eval_only = False \<rparr>"

subsection \<open>Predicates and expected values used by the theorems\<close>

text \<open>The events by which \<open>_sample_decode\<close> is recognised: the random draw, the
  decoding and the four printed lines.\<close>

fun is_sample_event :: "'f event \<Rightarrow> bool" where
  "is_sample_event (RandInt lo hi i) = True"
| "is_sample_event (Decode t a) = True"
| "is_sample_event (PrintOut (DecodeIdMsg i)) = True"
| "is_sample_event (PrintOut (SrcMsg s)) = True"
| "is_sample_event (PrintOut (RefMsg s)) = True"
| "is_sample_event (PrintOut (NmtMsg s)) = True"
| "is_sample_event _ = False"

text \<open>The events that compute scores: a perplexity, or the external metrics.\<close>

fun is_score_event :: "'f event \<Rightarrow> bool" where
  "is_score_event (ComputePerplexity l p) = True"
| "is_score_event (DecodeAndEvaluate l d t b sc) = True"
| "is_score_event _ = False"

text \<open>Models are built by the class \<open>mc\<close> only.\<close>

fun built_by :: "creator \<Rightarrow> 'f event \<Rightarrow> bool" where
  "built_by mc (NewModel c m) = (c = mc)"
| "built_by mc (CreateInferModel c) = (c = mc)"
| "built_by mc _ = True"

text \<open>Models are loaded from the directory \<open>d\<close> only, and summaries go to the
  directory named \<open>n\<close> only.\<close>

fun dirs_ok :: "string \<Rightarrow> string \<Rightarrow> 'f event \<Rightarrow> bool" where
  "dirs_ok d n (CreateOrLoadModel m d' g) = (d' = d)"
| "dirs_ok d n (NewSummaryWriter out n') = (n' = n)"
| "dirs_ok d n _ = True"

fun opens_session_or_log :: "'f event \<Rightarrow> bool" where
  "opens_session_or_log (NewSession m) = True"
| "opens_session_or_log (OpenLogFile d) = True"
| "opens_session_or_log (PrintLog m) = True"
| "opens_session_or_log _ = False"

text \<open>The check points the claim expects after a training step that ends at global
  step \<open>g\<close>: one when \<open>g\<close> is divisible by \<open>steps_per_eval\<close>, one when it is divisible
  by \<open>steps_per_external_eval\<close>.\<close>

definition step_ckpts :: "string \<Rightarrow> int \<Rightarrow> int \<Rightarrow> int \<Rightarrow> (string \<times> string \<times> int) list" where
  "step_ckpts dir spe spx g =
     (if g mod spe = 0 then [(dir, ''translate.ckpt'', g)] else []) @
     (if g mod spx = 0 then [(dir, ''translate.ckpt'', g)] else [])"

text \<open>The global steps of the training steps that returned and did not leave the loop:
  a pass that prints a NaN training perplexity leaves the loop at once, so it is the
  last one of the run.\<close>

definition completed_steps :: "'f fops \<Rightarrow> 'f event list \<Rightarrow> int list" where
  "completed_steps fl es =
     (if list_ex (nan_stats fl) es then butlast (steps_done es) else steps_done es)"

text \<open>The value of the local \<open>steps_per_external_eval\<close>, by the claim's words: the
  attribute, or five times \<open>steps_per_eval\<close> when the attribute is falsy.\<close>

definition external_eval_period :: "'f hparams \<Rightarrow> int" where
  "external_eval_period hparams =
     (if truthy_int (steps_per_external_eval hparams)
      then the (steps_per_external_eval hparams)
      else 5 * (10 * steps_per_stats hparams))"

text \<open>Whenever the computation returns a value, its events and the value satisfy \<open>R\<close>.\<close>

definition post :: "('f, 'a) io \<Rightarrow> ('f event list \<Rightarrow> 'a \<Rightarrow> bool) \<Rightarrow> bool" where
  "post m R = (\<forall>h es x. m h = (es, Inr x) \<longrightarrow> R es x)"

text \<open>Whenever the computation raises, the exception satisfies \<open>E\<close>.\<close>

definition fails_with :: "('f, 'a) io \<Rightarrow> (error \<Rightarrow> bool) \<Rightarrow> bool" where
  "fails_with m E = (\<forall>h es e. m h = (es, Inl e) \<longrightarrow> E e)"

text \<open>What holds of every event after the set-up: no graph, iterator or model is built,
  models are loaded from \<open>d\<close> only, summaries go to the directory named \<open>n\<close> only.\<close>

fun tidy :: "string \<Rightarrow> string \<Rightarrow> 'f event \<Rightarrow> bool" where
  "tidy d n (NewGraph m) = False"
| "tidy d n (NewIterator m) = False"
| "tidy d n (NewModel c m) = False"
| "tidy d n (CreateInferModel c) = False"
| "tidy d n (CreateOrLoadModel m d' g) = (d' = d)"
| "tidy d n (NewSummaryWriter out n') = (n' = n)"
| "tidy d n _ = True"

subsection \<open>Concrete runs\<close>

text \<open>The events of a run, and whether it returned a value.\<close>

definition events_of :: "('e list \<times> 'r) option \<Rightarrow> 'e list" where
  "events_of x = (case x of None \<Rightarrow> [] | Some (es, r) \<Rightarrow> es)"

definition returned :: "('e list \<times> (error + 'a)) option \<Rightarrow> bool" where
  "returned x = (case x of Some (es, Inr a) \<Rightarrow> True | _ \<Rightarrow> False)"

text \<open>A training run of one step, which ends at global step 10 with loss 3; the same
  run with the loss NaN (and more steps allowed); an \<open>eval_only\<close> run.\<close>

definition run_ok ::
  "(xfloat event list \<times> (error + xfloat list \<times> xfloat option list \<times> int list)) option" where
  "run_ok = train (script_world [Some (step_at 10 (Fin 3))]) exact_fops hp0 False (Suc (Suc 0))"

definition hp_nan :: "xfloat hparams" where
  "hp_nan = hp0\<lparr>num_train_steps := 20\<rparr>"

definition run_nan ::
  "(xfloat event list \<times> (error + xfloat list \<times> xfloat option list \<times> int list)) option" where
  "run_nan = train (script_world [Some (step_at 10 NaN)]) exact_fops hp_nan False (Suc (Suc 0))"

text \<open>A training run of two steps: the first ends at global step 10 with loss 3, the
  second at global step 20 with loss NaN.\<close>

definition run_two ::
  "(xfloat event list \<times> (error + xfloat list \<times> xfloat option list \<times> int list)) option" where
  "run_two = train (script_world [Some (step_at 10 (Fin 3)), Some (step_at 20 NaN)])
               exact_fops (hp0\<lparr>num_train_steps := 30\<rparr>) False (Suc (Suc 0))"

definition run_eval_only ::
  "(xfloat event list \<times> (error + xfloat list \<times> xfloat option list \<times> int list)) option" where
  "run_eval_only = train (script_world []) exact_fops hp0 True 0"

text \<open>The locals of the loop as they are after the first evaluation of a fresh model.\<close>

definition vars0 :: "xfloat vars" where
  "vars0 =
     \<lparr> hp = hp0, global_step = 0, step_time = Fin 0, checkpoint_loss = Fin 0,
       checkpoint_predict_count = Fin 0, checkpoint_total_count = Fin 0,
       avg_step_time = Fin 0, speed = Fin 0, train_ppl = Fin 0,
       dev_ppl = Fin 50, test_ppl = Some (Fin 50), dev_scores = [], test_scores = Some [],
       all_dev_perplexities = [Fin 50], all_test_perplexities = [Some (Fin 50)],
       all_steps = [0] \<rparr>"

lemma fst_ret: "fst (ret x h) = []" and snd_ret: "snd (ret x h) = Inr x"
  by (simp_all add: ret_def)

lemma fst_raise: "fst (raise e h) = []" and snd_raise: "snd (raise e h) = Inl e"
  by (simp_all add: raise_def)

lemma fst_lift: "fst (lift r h) = []" and snd_lift: "snd (lift r h) = r"
  by (simp_all add: lift_def)

lemma fst_emit: "fst (emit ev h) = [ev]" and snd_emit: "snd (emit ev h) = Inr ()"
  by (simp_all add: emit_def)

lemma fst_ask: "fst (ask q h) = []" and snd_ask: "snd (ask q h) = Inr (q h)"
  by (simp_all add: ask_def)

lemma fst_call: "fst (call q ev h) = [ev (q h)]" and snd_call: "snd (call q ev h) = Inr (q h)"
  by (simp_all add: call_def)

lemma fst_bnd:
  "fst (bnd m f h) =
     fst (m h) @ (case snd (m h) of Inl e \<Rightarrow> [] | Inr x \<Rightarrow> fst (f x (h @ fst (m h))))"
  by (simp add: bnd_def split: prod.splits sum.splits)

lemma snd_bnd:
  "snd (bnd m f h) =
     (case snd (m h) of Inl e \<Rightarrow> Inl e | Inr x \<Rightarrow> snd (f x (h @ fst (m h))))"
  by (simp add: bnd_def split: prod.splits sum.splits)

lemma fst_thn:
  "fst (thn m n h) =
     fst (m h) @ (case snd (m h) of Inl e \<Rightarrow> [] | Inr x \<Rightarrow> fst (n (h @ fst (m h))))"
  by (simp add: thn_def fst_bnd)

lemma snd_thn:
  "snd (thn m n h) =
     (case snd (m h) of Inl e \<Rightarrow> Inl e | Inr x \<Rightarrow> snd (n (h @ fst (m h))))"
  by (simp add: thn_def snd_bnd)

lemmas io_simps = fst_ret snd_ret fst_raise snd_raise fst_lift snd_lift fst_emit snd_emit
  fst_ask snd_ask fst_call snd_call fst_bnd snd_bnd fst_thn snd_thn

lemma all_ev_ret: "all_ev Q (ret x)" and all_ev_raise: "all_ev Q (raise e)"
  and all_ev_lift: "all_ev Q (lift r)" and all_ev_ask: "all_ev Q (ask q)"
  by (simp_all add: all_ev_def io_simps)

lemma all_ev_emit: "Q ev \<Longrightarrow> all_ev Q (emit ev)"
  by (simp add: all_ev_def io_simps)

lemma all_ev_call: "(\<And>x. Q (ev x)) \<Longrightarrow> all_ev Q (call q ev)"
  by (simp add: all_ev_def io_simps)

lemma all_ev_bnd: "all_ev Q m \<Longrightarrow> (\<And>x. all_ev Q (f x)) \<Longrightarrow> all_ev Q (bnd m f)"
  by (simp add: all_ev_def io_simps split: sum.splits)

lemma all_ev_thn: "all_ev Q m \<Longrightarrow> all_ev Q n \<Longrightarrow> all_ev Q (thn m n)"
  by (simp add: all_ev_def io_simps split: sum.splits)

lemma all_ev_if: "(b \<Longrightarrow> all_ev Q m) \<Longrightarrow> (\<not> b \<Longrightarrow> all_ev Q n) \<Longrightarrow> all_ev Q (if b then m else n)"
  by simp

lemma all_ev_case_prod: "(\<And>a b. all_ev Q (f a b)) \<Longrightarrow> all_ev Q (case p of (a, b) \<Rightarrow> f a b)"
  by (cases p) simp

lemma all_ev_case_prod2:
  "(\<And>a b. all_ev Q (f a b z)) \<Longrightarrow> all_ev Q ((case p of (a, b) \<Rightarrow> f a b) z)"
  by (cases p) simp

lemma all_ev_case_option:
  "all_ev Q m \<Longrightarrow> (\<And>x. all_ev Q (f x)) \<Longrightarrow> all_ev Q (case z of None \<Rightarrow> m | Some x \<Rightarrow> f x)"
  by (cases z) simp_all

lemma all_ev_case_flow:
  "all_ev Q m \<Longrightarrow> all_ev Q n \<Longrightarrow> all_ev Q (case z of Continue \<Rightarrow> m | Break \<Rightarrow> n)"
  by (cases z) simp_all

lemmas all_ev_intros = all_ev_ret all_ev_raise all_ev_lift all_ev_ask all_ev_emit all_ev_call
  all_ev_bnd all_ev_thn all_ev_if all_ev_case_prod all_ev_case_prod2 all_ev_case_option
  all_ev_case_flow

lemma quiet_sample_decode: "all_ev quiet (sample_decode w g s t)"
  unfolding sample_decode_def by (intro all_ev_intros) (simp_all split: prod.splits)

lemma quiet_internal_eval: "all_ev quiet (internal_eval w g fd l)"
  unfolding internal_eval_def by (intro all_ev_intros) simp_all

lemma quiet_external_eval_metrics: "all_ev quiet (external_eval_metrics fl g l sc sb ms hparams)"
  by (induction ms arbitrary: hparams) (auto intro!: all_ev_intros split: option.splits)

lemma quiet_external_eval: "all_ev quiet (external_eval w fl g hparams d t l sb)"
  unfolding external_eval_def by (intro all_ev_intros quiet_external_eval_metrics) simp_all

lemma quiet_run_internal_eval: "all_ev quiet (run_internal_eval w c hparams)"
  unfolding run_internal_eval_def
  by (intro all_ev_intros quiet_sample_decode quiet_internal_eval) simp_all

lemma quiet_run_external_eval: "all_ev quiet (run_external_eval w fl c hparams)"
  unfolding run_external_eval_def
  by (intro all_ev_intros quiet_sample_decode quiet_external_eval) simp_all


lemma io_eq_iff: "m h = (es, r) \<longleftrightarrow> fst (m h) = es \<and> snd (m h) = r"
  by auto

lemma sample_decode_shape:
  assumes "sample_decode w g src_data tgt_data h = (es, Inr u)"
  shows "\<exists>i s r t a.
     es = [RandInt 0 (int (length src_data) - 1) i, PrintOut (DecodeIdMsg i),
           InitInferIterator [s] 1, Decode t a, PrintOut (SrcMsg s), PrintOut (RefMsg r),
           PrintOut (NmtMsg t)] @ (if a then [AddAttentionSummary g] else []) \<and>
     i = randint w h 0 (int (length src_data) - 1) \<and>
     py_index src_data i = Inr s \<and> py_index tgt_data i = Inr r"
  using assms unfolding sample_decode_def
  by (auto simp: io_eq_iff io_simps split: sum.splits if_splits prod.splits)

lemma run_internal_eval_shape:
  assumes "run_internal_eval w c hparams h = (es, Inr (d, t))"
  shows "\<exists>pre g.
     es = pre @ [CreateOrLoadModel EVAL (model_dir c) g,
                 InitEvalIterator (dev_src_file c) (dev_tgt_file c),
                 ComputePerplexity ''dev'' d, AddSummary g ''dev_ppl'' d]
              @ (case t of None \<Rightarrow> []
                 | Some p \<Rightarrow> [InitEvalIterator (fst (the (test_files c))) (snd (the (test_files c))),
                              ComputePerplexity ''test'' p, AddSummary g ''test_ppl'' p]) \<and>
     (t \<noteq> None \<longleftrightarrow> truthy_str (test_prefix hparams))"
  using assms unfolding run_internal_eval_def internal_eval_def
  by (auto simp: io_eq_iff io_simps split: sum.splits if_splits prod.splits option.splits)


lemma metrics_loop_step:
  assumes "external_eval_metrics fl g l sc sb (metric # rest) hparams h = (es, Inr hparams')"
  shows "\<exists>s hparams1 es1 es'.
     map_of sc metric = Some s \<and>
     external_eval_metrics fl g l sc sb rest hparams1 (h @ es1) = (es', Inr hparams') \<and>
     es = es1 @ es' \<and>
     ((hparams1 = hparams \<and> es1 = [AddSummary g (l @ ''_'' @ metric) s] \<and>
       \<not> (sb \<and> (\<exists>b. best hparams metric = Some b \<and> fgt fl s b))) \<or>
      (sb \<and> (\<exists>b d. best hparams metric = Some b \<and> fgt fl s b \<and>
          best_dir hparams metric = Some d \<and>
          hparams1 = hparams\<lparr>best := (best hparams)(metric \<mapsto> s)\<rparr> \<and>
          es1 = [AddSummary g (l @ ''_'' @ metric) s,
                 SaveCheckpoint INFER d ''translate.ckpt'' g])))"
  using assms
  by (auto simp: io_eq_iff io_simps split: option.splits if_splits sum.splits)

lemma metrics_loop_keeps:
  "external_eval_metrics fl g l sc sb ms hparams h = (es, Inr hparams')
   \<Longrightarrow> hparams' = hparams\<lparr>best := best hparams'\<rparr>"
proof (induction ms arbitrary: hparams h es)
  case Nil
  then show ?case by (simp add: ret_def)
next
  case (Cons metric rest)
  from metrics_loop_step [OF Cons.prems] obtain s hparams1 es1 es' where
    rest: "external_eval_metrics fl g l sc sb rest hparams1 (h @ es1) = (es', Inr hparams')"
    and h1: "hparams1 = hparams \<or> hparams1 = hparams\<lparr>best := (best hparams)(metric \<mapsto> s)\<rparr>"
    by blast
  from Cons.IH [OF rest] have "hparams' = hparams1\<lparr>best := best hparams'\<rparr>" .
  with h1 show ?case by auto
qed

lemma metrics_loop_best:
  "external_eval_metrics fl g l sc sb ms hparams h = (es, Inr hparams')
   \<Longrightarrow> best hparams' m = best hparams m \<or>
       (sb \<and> m \<in> set ms \<and>
        (\<exists>b s. best hparams m = Some b \<and> map_of sc m = Some s \<and>
               best hparams' m = Some s \<and> fgt fl s b))"
proof (induction ms arbitrary: hparams h es)
  case Nil
  then show ?case by (simp add: ret_def)
next
  case (Cons metric rest)
  from metrics_loop_step [OF Cons.prems] obtain s hparams1 es1 es' where
    sc: "map_of sc metric = Some s"
    and rest: "external_eval_metrics fl g l sc sb rest hparams1 (h @ es1) = (es', Inr hparams')"
    and h1: "hparams1 = hparams \<or>
       (sb \<and> (\<exists>b. best hparams metric = Some b \<and> fgt fl s b \<and>
          hparams1 = hparams\<lparr>best := (best hparams)(metric \<mapsto> s)\<rparr>))"
    by blast
  from Cons.IH [OF rest] have ih: "best hparams' m = best hparams1 m \<or>
       (sb \<and> m \<in> set rest \<and>
        (\<exists>b s. best hparams1 m = Some b \<and> map_of sc m = Some s \<and>
               best hparams' m = Some s \<and> fgt fl s b))" .
  from h1 show ?case
  proof
    assume "hparams1 = hparams"
    with ih show ?thesis by auto
  next
    assume upd: "sb \<and> (\<exists>b. best hparams metric = Some b \<and> fgt fl s b \<and>
          hparams1 = hparams\<lparr>best := (best hparams)(metric \<mapsto> s)\<rparr>)"
    show ?thesis
    proof (cases "m = metric")
      case True
      with upd sc ih show ?thesis by auto
    next
      case False
      with upd ih show ?thesis by auto
    qed
  qed
qed

lemma metrics_loop_saved:
  "external_eval_metrics fl g l sc sb ms hparams h = (es, Inr hparams')
   \<Longrightarrow> best hparams' m \<noteq> best hparams m
   \<Longrightarrow> \<exists>d. best_dir hparams m = Some d \<and> SaveCheckpoint INFER d ''translate.ckpt'' g \<in> set es"
proof (induction ms arbitrary: hparams h es)
  case Nil
  then show ?case by (simp add: ret_def)
next
  case (Cons metric rest)
  from metrics_loop_step [OF Cons.prems(1)] obtain s hparams1 es1 es' where
    rest: "external_eval_metrics fl g l sc sb rest hparams1 (h @ es1) = (es', Inr hparams')"
    and es: "es = es1 @ es'"
    and h0: "(hparams1 = hparams \<and> es1 = [AddSummary g (l @ ''_'' @ metric) s] \<and>
       \<not> (sb \<and> (\<exists>b. best hparams metric = Some b \<and> fgt fl s b))) \<or>
      (sb \<and> (\<exists>b d. best hparams metric = Some b \<and> fgt fl s b \<and>
          best_dir hparams metric = Some d \<and>
          hparams1 = hparams\<lparr>best := (best hparams)(metric \<mapsto> s)\<rparr> \<and>
          es1 = [AddSummary g (l @ ''_'' @ metric) s,
                 SaveCheckpoint INFER d ''translate.ckpt'' g]))"
    by blast
  from h0 have h1: "hparams1 = hparams \<or>
       (\<exists>d. best_dir hparams metric = Some d \<and>
          hparams1 = hparams\<lparr>best := (best hparams)(metric \<mapsto> s)\<rparr> \<and>
          SaveCheckpoint INFER d ''translate.ckpt'' g \<in> set es1)"
    by auto
  show ?case
  proof (cases "best hparams' m = best hparams1 m")
    case True
    with Cons.prems(2) h1 es show ?thesis by (auto split: if_splits)
  next
    case False
    from Cons.IH [OF rest False] h1 es show ?thesis by auto
  qed
qed

lemma metrics_loop_saves_only:
  assumes irr: "\<forall>x. \<not> fgt fl x x"
  shows "external_eval_metrics fl g l sc sb ms hparams h = (es, Inr hparams')
   \<Longrightarrow> SaveCheckpoint md d n k \<in> set es
   \<Longrightarrow> md = INFER \<and> n = ''translate.ckpt'' \<and> k = g \<and>
       (\<exists>m \<in> set ms. best_dir hparams m = Some d \<and> best hparams' m \<noteq> best hparams m)"
proof (induction ms arbitrary: hparams h es)
  case Nil
  then show ?case by (simp add: ret_def)
next
  case (Cons metric rest)
  from metrics_loop_step [OF Cons.prems(1)] obtain s hparams1 es1 es' where
    sc: "map_of sc metric = Some s"
    and rest: "external_eval_metrics fl g l sc sb rest hparams1 (h @ es1) = (es', Inr hparams')"
    and es: "es = es1 @ es'"
    and h1: "(hparams1 = hparams \<and> es1 = [AddSummary g (l @ ''_'' @ metric) s]) \<or>
       (\<exists>b d. best hparams metric = Some b \<and> fgt fl s b \<and>
          best_dir hparams metric = Some d \<and>
          hparams1 = hparams\<lparr>best := (best hparams)(metric \<mapsto> s)\<rparr> \<and>
          es1 = [AddSummary g (l @ ''_'' @ metric) s,
                 SaveCheckpoint INFER d ''translate.ckpt'' g])"
    by blast
  have stay: "best hparams1 metric = Some s \<Longrightarrow> best hparams' metric = Some s"
    using metrics_loop_best [OF rest, of metric] sc by auto
  from Cons.prems(2) es consider "SaveCheckpoint md d n k \<in> set es1"
    | "SaveCheckpoint md d n k \<in> set es'" by auto
  then show ?case
  proof cases
    case 1
    with h1 obtain b where b: "best hparams metric = Some b" "fgt fl s b"
      "best_dir hparams metric = Some d" "md = INFER" "n = ''translate.ckpt''" "k = g"
      "hparams1 = hparams\<lparr>best := (best hparams)(metric \<mapsto> s)\<rparr>"
      by auto
    from b(7) stay have "best hparams' metric = Some s" by simp
    moreover from b(2) irr have "s \<noteq> b" by auto
    ultimately show ?thesis using b by auto
  next
    case 2
    from Cons.IH [OF rest 2] obtain m where m: "md = INFER" "n = ''translate.ckpt''" "k = g"
      "m \<in> set rest" "best_dir hparams1 m = Some d" "best hparams' m \<noteq> best hparams1 m"
      by blast
    from h1 have dir: "best_dir hparams1 = best_dir hparams" by auto
    have "best hparams' m \<noteq> best hparams m"
    proof (cases "m = metric")
      case True
      show ?thesis
      proof (cases "hparams1 = hparams")
        case True
        with m(6) show ?thesis by simp
      next
        case False
        with h1 have "best hparams1 metric = Some s" by auto
        with stay \<open>m = metric\<close> m(6) show ?thesis by simp
      qed
    next
      case False
      with h1 m(6) show ?thesis by auto
    qed
    with m dir show ?thesis by auto
  qed
qed


lemma external_eval_cases:
  assumes "external_eval w fl g hparams xs tgt_file label sb h = (es, Inr (scores, hparams'))"
  shows "(\<not> 0 < g \<and> hparams' = hparams \<and>
          es = [InitInferIterator xs (infer_batch_size hparams),
                DecodeAndEvaluate label (out_dir hparams) tgt_file False scores]) \<or>
         (0 < g \<and> (\<exists>es'.
            external_eval_metrics fl g label scores sb (metrics hparams) hparams
              (h @ [PrintOut (ExternalEvalMsg g),
                    InitInferIterator xs (infer_batch_size hparams),
                    DecodeAndEvaluate label (out_dir hparams) tgt_file True scores])
              = (es', Inr hparams') \<and>
            es = [PrintOut (ExternalEvalMsg g),
                  InitInferIterator xs (infer_batch_size hparams),
                  DecodeAndEvaluate label (out_dir hparams) tgt_file True scores]
                 @ es' @ [SaveHParams (out_dir hparams')]))"
  using assms unfolding external_eval_def
  by (auto simp: io_eq_iff io_simps split: sum.splits if_splits)

lemma external_eval_keeps:
  assumes "external_eval w fl g hparams xs tgt_file label sb h = (es, Inr (scores, hparams'))"
  shows "hparams' = hparams\<lparr>best := best hparams'\<rparr>"
  using external_eval_cases [OF assms] by (auto dest: metrics_loop_keeps)

text \<open>
  Claim C6. Let \<open>_external_eval\<close> return, with a comparison of floats under which no
  value is greater than itself. Then for every metric \<open>best_<metric>\<close> is unchanged, or
  it held a value, the call had \<open>save_on_best\<close> set and a positive global step, and the
  new value is the newly computed score, strictly greater than the old one: the stored
  value never decreases. A check point is written to \<open>best_<metric>_dir\<close> for every
  metric whose stored value changed, and every check point written belongs to such a
  metric.
\<close>

theorem best_metric_updates:
  assumes run: "external_eval w fl g hparams xs tgt_file label save_on_best h
                  = (es, Inr (scores, hparams'))"
    and irr: "\<forall>x. \<not> fgt fl x x"
  shows "(\<forall>m. best hparams' m = best hparams m \<or>
            (save_on_best \<and> 0 < g \<and> m \<in> set (metrics hparams) \<and>
             (\<exists>b s. best hparams m = Some b \<and> map_of scores m = Some s \<and>
                    best hparams' m = Some s \<and> fgt fl s b))) \<and>
         (\<forall>m. best hparams' m \<noteq> best hparams m \<longrightarrow>
            (\<exists>d. best_dir hparams m = Some d \<and>
                 SaveCheckpoint INFER d ''translate.ckpt'' g \<in> set es)) \<and>
         (\<forall>md d n k. SaveCheckpoint md d n k \<in> set es \<longrightarrow>
            (\<exists>m \<in> set (metrics hparams).
               best_dir hparams m = Some d \<and> best hparams' m \<noteq> best hparams m))"
proof -
  from external_eval_cases [OF run] show ?thesis
  proof
    assume "\<not> 0 < g \<and> hparams' = hparams \<and>
          es = [InitInferIterator xs (infer_batch_size hparams),
                DecodeAndEvaluate label (out_dir hparams) tgt_file False scores]"
    then show ?thesis by auto
  next
    assume "0 < g \<and> (\<exists>es'.
            external_eval_metrics fl g label scores save_on_best (metrics hparams) hparams
              (h @ [PrintOut (ExternalEvalMsg g),
                    InitInferIterator xs (infer_batch_size hparams),
                    DecodeAndEvaluate label (out_dir hparams) tgt_file True scores])
              = (es', Inr hparams') \<and>
            es = [PrintOut (ExternalEvalMsg g),
                  InitInferIterator xs (infer_batch_size hparams),
                  DecodeAndEvaluate label (out_dir hparams) tgt_file True scores]
                 @ es' @ [SaveHParams (out_dir hparams')])"
    then obtain es' where g: "0 < g"
      and loop: "external_eval_metrics fl g label scores save_on_best (metrics hparams) hparams
              (h @ [PrintOut (ExternalEvalMsg g),
                    InitInferIterator xs (infer_batch_size hparams),
                    DecodeAndEvaluate label (out_dir hparams) tgt_file True scores])
              = (es', Inr hparams')"
      and es: "es = [PrintOut (ExternalEvalMsg g),
                  InitInferIterator xs (infer_batch_size hparams),
                  DecodeAndEvaluate label (out_dir hparams) tgt_file True scores]
                 @ es' @ [SaveHParams (out_dir hparams')]"
      by blast
    have a: "\<forall>m. best hparams' m = best hparams m \<or>
            (save_on_best \<and> 0 < g \<and> m \<in> set (metrics hparams) \<and>
             (\<exists>b s. best hparams m = Some b \<and> map_of scores m = Some s \<and>
                    best hparams' m = Some s \<and> fgt fl s b))"
      using metrics_loop_best [OF loop] g by blast
    have b: "\<forall>m. best hparams' m \<noteq> best hparams m \<longrightarrow>
            (\<exists>d. best_dir hparams m = Some d \<and>
                 SaveCheckpoint INFER d ''translate.ckpt'' g \<in> set es)"
      using metrics_loop_saved [OF loop] es by fastforce
    have c: "\<forall>md d n k. SaveCheckpoint md d n k \<in> set es \<longrightarrow>
            (\<exists>m \<in> set (metrics hparams).
               best_dir hparams m = Some d \<and> best hparams' m \<noteq> best hparams m)"
    proof (intro allI impI)
      fix md d n k
      assume "SaveCheckpoint md d n k \<in> set es"
      with es have "SaveCheckpoint md d n k \<in> set es'" by auto
      from metrics_loop_saves_only [OF irr loop this]
      show "\<exists>m \<in> set (metrics hparams).
               best_dir hparams m = Some d \<and> best hparams' m \<noteq> best hparams m"
        by blast
    qed
    from a b c show ?thesis by blast
  qed
qed

lemma xgt_irrefl: "\<forall>x. \<not> fgt exact_fops x x"
proof
  fix x show "\<not> fgt exact_fops x x" by (cases x) (simp_all add: exact_fops_def)
qed

theorem best_metric_updates_witness:
  "\<exists>es scores hparams'.
     external_eval (script_world []) exact_fops 10 hp0 [''ein haus''] ''dev.en'' ''dev'' True []
       = (es, Inr (scores, hparams')) \<and>
     best hparams' ''bleu'' = Some (Fin 20) \<and>
     SaveCheckpoint INFER ''out/best_bleu'' ''translate.ckpt'' 10 \<in> set es"
proof -
  have "\<exists>es scores hparams'.
     external_eval (script_world []) exact_fops 10 hp0 [''ein haus''] ''dev.en'' ''dev'' True []
       = (es, Inr (scores, hparams')) \<and> best hparams' ''bleu'' = Some (Fin 20)"
    by (simp add: external_eval_def script_world_def exact_fops_def hp0_def
          ret_def raise_def lift_def emit_def ask_def call_def bnd_def thn_def)
  then obtain es scores hparams' where
    run: "external_eval (script_world []) exact_fops 10 hp0 [''ein haus''] ''dev.en'' ''dev'' True []
       = (es, Inr (scores, hparams'))"
    and new: "best hparams' ''bleu'' = Some (Fin 20)"
    by blast
  have old: "best hp0 ''bleu'' = Some (Fin 0)" and dir: "best_dir hp0 ''bleu'' = Some ''out/best_bleu''"
    by (simp_all add: hp0_def)
  from best_metric_updates [OF run xgt_irrefl]
  have "best hparams' ''bleu'' \<noteq> best hp0 ''bleu'' \<longrightarrow>
          (\<exists>d. best_dir hp0 ''bleu'' = Some d \<and>
               SaveCheckpoint INFER d ''translate.ckpt'' 10 \<in> set es)"
    by blast
  with new old dir
  have "SaveCheckpoint INFER ''out/best_bleu'' ''translate.ckpt'' 10 \<in> set es"
    by simp
  with run new show ?thesis by blast
qed

lemma all_evD: "all_ev Q m \<Longrightarrow> list_all Q (fst (m h))"
  by (simp add: all_ev_def)

lemma no_sample_internal_eval: "all_ev (\<lambda>e. \<not> is_sample_event e) (internal_eval w g fd l)"
  unfolding internal_eval_def by (intro all_ev_intros) simp_all

lemma no_sample_external_eval_metrics:
  "all_ev (\<lambda>e. \<not> is_sample_event e) (external_eval_metrics fl g l sc sb ms hparams)"
  by (induction ms arbitrary: hparams) (auto intro!: all_ev_intros split: option.splits)

lemma no_sample_external_eval:
  "all_ev (\<lambda>e. \<not> is_sample_event e) (external_eval w fl g hparams d t l sb)"
  unfolding external_eval_def
  by (intro all_ev_intros no_sample_external_eval_metrics) simp_all

lemma external_eval_scores:
  "snd (external_eval w fl g hparams xs t l sb h) = Inr r
   \<Longrightarrow> list_ex is_score_event (fst (external_eval w fl g hparams xs t l sb h))"
  unfolding external_eval_def
  by (auto simp: io_simps split: sum.splits if_splits)

lemma internal_eval_scores:
  "list_ex is_score_event (fst (internal_eval w g fd l h))"
  unfolding internal_eval_def
  by (auto simp: io_simps split: sum.splits if_splits)

lemma run_external_eval_split:
  assumes "run_external_eval w fl c hparams h = (es, Inr r)"
  shows "\<exists>g ses rest.
     es = CreateOrLoadModel INFER (model_dir c) g # ses @ rest \<and>
     g = create_or_load_model w h INFER (model_dir c) \<and>
     sample_decode w g (dev_src_data c) (dev_tgt_data c)
       (h @ [CreateOrLoadModel INFER (model_dir c) g]) = (ses, Inr ()) \<and>
     list_all (\<lambda>e. \<not> is_sample_event e) rest \<and> list_ex is_score_event rest"
  using assms unfolding run_external_eval_def
  by (auto simp: io_eq_iff io_simps no_sample_external_eval [THEN all_evD]
        external_eval_scores
      split: sum.splits if_splits prod.splits option.splits)

lemma run_internal_eval_split:
  assumes "run_internal_eval w c hparams h = (es, Inr r)"
  shows "\<exists>g ses rest.
     es = CreateOrLoadModel INFER (model_dir c) g # ses @ rest \<and>
     g = create_or_load_model w h INFER (model_dir c) \<and>
     sample_decode w g (dev_src_data c) (dev_tgt_data c)
       (h @ [CreateOrLoadModel INFER (model_dir c) g]) = (ses, Inr ()) \<and>
     list_all (\<lambda>e. \<not> is_sample_event e) rest \<and> list_ex is_score_event rest"
  using assms unfolding run_internal_eval_def
  by (auto simp: io_eq_iff io_simps no_sample_internal_eval [THEN all_evD]
        internal_eval_scores
      split: sum.splits if_splits prod.splits option.splits)

subsection \<open>Rules for post\<close>

lemma postD: "post m R \<Longrightarrow> m h = (es, Inr x) \<Longrightarrow> R es x"
  by (simp add: post_def)

lemma post_weaken: "post m R' \<Longrightarrow> (\<And>es x. R' es x \<Longrightarrow> R es x) \<Longrightarrow> post m R"
  by (simp add: post_def)

lemma post_conj: "post m R1 \<Longrightarrow> post m R2 \<Longrightarrow> post m (\<lambda>es x. R1 es x \<and> R2 es x)"
  by (simp add: post_def)

lemma all_ev_post: "all_ev Q m \<Longrightarrow> post m (\<lambda>es x. list_all Q es)"
  unfolding post_def all_ev_def
proof (intro allI impI)
  fix h es x
  assume a: "\<forall>h. list_all Q (fst (m h))" and b: "m h = (es, Inr x)"
  from a have "list_all Q (fst (m h))" by blast
  with b show "list_all Q es" by simp
qed

lemma post_ret: "R [] x \<Longrightarrow> post (ret x) R"
  by (simp add: post_def ret_def)

lemma post_raise: "post (raise e) R"
  by (simp add: post_def raise_def)

lemma post_lift: "(\<And>x. r = Inr x \<Longrightarrow> R [] x) \<Longrightarrow> post (lift r) R"
  by (simp add: post_def lift_def)

lemma post_emit: "R [ev] () \<Longrightarrow> post (emit ev) R"
  by (simp add: post_def emit_def)

lemma post_ask: "(\<And>x. R [] x) \<Longrightarrow> post (ask q) R"
  by (simp add: post_def ask_def)

lemma post_call: "(\<And>x. R [ev x] x) \<Longrightarrow> post (call q ev) R"
  by (auto simp: post_def call_def)

lemma post_bnd:
  "post m (\<lambda>es1 x. post (f x) (\<lambda>es2. R (es1 @ es2))) \<Longrightarrow> post (bnd m f) R"
  unfolding post_def bnd_def
  by (auto split: prod.splits sum.splits)

lemma post_thn:
  "post m (\<lambda>es1 x. post n (\<lambda>es2. R (es1 @ es2))) \<Longrightarrow> post (thn m n) R"
  unfolding thn_def by (rule post_bnd)

lemma post_if:
  "(b \<Longrightarrow> post m R) \<Longrightarrow> (\<not> b \<Longrightarrow> post n R) \<Longrightarrow> post (if b then m else n) R"
  by simp

lemma post_case_prod:
  "(\<And>a b. p = (a, b) \<Longrightarrow> post (f a b) R) \<Longrightarrow> post (case p of (a, b) \<Rightarrow> f a b) R"
  by (cases p) simp

lemma post_case_prod2:
  "(\<And>a b. p = (a, b) \<Longrightarrow> post (f a b z) R) \<Longrightarrow> post ((case p of (a, b) \<Rightarrow> f a b) z) R"
  by (cases p) simp

lemma post_case_option:
  "(z = None \<Longrightarrow> post m R) \<Longrightarrow> (\<And>x. z = Some x \<Longrightarrow> post (f x) R)
   \<Longrightarrow> post (case z of None \<Rightarrow> m | Some x \<Rightarrow> f x) R"
  by (cases z) simp_all

lemma post_case_flow:
  "(z = Continue \<Longrightarrow> post m R) \<Longrightarrow> (z = Break \<Longrightarrow> post n R)
   \<Longrightarrow> post (case z of Continue \<Rightarrow> m | Break \<Rightarrow> n) R"
  by (cases z) simp_all

lemmas post_intros = post_ret post_raise post_lift post_emit post_ask post_call
  post_bnd post_thn post_if post_case_prod post_case_prod2 post_case_option post_case_flow

lemmas eval_defs = run_internal_eval_def run_external_eval_def external_eval_def
  internal_eval_def sample_decode_def py_index_def truthy_str_def
  ret_def raise_def lift_def emit_def ask_def call_def bnd_def thn_def
  script_world_def exact_fops_def hp0_def ctx0_def latest_ckpt_def train_ckpts_def Let_def

lemma setup_hp0:
  "snd (train_setup (script_world script) hp0 False []) = Inr ctx0"
  by (simp add: train_setup_def model_creator_of_def create_train_model_def
        create_eval_model_def dot_def eval_defs)

lemma setup_ctx:
  "post (train_setup w hparams eo) (\<lambda>es c.
     loc_out_dir c = out_dir hparams \<and>
     loc_num_train_steps c = num_train_steps hparams \<and>
     loc_steps_per_stats c = steps_per_stats hparams \<and>
     steps_per_eval c = 10 * steps_per_stats hparams \<and>
     loc_steps_per_external_eval c = external_eval_period hparams \<and>
     eval_only c = eo \<and>
     dev_src_file c = dot (dev_prefix hparams) (src hparams) \<and>
     dev_tgt_file c = dot (dev_prefix hparams) (tgt hparams) \<and>
     test_files c = (if truthy_str (test_prefix hparams)
                     then Some (dot (the (test_prefix hparams)) (src hparams),
                                dot (the (test_prefix hparams)) (tgt hparams))
                     else None) \<and>
     (test_src_data c = None \<longleftrightarrow> \<not> truthy_str (test_prefix hparams)) \<and>
     (if eo then length (metrics hparams) = 1 \<and>
                 best_dir hparams (hd (metrics hparams)) = Some (model_dir c) \<and>
                 summary_name c = ''eval_log''
      else model_dir c = out_dir hparams \<and> summary_name c = ''train_log''))"
  unfolding train_setup_def Let_def create_train_model_def create_eval_model_def
  by (intro post_intros)
     (auto simp: external_eval_period_def truthy_str_def truthy_int_def
        split: option.splits if_splits)

section \<open>Claims\<close>

text \<open>
  Claim C3. Every internal evaluation that returns, returns a pair: the perplexity
  computed on the dev files, and the perplexity computed on the test files exactly when
  \<open>hparams.test_prefix\<close> is truthy, \<open>None\<close> otherwise. Its events end with, for each
  computed perplexity: the eval iterator initialised on the two files, the perplexity
  computed, and the summary \<open>dev_ppl\<close> or \<open>test_ppl\<close> added at the global step of the
  eval model just loaded. The files are those \<open>train\<close> names from the prefixes.
\<close>

theorem internal_eval_result:
  assumes "run_internal_eval w c hparams h = (es, Inr (dev_ppl_v, test_ppl_v))"
  shows "(\<exists>pre g rest.
      es = pre @ [CreateOrLoadModel EVAL (model_dir c) g,
                  InitEvalIterator (dev_src_file c) (dev_tgt_file c),
                  ComputePerplexity ''dev'' dev_ppl_v,
                  AddSummary g ''dev_ppl'' dev_ppl_v] @ rest \<and>
      list_all (\<lambda>e. \<not> is_score_event e) pre \<and>
      g = create_or_load_model w (h @ pre) EVAL (model_dir c) \<and>
      (case test_ppl_v of
         None \<Rightarrow> rest = []
       | Some p \<Rightarrow> \<exists>ts tt. test_files c = Some (ts, tt) \<and>
           rest = [InitEvalIterator ts tt, ComputePerplexity ''test'' p,
                   AddSummary g ''test_ppl'' p])) \<and>
    (test_ppl_v \<noteq> None \<longleftrightarrow> truthy_str (test_prefix hparams)) \<and>
    (\<forall>eo h0 es0. train_setup w hparams eo h0 = (es0, Inr c) \<longrightarrow>
       dev_src_file c = dot (dev_prefix hparams) (src hparams) \<and>
       dev_tgt_file c = dot (dev_prefix hparams) (tgt hparams) \<and>
       (\<forall>p. test_prefix hparams = Some p \<and> p \<noteq> [] \<longrightarrow>
          test_files c = Some (dot p (src hparams), dot p (tgt hparams))))"
proof (intro conjI)
  have no_score: "list_all (\<lambda>e. \<not> is_score_event e) (fst (sample_decode w g s t h'))" for g s t h'
    unfolding sample_decode_def
    by (auto simp: io_simps split: sum.splits if_splits prod.splits)
  from assms show "\<exists>pre g rest.
      es = pre @ [CreateOrLoadModel EVAL (model_dir c) g,
                  InitEvalIterator (dev_src_file c) (dev_tgt_file c),
                  ComputePerplexity ''dev'' dev_ppl_v,
                  AddSummary g ''dev_ppl'' dev_ppl_v] @ rest \<and>
      list_all (\<lambda>e. \<not> is_score_event e) pre \<and>
      g = create_or_load_model w (h @ pre) EVAL (model_dir c) \<and>
      (case test_ppl_v of
         None \<Rightarrow> rest = []
       | Some p \<Rightarrow> \<exists>ts tt. test_files c = Some (ts, tt) \<and>
           rest = [InitEvalIterator ts tt, ComputePerplexity ''test'' p,
                   AddSummary g ''test_ppl'' p])"
  proof -
    define gi where "gi = create_or_load_model w h INFER (model_dir c)"
    define ses where "ses = fst (sample_decode w gi (dev_src_data c) (dev_tgt_data c)
                                  (h @ [CreateOrLoadModel INFER (model_dir c) gi]))"
    define pre where "pre = CreateOrLoadModel INFER (model_dir c) gi # ses"
    define g where "g = create_or_load_model w (h @ pre) EVAL (model_dir c)"
    have pre_ok: "list_all (\<lambda>e. \<not> is_score_event e) pre"
      by (simp add: pre_def ses_def no_score)
    from assms have es: "es = pre @ [CreateOrLoadModel EVAL (model_dir c) g,
                  InitEvalIterator (dev_src_file c) (dev_tgt_file c),
                  ComputePerplexity ''dev'' dev_ppl_v,
                  AddSummary g ''dev_ppl'' dev_ppl_v] @
               (case test_ppl_v of None \<Rightarrow> []
                | Some p \<Rightarrow> [InitEvalIterator (fst (the (test_files c))) (snd (the (test_files c))),
                             ComputePerplexity ''test'' p, AddSummary g ''test_ppl'' p])"
      and tf: "test_ppl_v \<noteq> None \<longrightarrow> test_files c \<noteq> None"
      unfolding run_internal_eval_def internal_eval_def pre_def ses_def gi_def g_def
      by (auto simp: io_eq_iff io_simps split: sum.splits if_splits option.splits)
    show ?thesis
    proof (cases test_ppl_v)
      case None
      with es pre_ok g_def show ?thesis
        by (intro exI [of _ pre] exI [of _ g] exI [of _ "[]"]) simp
    next
      case (Some p)
      with tf obtain ts tt where f: "test_files c = Some (ts, tt)" by fastforce
      with Some es pre_ok g_def show ?thesis
        by (intro exI [of _ pre] exI [of _ g]
              exI [of _ "[InitEvalIterator ts tt, ComputePerplexity ''test'' p,
                          AddSummary g ''test_ppl'' p]"]) simp
    qed
  qed
next
  from assms show "(test_ppl_v \<noteq> None) = truthy_str (test_prefix hparams)"
    unfolding run_internal_eval_def
    by (auto simp: io_eq_iff io_simps split: sum.splits if_splits option.splits)
next
  show "\<forall>eo h0 es0. train_setup w hparams eo h0 = (es0, Inr c) \<longrightarrow>
       dev_src_file c = dot (dev_prefix hparams) (src hparams) \<and>
       dev_tgt_file c = dot (dev_prefix hparams) (tgt hparams) \<and>
       (\<forall>p. test_prefix hparams = Some p \<and> p \<noteq> [] \<longrightarrow>
          test_files c = Some (dot p (src hparams), dot p (tgt hparams)))"
    by (auto dest!: postD [OF setup_ctx] simp: truthy_str_def)
qed


theorem internal_eval_result_witness:
  "\<exists>es. run_internal_eval (script_world []) ctx0 hp0 [] = (es, Inr (Fin 50, Some (Fin 50))) \<and>
     truthy_str (test_prefix hp0) \<and>
     (\<exists>pre g. es = pre @ [CreateOrLoadModel EVAL ''out'' g,
                          InitEvalIterator ''dev.de'' ''dev.en'',
                          ComputePerplexity ''dev'' (Fin 50),
                          AddSummary g ''dev_ppl'' (Fin 50),
                          InitEvalIterator ''test.de'' ''test.en'',
                          ComputePerplexity ''test'' (Fin 50),
                          AddSummary g ''test_ppl'' (Fin 50)])"
proof -
  have "\<exists>es. run_internal_eval (script_world []) ctx0 hp0 [] = (es, Inr (Fin 50, Some (Fin 50)))"
    by (simp add: eval_defs)
  then obtain es where
    run: "run_internal_eval (script_world []) ctx0 hp0 [] = (es, Inr (Fin 50, Some (Fin 50)))" ..
  have files: "test_files ctx0 = Some (''test.de'', ''test.en'')" "model_dir ctx0 = ''out''"
    "dev_src_file ctx0 = ''dev.de''" "dev_tgt_file ctx0 = ''dev.en''"
    by (simp_all add: ctx0_def)
  from internal_eval_result [OF run] files
  have "truthy_str (test_prefix hp0)"
    and "\<exists>pre g. es = pre @ [CreateOrLoadModel EVAL ''out'' g,
                          InitEvalIterator ''dev.de'' ''dev.en'',
                          ComputePerplexity ''dev'' (Fin 50),
                          AddSummary g ''dev_ppl'' (Fin 50),
                          InitEvalIterator ''test.de'' ''test.en'',
                          ComputePerplexity ''test'' (Fin 50),
                          AddSummary g ''test_ppl'' (Fin 50)]"
    by auto
  with run show ?thesis by blast
qed

text \<open>
  Claim C4. Every external evaluation that returns, and every internal evaluation that
  returns, first loads the infer model and then decodes one sample: it draws an index by
  \<open>random.randint(0, len(dev_src_data) - 1)\<close>, initialises the infer iterator on that one
  source sentence, decodes, and prints the source, the reference and the translation.
  No other draw, decoding or such line follows, and the scores are computed after it.
  (That the draw is uniform is the contract of \<open>random.randint\<close>, whose result is the
  oracle \<open>randint\<close> here.)
\<close>

theorem sample_decode_before_scores:
  "(\<forall>es r. run_external_eval w fl c hparams h = (es, Inr r) \<longrightarrow>
      (\<exists>g i s ref t a rest.
         es = [CreateOrLoadModel INFER (model_dir c) g,
               RandInt 0 (int (length (dev_src_data c)) - 1) i,
               PrintOut (DecodeIdMsg i), InitInferIterator [s] 1, Decode t a,
               PrintOut (SrcMsg s), PrintOut (RefMsg ref), PrintOut (NmtMsg t)] @ rest \<and>
         i = randint w (h @ [CreateOrLoadModel INFER (model_dir c) g]) 0
               (int (length (dev_src_data c)) - 1) \<and>
         py_index (dev_src_data c) i = Inr s \<and> py_index (dev_tgt_data c) i = Inr ref \<and>
         list_all (\<lambda>e. \<not> is_sample_event e) rest \<and> list_ex is_score_event rest)) \<and>
   (\<forall>es r. run_internal_eval w c hparams h = (es, Inr r) \<longrightarrow>
      (\<exists>g i s ref t a rest.
         es = [CreateOrLoadModel INFER (model_dir c) g,
               RandInt 0 (int (length (dev_src_data c)) - 1) i,
               PrintOut (DecodeIdMsg i), InitInferIterator [s] 1, Decode t a,
               PrintOut (SrcMsg s), PrintOut (RefMsg ref), PrintOut (NmtMsg t)] @ rest \<and>
         i = randint w (h @ [CreateOrLoadModel INFER (model_dir c) g]) 0
               (int (length (dev_src_data c)) - 1) \<and>
         py_index (dev_src_data c) i = Inr s \<and> py_index (dev_tgt_data c) i = Inr ref \<and>
         list_all (\<lambda>e. \<not> is_sample_event e) rest \<and> list_ex is_score_event rest))"
proof -
  have shape: "\<exists>g i s ref t a rest.
         es = [CreateOrLoadModel INFER (model_dir c) g,
               RandInt 0 (int (length (dev_src_data c)) - 1) i,
               PrintOut (DecodeIdMsg i), InitInferIterator [s] 1, Decode t a,
               PrintOut (SrcMsg s), PrintOut (RefMsg ref), PrintOut (NmtMsg t)] @ rest \<and>
         i = randint w (h @ [CreateOrLoadModel INFER (model_dir c) g]) 0
               (int (length (dev_src_data c)) - 1) \<and>
         py_index (dev_src_data c) i = Inr s \<and> py_index (dev_tgt_data c) i = Inr ref \<and>
         list_all (\<lambda>e. \<not> is_sample_event e) rest \<and> list_ex is_score_event rest"
    if split: "\<exists>g ses rest.
       es = CreateOrLoadModel INFER (model_dir c) g # ses @ rest \<and>
       g = create_or_load_model w h INFER (model_dir c) \<and>
       sample_decode w g (dev_src_data c) (dev_tgt_data c)
         (h @ [CreateOrLoadModel INFER (model_dir c) g]) = (ses, Inr ()) \<and>
       list_all (\<lambda>e. \<not> is_sample_event e) rest \<and> list_ex is_score_event rest" for es
  proof -
    from split obtain g ses rest where
      es: "es = CreateOrLoadModel INFER (model_dir c) g # ses @ rest"
      and sd: "sample_decode w g (dev_src_data c) (dev_tgt_data c)
         (h @ [CreateOrLoadModel INFER (model_dir c) g]) = (ses, Inr ())"
      and rest: "list_all (\<lambda>e. \<not> is_sample_event e) rest" "list_ex is_score_event rest"
      by blast
    from sample_decode_shape [OF sd] obtain i s ref t a where
      ses: "ses = [RandInt 0 (int (length (dev_src_data c)) - 1) i, PrintOut (DecodeIdMsg i),
           InitInferIterator [s] 1, Decode t a, PrintOut (SrcMsg s), PrintOut (RefMsg ref),
           PrintOut (NmtMsg t)] @ (if a then [AddAttentionSummary g] else [])"
      and i: "i = randint w (h @ [CreateOrLoadModel INFER (model_dir c) g]) 0
                (int (length (dev_src_data c)) - 1)"
      and idx: "py_index (dev_src_data c) i = Inr s" "py_index (dev_tgt_data c) i = Inr ref"
      by blast
    let ?rest = "(if a then [AddAttentionSummary g] else []) @ rest"
    have "es = [CreateOrLoadModel INFER (model_dir c) g,
               RandInt 0 (int (length (dev_src_data c)) - 1) i,
               PrintOut (DecodeIdMsg i), InitInferIterator [s] 1, Decode t a,
               PrintOut (SrcMsg s), PrintOut (RefMsg ref), PrintOut (NmtMsg t)] @ ?rest"
      using es ses by simp
    moreover have "list_all (\<lambda>e. \<not> is_sample_event e) ?rest" "list_ex is_score_event ?rest"
      using rest by simp_all
    ultimately show ?thesis using i idx by blast
  qed
  show ?thesis
    by (intro conjI allI impI shape run_external_eval_split run_internal_eval_split)
qed

theorem sample_decode_before_scores_witness:
  "\<exists>es r rest. run_external_eval (script_world []) exact_fops ctx0 hp0 [] = (es, Inr r) \<and>
     es = [CreateOrLoadModel INFER ''out'' 0, RandInt 0 1 1, PrintOut (DecodeIdMsg 1),
           InitInferIterator [''ein baum''] 1, Decode ''a tree'' False,
           PrintOut (SrcMsg ''ein baum''), PrintOut (RefMsg ''a tree''),
           PrintOut (NmtMsg ''a tree'')] @ rest \<and>
     list_all (\<lambda>e. \<not> is_sample_event e) rest \<and> list_ex is_score_event rest"
proof -
  have "\<exists>es r. run_external_eval (script_world []) exact_fops ctx0 hp0 [] = (es, Inr r) \<and>
      take 8 es = [CreateOrLoadModel INFER ''out'' 0, RandInt 0 1 1, PrintOut (DecodeIdMsg 1),
           InitInferIterator [''ein baum''] 1, Decode ''a tree'' False,
           PrintOut (SrcMsg ''ein baum''), PrintOut (RefMsg ''a tree''),
           PrintOut (NmtMsg ''a tree'')]"
    by (simp add: eval_defs)
  then obtain es r where
    run: "run_external_eval (script_world []) exact_fops ctx0 hp0 [] = (es, Inr r)"
    and first: "take 8 es = [CreateOrLoadModel INFER ''out'' 0, RandInt 0 1 1,
           PrintOut (DecodeIdMsg 1),
           InitInferIterator [''ein baum''] 1, Decode ''a tree'' False,
           PrintOut (SrcMsg ''ein baum''), PrintOut (RefMsg ''a tree''),
           PrintOut (NmtMsg ''a tree'')]"
    by blast
  from sample_decode_before_scores [THEN conjunct1, rule_format, OF run]
  obtain g i s ref t a rest where
    es: "es = [CreateOrLoadModel INFER (model_dir ctx0) g,
               RandInt 0 (int (length (dev_src_data ctx0)) - 1) i,
               PrintOut (DecodeIdMsg i), InitInferIterator [s] 1, Decode t a,
               PrintOut (SrcMsg s), PrintOut (RefMsg ref), PrintOut (NmtMsg t)] @ rest"
    and rest: "list_all (\<lambda>e. \<not> is_sample_event e) rest" "list_ex is_score_event rest"
    by blast
  from es first have "es = [CreateOrLoadModel INFER ''out'' 0, RandInt 0 1 1,
           PrintOut (DecodeIdMsg 1),
           InitInferIterator [''ein baum''] 1, Decode ''a tree'' False,
           PrintOut (SrcMsg ''ein baum''), PrintOut (RefMsg ''a tree''),
           PrintOut (NmtMsg ''a tree'')] @ rest"
    by simp
  with run rest show ?thesis by blast
qed


subsection \<open>The structure of a run of train\<close>

lemma train_cases:
  assumes "train w fl hparams eo fuel = Some (es, r)"
  shows "(\<exists>e. train_setup w hparams eo [] = (es, Inl e) \<and> r = Inl e) \<or>
    (\<exists>es0 c es1 e. train_setup w hparams eo [] = (es0, Inr c) \<and>
        train_start w fl c hparams es0 = (es1, Inl e) \<and> es = es0 @ es1 \<and> r = Inl e) \<or>
    (\<exists>es0 c es1 v es2 e. train_setup w hparams eo [] = (es0, Inr c) \<and>
        train_start w fl c hparams es0 = (es1, Inr v) \<and>
        train_loop fuel w fl c v (es0 @ es1) = Some (es2, Inl e) \<and>
        es = es0 @ es1 @ es2 \<and> r = Inl e) \<or>
    (\<exists>es0 c es1 v es2 v' es3. train_setup w hparams eo [] = (es0, Inr c) \<and>
        train_start w fl c hparams es0 = (es1, Inr v) \<and>
        train_loop fuel w fl c v (es0 @ es1) = Some (es2, Inr v') \<and>
        train_finish w fl c v' (es0 @ es1 @ es2) = (es3, r) \<and>
        es = es0 @ es1 @ es2 @ es3)"
  using assms unfolding train_def bnd_def ret_def
  by (auto split: prod.splits sum.splits option.splits)

lemma train_setup_fails:
  "train_setup w hparams eo [] = (es, Inl e) \<Longrightarrow> train w fl hparams eo fuel = Some (es, Inl e)"
  unfolding train_def bnd_def by simp

lemma loop_skipped:
  "\<not> loop_condition c v \<Longrightarrow> train_loop n w fl c v h = Some ([], Inr v)"
  by (cases n) simp_all

lemma loop_all_ev:
  assumes "\<And>v. all_ev Q (train_iteration w fl c v)"
  shows "train_loop n w fl c v h = Some (es, r) \<Longrightarrow> list_all Q es"
proof (induction n arbitrary: v h es r)
  case 0
  then show ?case by (simp split: if_splits)
next
  case (Suc n)
  have it: "list_all Q (fst (train_iteration w fl c v h))"
    using assms by (rule all_evD)
  from Suc.prems it show ?case
    by (auto split: if_splits prod.splits sum.splits flow.splits option.splits
          dest: Suc.IH)
qed

subsection \<open>Events after the set-up are tidy\<close>

lemma tidy_sample_decode: "all_ev (tidy d n) (sample_decode w g s t)"
  unfolding sample_decode_def by (intro all_ev_intros) (simp_all split: prod.splits)

lemma tidy_internal_eval: "all_ev (tidy d n) (internal_eval w g fd l)"
  unfolding internal_eval_def by (intro all_ev_intros) simp_all

lemma tidy_external_eval_metrics: "all_ev (tidy d n) (external_eval_metrics fl g l sc sb ms hparams)"
  by (induction ms arbitrary: hparams) (auto intro!: all_ev_intros split: option.splits)

lemma tidy_external_eval: "all_ev (tidy d n) (external_eval w fl g hparams xs t l sb)"
  unfolding external_eval_def by (intro all_ev_intros tidy_external_eval_metrics) simp_all

lemma tidy_run_internal_eval: "all_ev (tidy (model_dir c) n) (run_internal_eval w c hparams)"
  unfolding run_internal_eval_def
  by (intro all_ev_intros tidy_sample_decode tidy_internal_eval) simp_all

lemma tidy_run_external_eval: "all_ev (tidy (model_dir c) n) (run_external_eval w fl c hparams)"
  unfolding run_external_eval_def
  by (intro all_ev_intros tidy_sample_decode tidy_external_eval) simp_all

lemma tidy_train_start:
  "all_ev (tidy (model_dir c) (summary_name c)) (train_start w fl c hparams)"
  unfolding train_start_def
  by (intro all_ev_intros tidy_run_internal_eval tidy_run_external_eval) simp_all

lemma tidy_print_statistics: "all_ev (tidy d n) (print_statistics w fl c v)"
  unfolding print_statistics_def Let_def by (intro all_ev_intros) simp_all

lemma tidy_save_eval: "all_ev (tidy (model_dir c) n) (save_eval w c v)"
  unfolding save_eval_def by (intro all_ev_intros tidy_run_internal_eval) simp_all

lemma tidy_save_external_eval: "all_ev (tidy (model_dir c) n) (save_external_eval w fl c v)"
  unfolding save_external_eval_def by (intro all_ev_intros tidy_run_external_eval) simp_all

lemma tidy_next_epoch: "all_ev (tidy (model_dir c) n) (next_epoch w fl c v)"
  unfolding next_epoch_def by (intro all_ev_intros tidy_run_external_eval) simp_all

lemma tidy_after_step: "all_ev (tidy (model_dir c) n) (after_step w fl c r v)"
  unfolding after_step_def Let_def
  by (intro all_ev_intros tidy_print_statistics tidy_save_eval tidy_save_external_eval)
     simp_all

lemma tidy_train_iteration: "all_ev (tidy (model_dir c) n) (train_iteration w fl c v)"
  unfolding train_iteration_def
  by (intro all_ev_intros tidy_next_epoch tidy_after_step) simp_all

lemma tidy_train_finish: "all_ev (tidy (model_dir c) n) (train_finish w fl c v)"
  unfolding train_finish_def
  by (intro all_ev_intros tidy_run_internal_eval tidy_run_external_eval) simp_all

lemma tidy_built_by: "tidy d n e \<Longrightarrow> built_by mc e"
  by (cases e) simp_all

lemma tidy_dirs_ok: "tidy d n e \<Longrightarrow> dirs_ok d n e"
  by (cases e) simp_all

lemma list_all_mono: "list_all P xs \<Longrightarrow> (\<And>x. P x \<Longrightarrow> Q x) \<Longrightarrow> list_all Q xs"
  by (induction xs) auto

text \<open>After a set-up that returned \<open>c\<close>, all further events of \<open>train\<close> are tidy.\<close>

lemma train_tidy_after_setup:
  assumes "train w fl hparams eo fuel = Some (es, r)"
  shows "\<exists>es0 rest. fst (train_setup w hparams eo []) = es0 \<and> es = es0 @ rest \<and>
     (\<forall>c. snd (train_setup w hparams eo []) = Inr c \<longrightarrow>
        list_all (tidy (model_dir c) (summary_name c)) rest) \<and>
     ((\<exists>e. snd (train_setup w hparams eo []) = Inl e) \<longrightarrow> rest = [] \<and>
        r = Inl (projl (snd (train_setup w hparams eo []))))"
proof -
  have start: "list_all (tidy (model_dir c) (summary_name c)) (fst (train_start w fl c hparams h))"
    for c h by (rule all_evD [OF tidy_train_start])
  have finish: "list_all (tidy (model_dir c) (summary_name c)) (fst (train_finish w fl c v h))"
    for c v h by (rule all_evD [OF tidy_train_finish])
  have loop: "train_loop fuel w fl c v h = Some (es2, r2) \<Longrightarrow>
      list_all (tidy (model_dir c) (summary_name c)) es2" for c v h es2 r2
    by (rule loop_all_ev [OF tidy_train_iteration])
  from train_cases [OF assms] show ?thesis
  proof (elim disjE exE conjE)
    fix e
    assume "train_setup w hparams eo [] = (es, Inl e)" "r = Inl e"
    then show ?thesis by simp
  next
    fix es0 c es1 e
    assume a: "train_setup w hparams eo [] = (es0, Inr c)"
      "train_start w fl c hparams es0 = (es1, Inl e)" "es = es0 @ es1" "r = Inl e"
    from start [of c es0] a show ?thesis by simp
  next
    fix es0 c es1 v es2 e
    assume a: "train_setup w hparams eo [] = (es0, Inr c)"
      "train_start w fl c hparams es0 = (es1, Inr v)"
      "train_loop fuel w fl c v (es0 @ es1) = Some (es2, Inl e)"
      "es = es0 @ es1 @ es2" "r = Inl e"
    from start [of c es0] loop [OF a(3)] a show ?thesis by simp
  next
    fix es0 c es1 v es2 v' es3
    assume a: "train_setup w hparams eo [] = (es0, Inr c)"
      "train_start w fl c hparams es0 = (es1, Inr v)"
      "train_loop fuel w fl c v (es0 @ es1) = Some (es2, Inr v')"
      "train_finish w fl c v' (es0 @ es1 @ es2) = (es3, r)"
      "es = es0 @ es1 @ es2 @ es3"
    from start [of c es0] loop [OF a(3)] finish [of c v' "es0 @ es1 @ es2"] a
    show ?thesis by simp
  qed
qed


subsection \<open>Rules for fails_with\<close>

lemma failsD: "fails_with m E \<Longrightarrow> m h = (es, Inl e) \<Longrightarrow> E e"
  by (simp add: fails_with_def)

lemma fails_ret: "fails_with (ret x) E" and fails_emit: "fails_with (emit ev) E"
  and fails_ask: "fails_with (ask q) E" and fails_call: "fails_with (call q evf) E"
  by (simp_all add: fails_with_def ret_def emit_def ask_def call_def)

lemma fails_raise: "E e \<Longrightarrow> fails_with (raise e) E"
  by (simp add: fails_with_def raise_def)

lemma fails_lift: "(\<And>e. r = Inl e \<Longrightarrow> E e) \<Longrightarrow> fails_with (lift r) E"
  by (simp add: fails_with_def lift_def)

lemma fails_bnd: "fails_with m E \<Longrightarrow> (\<And>x. fails_with (f x) E) \<Longrightarrow> fails_with (bnd m f) E"
  unfolding fails_with_def bnd_def
  by (auto split: prod.splits sum.splits)

lemma fails_thn: "fails_with m E \<Longrightarrow> fails_with n E \<Longrightarrow> fails_with (thn m n) E"
  unfolding thn_def by (rule fails_bnd)

lemma fails_if:
  "(b \<Longrightarrow> fails_with m E) \<Longrightarrow> (\<not> b \<Longrightarrow> fails_with n E) \<Longrightarrow> fails_with (if b then m else n) E"
  by simp

lemma fails_case_prod:
  "(\<And>a b. fails_with (f a b) E) \<Longrightarrow> fails_with (case p of (a, b) \<Rightarrow> f a b) E"
  by (cases p) simp

lemma fails_case_option:
  "(z = None \<Longrightarrow> fails_with m E) \<Longrightarrow> (\<And>x. z = Some x \<Longrightarrow> fails_with (f x) E)
   \<Longrightarrow> fails_with (case z of None \<Rightarrow> m | Some x \<Rightarrow> f x) E"
  by (cases z) simp_all

lemmas fails_intros = fails_ret fails_emit fails_ask fails_call fails_raise fails_lift
  fails_bnd fails_thn fails_if fails_case_prod fails_case_option

subsection \<open>The set-up\<close>

lemma model_creator_error: "model_creator_of hparams = Inl e \<Longrightarrow> e = ValueError"
  by (auto simp: model_creator_of_def split: if_splits)

lemma setup_head:
  "\<exists>n. train_setup w hparams eo =
     bnd (lift (model_creator_of hparams)) (\<lambda>mc.
       thn (create_train_model mc hparams)
      (thn (create_eval_model mc hparams)
      (thn (emit (CreateInferModel mc)) n)))"
  unfolding train_setup_def Let_def by (rule exI) (rule refl)

lemma setup_invalid:
  assumes "model_creator_of hparams = Inl e"
  shows "train_setup w hparams eo h = ([], Inl e)"
proof -
  from setup_head obtain n where "train_setup w hparams eo =
     bnd (lift (model_creator_of hparams)) (\<lambda>mc.
       thn (create_train_model mc hparams)
      (thn (create_eval_model mc hparams)
      (thn (emit (CreateInferModel mc)) n)))" ..
  with assms show ?thesis by (simp add: bnd_def lift_def)
qed

lemma setup_prefix:
  assumes "model_creator_of hparams = Inr mc"
  shows "\<exists>rest. fst (train_setup w hparams eo h) =
     [NewGraph TRAIN, NewIterator TRAIN, NewModel mc TRAIN,
      NewGraph EVAL, NewIterator EVAL, NewModel mc EVAL, CreateInferModel mc] @ rest"
proof -
  from setup_head obtain n where "train_setup w hparams eo =
     bnd (lift (model_creator_of hparams)) (\<lambda>mc.
       thn (create_train_model mc hparams)
      (thn (create_eval_model mc hparams)
      (thn (emit (CreateInferModel mc)) n)))" ..
  with assms show ?thesis
    by (simp add: io_simps create_train_model_def create_eval_model_def)
qed

lemma all_ev_bnd_lift:
  "(\<And>x. r = Inr x \<Longrightarrow> all_ev Q (f x)) \<Longrightarrow> all_ev Q (bnd (lift r) f)"
  by (cases r) (simp_all add: all_ev_def io_simps)

lemma setup_built_by:
  assumes "model_creator_of hparams = Inr mc"
  shows "all_ev (built_by mc) (train_setup w hparams eo)"
  unfolding train_setup_def Let_def create_train_model_def create_eval_model_def
  apply (rule all_ev_bnd_lift)
  apply (simp only: assms sum.inject)
  apply hypsubst
  apply (intro all_ev_intros)
                  apply simp_all
  done

lemma setup_no_session:
  "all_ev (\<lambda>e. \<not> opens_session_or_log e \<and> dirs_ok d n e \<and> quiet e) (train_setup w hparams eo)"
  unfolding train_setup_def Let_def create_train_model_def create_eval_model_def
  by (intro all_ev_intros) simp_all

lemma setup_fails_eval_only:
  "length (metrics hparams) \<noteq> 1 \<Longrightarrow> fails_with (train_setup w hparams True) (\<lambda>e. e = ValueError)"
  unfolding train_setup_def Let_def create_train_model_def create_eval_model_def
  by (intro fails_intros) (auto dest: model_creator_error)

lemma post_any: "(\<And>es x. R es x) \<Longrightarrow> post m R"
  by (simp add: post_def)

lemma start_loads:
  "post (train_start w fl c hparams) (\<lambda>es v.
     (\<exists>g. CreateOrLoadModel TRAIN (model_dir c) g \<in> set es) \<and>
     NewSummaryWriter (loc_out_dir c) (summary_name c) \<in> set es)"
  unfolding train_start_def
  by ((intro post_intros | rule post_any)+) auto


lemma setup_events_ok:
  "list_all (\<lambda>e. \<not> opens_session_or_log e \<and> dirs_ok d n e \<and> quiet e)
     (fst (train_setup w hparams eo h))"
  by (rule all_evD [OF setup_no_session])

lemma setup_no_open:
  "list_all (\<lambda>e. \<not> opens_session_or_log e) (fst (train_setup w hparams eo h))"
  by (rule list_all_mono [OF setup_events_ok [where d = "[]" and n = "[]"]]) simp

lemma setup_dirs_ok: "list_all (dirs_ok d n) (fst (train_setup w hparams eo h))"
  by (rule list_all_mono [OF setup_events_ok [where d = d and n = n]]) simp

lemma setup_quiet: "list_all quiet (fst (train_setup w hparams eo h))"
  by (rule list_all_mono [OF setup_events_ok [where d = "[]" and n = "[]"]]) simp

text \<open>
  Claim C1. \<open>train\<close> takes the plain model class when \<open>hparams.attention\<close> is falsy, else
  the attention model class when \<open>hparams.attention_architecture\<close> is \<open>"standard"\<close>,
  else the GNMT model class when it is \<open>"gnmt"\<close> or \<open>"gnmt_v2"\<close>; for any other value it
  raises \<open>ValueError\<close> with no event at all before. With the class \<open>mc\<close> taken, every run
  starts by building the train graph, the eval graph and the infer graph with \<open>mc\<close>, and
  no event of the run builds a model with another class.
\<close>

theorem model_class_selection:
  "(attention hparams = [] \<longrightarrow> model_creator_of hparams = Inr Model) \<and>
   (attention hparams \<noteq> [] \<and> attention_architecture hparams = ''standard'' \<longrightarrow>
      model_creator_of hparams = Inr AttentionModel) \<and>
   (attention hparams \<noteq> [] \<and>
    (attention_architecture hparams = ''gnmt'' \<or> attention_architecture hparams = ''gnmt_v2'') \<longrightarrow>
      model_creator_of hparams = Inr GNMTModel) \<and>
   (attention hparams \<noteq> [] \<and>
    attention_architecture hparams \<notin> {''standard'', ''gnmt'', ''gnmt_v2''} \<longrightarrow>
      train w fl hparams eo fuel = Some ([], Inl ValueError)) \<and>
   (\<forall>mc es r. model_creator_of hparams = Inr mc \<and> train w fl hparams eo fuel = Some (es, r) \<longrightarrow>
      (\<exists>rest. es = [NewGraph TRAIN, NewIterator TRAIN, NewModel mc TRAIN,
                     NewGraph EVAL, NewIterator EVAL, NewModel mc EVAL,
                     CreateInferModel mc] @ rest \<and>
              list_all (built_by mc) rest))"
proof (intro conjI impI allI)
  assume "attention hparams = []"
  then show "model_creator_of hparams = Inr Model" by (simp add: model_creator_of_def)
next
  assume "attention hparams \<noteq> [] \<and> attention_architecture hparams = ''standard''"
  then show "model_creator_of hparams = Inr AttentionModel" by (simp add: model_creator_of_def)
next
  assume "attention hparams \<noteq> [] \<and>
    (attention_architecture hparams = ''gnmt'' \<or> attention_architecture hparams = ''gnmt_v2'')"
  then show "model_creator_of hparams = Inr GNMTModel" by (auto simp: model_creator_of_def)
next
  assume "attention hparams \<noteq> [] \<and>
    attention_architecture hparams \<notin> {''standard'', ''gnmt'', ''gnmt_v2''}"
  then have "model_creator_of hparams = Inl ValueError" by (simp add: model_creator_of_def)
  then have "train_setup w hparams eo [] = ([], Inl ValueError)" by (rule setup_invalid)
  then show "train w fl hparams eo fuel = Some ([], Inl ValueError)" by (rule train_setup_fails)
next
  fix mc es r
  assume a: "model_creator_of hparams = Inr mc \<and> train w fl hparams eo fuel = Some (es, r)"
  then have mc: "model_creator_of hparams = Inr mc"
    and run: "train w fl hparams eo fuel = Some (es, r)" by simp_all
  from train_tidy_after_setup [OF run] obtain rest where
    es: "es = fst (train_setup w hparams eo []) @ rest"
    and tidy: "\<forall>c. snd (train_setup w hparams eo []) = Inr c \<longrightarrow>
        list_all (tidy (model_dir c) (summary_name c)) rest"
    and err: "(\<exists>e. snd (train_setup w hparams eo []) = Inl e) \<longrightarrow> rest = []"
    by blast
  from setup_prefix [OF mc] obtain rest0 where
    pre: "fst (train_setup w hparams eo []) =
     [NewGraph TRAIN, NewIterator TRAIN, NewModel mc TRAIN,
      NewGraph EVAL, NewIterator EVAL, NewModel mc EVAL, CreateInferModel mc] @ rest0" ..
  from all_evD [OF setup_built_by [OF mc], of w eo "[]"] pre
  have b0: "list_all (built_by mc) rest0" by simp
  have b1: "list_all (built_by mc) rest"
  proof (cases "snd (train_setup w hparams eo [])")
    case (Inl e)
    with err show ?thesis by simp
  next
    case (Inr c)
    with tidy have "list_all (tidy (model_dir c) (summary_name c)) rest" by simp
    then show ?thesis by (rule list_all_mono) (rule tidy_built_by)
  qed
  from es pre b0 b1
  show "\<exists>rest. es = [NewGraph TRAIN, NewIterator TRAIN, NewModel mc TRAIN,
                     NewGraph EVAL, NewIterator EVAL, NewModel mc EVAL,
                     CreateInferModel mc] @ rest \<and>
              list_all (built_by mc) rest"
    by (intro exI [of _ "rest0 @ rest"]) simp
qed

text \<open>
  Claim C7. Called with \<open>eval_only=True\<close> and a list of metrics whose length is not 1,
  \<open>train\<close> raises \<open>ValueError\<close>, and no event before opens a session or a log file or
  writes to the log. With \<open>eval_only=True\<close> and the one metric \<open>m\<close>, every model the run
  loads is loaded from \<open>best_m_dir\<close> and the summary directory is named \<open>eval_log\<close>; a
  run that returns does load the train model from there and opens that summary
  directory under \<open>out_dir\<close>. (In a training run the two are \<open>out_dir\<close> and
  \<open>train_log\<close>.)
\<close>

theorem eval_only_mode:
  "(length (metrics hparams) \<noteq> 1 \<longrightarrow>
      (\<exists>es. train w fl hparams True fuel = Some (es, Inl ValueError) \<and>
            list_all (\<lambda>e. \<not> opens_session_or_log e) es)) \<and>
   (\<forall>m d es r. metrics hparams = [m] \<and> best_dir hparams m = Some d \<and>
        train w fl hparams True fuel = Some (es, r) \<longrightarrow>
      list_all (dirs_ok d ''eval_log'') es \<and>
      ((\<exists>res. r = Inr res) \<longrightarrow>
         (\<exists>g. CreateOrLoadModel TRAIN d g \<in> set es) \<and>
         NewSummaryWriter (out_dir hparams) ''eval_log'' \<in> set es)) \<and>
   (\<forall>es r. train w fl hparams False fuel = Some (es, r) \<longrightarrow>
      list_all (dirs_ok (out_dir hparams) ''train_log'') es)"
proof -
  have part1: "\<exists>es. train w fl hparams True fuel = Some (es, Inl ValueError) \<and>
            list_all (\<lambda>e. \<not> opens_session_or_log e) es"
    if len: "length (metrics hparams) \<noteq> 1"
  proof -
  obtain es0 r0 where s: "train_setup w hparams True [] = (es0, r0)" by fastforce
  have "r0 = Inl ValueError"
  proof (cases r0)
    case (Inl e)
    with failsD [OF setup_fails_eval_only [OF len]] s show ?thesis by blast
  next
    case (Inr c)
    with postD [OF setup_ctx] s len show ?thesis by fastforce
  qed
  with s have "train w fl hparams True fuel = Some (es0, Inl ValueError)"
    by (simp add: train_setup_fails)
  moreover from setup_no_open [of w hparams True "[]"] s
  have "list_all (\<lambda>e. \<not> opens_session_or_log e) es0"
    by simp
  ultimately show ?thesis by blast
  qed
  have part2: "list_all (dirs_ok d ''eval_log'') es \<and>
      ((\<exists>res. r = Inr res) \<longrightarrow>
         (\<exists>g. CreateOrLoadModel TRAIN d g \<in> set es) \<and>
         NewSummaryWriter (out_dir hparams) ''eval_log'' \<in> set es)"
    if m: "metrics hparams = [m]" and d: "best_dir hparams m = Some d"
    and run: "train w fl hparams True fuel = Some (es, r)" for m d es r
  proof -
  have ctx: "model_dir c = d \<and> summary_name c = ''eval_log'' \<and> loc_out_dir c = out_dir hparams"
    if "train_setup w hparams True [] = (es0, Inr c)" for es0 c
    using postD [OF setup_ctx that] m d by simp
  from train_tidy_after_setup [OF run] obtain rest where
    es: "es = fst (train_setup w hparams True []) @ rest"
    and tidy: "\<forall>c. snd (train_setup w hparams True []) = Inr c \<longrightarrow>
        list_all (tidy (model_dir c) (summary_name c)) rest"
    and err: "(\<exists>e. snd (train_setup w hparams True []) = Inl e) \<longrightarrow> rest = []"
    by blast
  have b0: "list_all (dirs_ok d ''eval_log'') (fst (train_setup w hparams True []))"
    by (rule setup_dirs_ok)
  have b1: "list_all (dirs_ok d ''eval_log'') rest"
  proof (cases "snd (train_setup w hparams True [])")
    case (Inl e)
    with err show ?thesis by simp
  next
    case (Inr c)
    then have "train_setup w hparams True [] = (fst (train_setup w hparams True []), Inr c)"
      by (simp add: io_eq_iff)
    from ctx [OF this] tidy Inr have "list_all (tidy d ''eval_log'') rest" by simp
    then show ?thesis by (rule list_all_mono) (rule tidy_dirs_ok)
  qed
  from es b0 b1 have all: "list_all (dirs_ok d ''eval_log'') es" by simp
  have ex: "(\<exists>g. CreateOrLoadModel TRAIN d g \<in> set es) \<and>
         NewSummaryWriter (out_dir hparams) ''eval_log'' \<in> set es" if "\<exists>res. r = Inr res"
  proof -
    from train_cases [OF run] that obtain es0 c es1 v es2 v' es3 where
      s: "train_setup w hparams True [] = (es0, Inr c)"
      and st: "train_start w fl c hparams es0 = (es1, Inr v)"
      and es': "es = es0 @ es1 @ es2 @ es3"
      by auto
    from postD [OF start_loads st] ctx [OF s] es' show ?thesis by auto
  qed
  from all ex show ?thesis by blast
  qed
  have part3: "list_all (dirs_ok (out_dir hparams) ''train_log'') es"
    if run: "train w fl hparams False fuel = Some (es, r)" for es r
  proof -
  have ctx: "model_dir c = out_dir hparams \<and> summary_name c = ''train_log''"
    if "train_setup w hparams False [] = (es0, Inr c)" for es0 c
    using postD [OF setup_ctx that] by simp
  from train_tidy_after_setup [OF run] obtain rest where
    es: "es = fst (train_setup w hparams False []) @ rest"
    and tidy: "\<forall>c. snd (train_setup w hparams False []) = Inr c \<longrightarrow>
        list_all (tidy (model_dir c) (summary_name c)) rest"
    and err: "(\<exists>e. snd (train_setup w hparams False []) = Inl e) \<longrightarrow> rest = []"
    by blast
  have b0: "list_all (dirs_ok (out_dir hparams) ''train_log'') (fst (train_setup w hparams False []))"
    by (rule setup_dirs_ok)
  have b1: "list_all (dirs_ok (out_dir hparams) ''train_log'') rest"
  proof (cases "snd (train_setup w hparams False [])")
    case (Inl e)
    with err show ?thesis by simp
  next
    case (Inr c)
    then have "train_setup w hparams False [] = (fst (train_setup w hparams False []), Inr c)"
      by (simp add: io_eq_iff)
    from ctx [OF this] tidy Inr have "list_all (tidy (out_dir hparams) ''train_log'') rest" by simp
    then show ?thesis by (rule list_all_mono) (rule tidy_dirs_ok)
  qed
  from es b0 b1 show ?thesis by simp
  qed
  from part1 part2 part3 show ?thesis by blast
qed


subsection \<open>Reading quiet events\<close>

lemma train_ckpts_Nil: "train_ckpts [] = []"
  and train_ckpts_Cons: "train_ckpts (e # es) = ckpt_of e @ train_ckpts es"
  and train_ckpts_append: "train_ckpts (es @ es') = train_ckpts es @ train_ckpts es'"
  by (simp_all add: train_ckpts_def)

lemma steps_done_Nil: "steps_done [] = []"
  and steps_done_Cons: "steps_done (e # es) = step_of e @ steps_done es"
  and steps_done_append: "steps_done (es @ es') = steps_done es @ steps_done es'"
  by (simp_all add: steps_done_def)

lemmas proj_simps = train_ckpts_Nil train_ckpts_Cons train_ckpts_append
  steps_done_Nil steps_done_Cons steps_done_append

lemma quiet_event:
  "quiet e \<Longrightarrow> ckpt_of e = [] \<and> step_of e = [] \<and> \<not> is_save_eval_msg e \<and> \<not> nan_stats fl e \<and>
     \<not> is_train_step e \<and> \<not> is_init_train_iterator e"
  by (cases e rule: quiet.cases) simp_all

lemma quiet_events:
  "list_all quiet es \<Longrightarrow> train_ckpts es = [] \<and> steps_done es = [] \<and>
     filter is_save_eval_msg es = [] \<and> \<not> list_ex (nan_stats fl) es \<and>
     list_all (\<lambda>e. \<not> is_train_step e) es \<and> list_all (\<lambda>e. \<not> is_init_train_iterator e) es"
proof (induction es)
  case Nil
  then show ?case by (simp add: proj_simps)
next
  case (Cons e es)
  then show ?case using quiet_event [of e fl] by (simp add: proj_simps)
qed

lemmas quiet_ckpts [simp] = quiet_events [THEN conjunct1]
lemmas quiet_steps [simp] = quiet_events [THEN conjunct2, THEN conjunct1]
lemmas quiet_msgs [simp] = quiet_events [THEN conjunct2, THEN conjunct2, THEN conjunct1]
lemmas quiet_nan [simp] =
  quiet_events [THEN conjunct2, THEN conjunct2, THEN conjunct2, THEN conjunct1]

lemma quiet_no_step [simp]:
  "list_all quiet es \<Longrightarrow> list_all (\<lambda>e. \<not> is_train_step e \<and> \<not> is_init_train_iterator e) es"
  by (induction es) (auto dest: quiet_event)

lemma best_same [simp]: "\<exists>b. x = x\<lparr>best := b\<rparr>"
  by (rule exI [of _ "best x"]) simp

subsection \<open>What each part of the loop's body does\<close>

lemma external_eval_post:
  "post (external_eval w fl g hparams xs t l sb) (\<lambda>es r. \<exists>b. snd r = hparams\<lparr>best := b\<rparr>)"
  unfolding post_def
proof (intro allI impI)
  fix h es x
  assume "external_eval w fl g hparams xs t l sb h = (es, Inr x)"
  then have "external_eval w fl g hparams xs t l sb h = (es, Inr (fst x, snd x))" by simp
  from external_eval_keeps [OF this] show "\<exists>b. snd x = hparams\<lparr>best := b\<rparr>" by blast
qed

lemma run_external_eval_keeps:
  "post (run_external_eval w fl c hparams) (\<lambda>es r. \<exists>b. snd r = hparams\<lparr>best := b\<rparr>)"
  unfolding run_external_eval_def
  by ((intro post_intros post_weaken [OF external_eval_post] | rule post_any)+) auto

lemma run_external_eval_post:
  "post (run_external_eval w fl c hparams)
     (\<lambda>es r. list_all quiet es \<and> (\<exists>b. snd r = hparams\<lparr>best := b\<rparr>))"
  by (rule post_conj [OF all_ev_post [OF quiet_run_external_eval] run_external_eval_keeps])

lemma run_internal_eval_post:
  "post (run_internal_eval w c hparams) (\<lambda>es r. list_all quiet es)"
  by (rule all_ev_post [OF quiet_run_internal_eval])

lemma print_statistics_post:
  "post (print_statistics w fl c v) (\<lambda>es r.
     loc_steps_per_stats c \<noteq> 0 \<and>
     hp (snd r) = hp v \<and> global_step (snd r) = global_step v \<and>
     all_dev_perplexities (snd r) = all_dev_perplexities v \<and>
     all_test_perplexities (snd r) = all_test_perplexities v \<and>
     all_steps (snd r) = all_steps v \<and>
     train_ckpts es = [] \<and> steps_done es = [] \<and> filter is_save_eval_msg es = [] \<and>
     list_all (\<lambda>e. \<not> is_train_step e \<and> \<not> is_init_train_iterator e) es \<and>
     (fst r = Break \<longleftrightarrow> list_ex (nan_stats fl) es) \<and>
     (fst r = Break \<longrightarrow>
        global_step v mod loc_steps_per_stats c = 0 \<and> isnan fl (train_ppl (snd r))) \<and>
     (global_step v mod loc_steps_per_stats c = 0 \<and> fst r = Continue \<longrightarrow>
        \<not> isnan fl (train_ppl (snd r))))"
  unfolding print_statistics_def Let_def
  by (intro post_intros) (auto simp: py_mod_def proj_simps split: if_splits)

lemma save_eval_post:
  "post (save_eval w c v) (\<lambda>es v'.
     steps_per_eval c \<noteq> 0 \<and>
     hp v' = hp v \<and> global_step v' = global_step v \<and> train_ppl v' = train_ppl v \<and>
     steps_done es = [] \<and> \<not> list_ex (nan_stats fl) es \<and>
     list_all (\<lambda>e. \<not> is_train_step e \<and> \<not> is_init_train_iterator e) es \<and>
     train_ckpts es =
       (if global_step v mod steps_per_eval c = 0
        then [(loc_out_dir c, ''translate.ckpt'', global_step v)] else []) \<and>
     length (filter is_save_eval_msg es) =
       (if global_step v mod steps_per_eval c = 0 then 1 else 0) \<and>
     length (all_dev_perplexities v') =
       length (all_dev_perplexities v) + length (filter is_save_eval_msg es) \<and>
     length (all_test_perplexities v') =
       length (all_test_perplexities v) + length (filter is_save_eval_msg es) \<and>
     length (all_steps v') = length (all_steps v) + length (filter is_save_eval_msg es))"
  unfolding save_eval_def
  by (intro post_intros post_weaken [OF run_internal_eval_post])
     (auto simp: py_mod_def proj_simps quiet_events split: if_splits)

lemma save_external_eval_post:
  "post (save_external_eval w fl c v) (\<lambda>es v'.
     loc_steps_per_external_eval c \<noteq> 0 \<and>
     (\<exists>b. hp v' = (hp v)\<lparr>best := b\<rparr>) \<and>
     global_step v' = global_step v \<and> train_ppl v' = train_ppl v \<and>
     all_dev_perplexities v' = all_dev_perplexities v \<and>
     all_test_perplexities v' = all_test_perplexities v \<and>
     all_steps v' = all_steps v \<and>
     steps_done es = [] \<and> \<not> list_ex (nan_stats fl) es \<and> filter is_save_eval_msg es = [] \<and>
     list_all (\<lambda>e. \<not> is_train_step e \<and> \<not> is_init_train_iterator e) es \<and>
     train_ckpts es =
       (if global_step v mod loc_steps_per_external_eval c = 0
        then [(loc_out_dir c, ''translate.ckpt'', global_step v)] else []))"
  unfolding save_external_eval_def
  by (intro post_intros post_weaken [OF run_external_eval_post])
     (auto simp: py_mod_def proj_simps quiet_events split: if_splits)


lemma next_epoch_post:
  "post (next_epoch w fl c v) (\<lambda>es r.
     fst r = Continue \<and>
     (\<exists>rest. es = PrintOut (FinishedEpochMsg (global_step v)) # rest @ [InitTrainIterator 0] \<and>
             list_all quiet rest) \<and>
     (\<exists>b ds ts. snd r = v\<lparr>hp := (hp v)\<lparr>epoch_step := 0, best := b\<rparr>,
                           dev_scores := ds, test_scores := ts\<rparr>))"
  unfolding next_epoch_def
  by (intro post_intros post_weaken [OF run_external_eval_post]) auto

lemma after_step_post:
  "post (after_step w fl c r v) (\<lambda>es res.
     global_step (snd res) = step_global_step r \<and>
     (\<exists>b. hp (snd res) = (hp v)\<lparr>epoch_step := epoch_step (hp v) + 1, best := b\<rparr>) \<and>
     steps_done es = [] \<and>
     list_all (\<lambda>e. \<not> is_train_step e \<and> \<not> is_init_train_iterator e) es \<and>
     length (all_dev_perplexities (snd res)) =
       length (all_dev_perplexities v) + length (filter is_save_eval_msg es) \<and>
     length (all_test_perplexities (snd res)) =
       length (all_test_perplexities v) + length (filter is_save_eval_msg es) \<and>
     length (all_steps (snd res)) = length (all_steps v) + length (filter is_save_eval_msg es) \<and>
     (fst res = Break \<longleftrightarrow> list_ex (nan_stats fl) es) \<and>
     (fst res = Break \<longrightarrow>
        step_global_step r mod loc_steps_per_stats c = 0 \<and> isnan fl (train_ppl (snd res)) \<and>
        train_ckpts es = []) \<and>
     (fst res = Continue \<longrightarrow>
        train_ckpts es =
          step_ckpts (loc_out_dir c) (steps_per_eval c) (loc_steps_per_external_eval c)
            (step_global_step r) \<and>
        (step_global_step r mod loc_steps_per_stats c = 0 \<longrightarrow>
           \<not> isnan fl (train_ppl (snd res)))))"
  unfolding after_step_def Let_def
  apply (intro post_intros post_weaken [OF print_statistics_post]
           post_weaken [OF save_eval_post [where fl = fl]]
           post_weaken [OF save_external_eval_post])
    apply (auto simp: proj_simps step_ckpts_def)
  done

lemma iteration_split:
  assumes "train_iteration w fl c v h = (es, Inr res)"
  shows "\<exists>es'. es = TrainStep (train_step w h) # es' \<and>
     (case train_step w h of
        None \<Rightarrow> next_epoch w fl c v (h @ [TrainStep None])
      | Some r \<Rightarrow> after_step w fl c r v (h @ [TrainStep (Some r)])) = (es', Inr res)"
  using assms unfolding train_iteration_def bnd_def call_def
  by (auto split: prod.splits sum.splits option.splits)


lemma iteration_facts:
  assumes "train_iteration w fl c v h = (es, Inr (fw, v'))"
  shows "length (all_dev_perplexities v') =
           length (all_dev_perplexities v) + length (filter is_save_eval_msg es)"
    and "length (all_test_perplexities v') =
           length (all_test_perplexities v) + length (filter is_save_eval_msg es)"
    and "length (all_steps v') = length (all_steps v) + length (filter is_save_eval_msg es)"
    and "fw = Break \<longleftrightarrow> list_ex (nan_stats fl) es"
    and "fw = Break \<longrightarrow>
           global_step v' mod loc_steps_per_stats c = 0 \<and> isnan fl (train_ppl v')"
    and "\<not> list_ex (nan_stats fl) es \<longrightarrow>
           train_ckpts es =
             concat (map (step_ckpts (loc_out_dir c) (steps_per_eval c)
                            (loc_steps_per_external_eval c)) (steps_done es))"
    and "steps_done es = (case train_step w h of None \<Rightarrow> [] | Some r \<Rightarrow> [step_global_step r])"
    and "global_step v' =
           (case train_step w h of None \<Rightarrow> global_step v | Some r \<Rightarrow> step_global_step r)"
proof -
  from iteration_split [OF assms] obtain es' where
    es: "es = TrainStep (train_step w h) # es'"
    and sub: "(case train_step w h of
        None \<Rightarrow> next_epoch w fl c v (h @ [TrainStep None])
      | Some r \<Rightarrow> after_step w fl c r v (h @ [TrainStep (Some r)])) = (es', Inr (fw, v'))"
    by blast
  have "length (all_dev_perplexities v') =
           length (all_dev_perplexities v) + length (filter is_save_eval_msg es) \<and>
    length (all_test_perplexities v') =
           length (all_test_perplexities v) + length (filter is_save_eval_msg es) \<and>
    length (all_steps v') = length (all_steps v) + length (filter is_save_eval_msg es) \<and>
    (fw = Break \<longleftrightarrow> list_ex (nan_stats fl) es) \<and>
    (fw = Break \<longrightarrow>
           global_step v' mod loc_steps_per_stats c = 0 \<and> isnan fl (train_ppl v')) \<and>
    (\<not> list_ex (nan_stats fl) es \<longrightarrow>
           train_ckpts es =
             concat (map (step_ckpts (loc_out_dir c) (steps_per_eval c)
                            (loc_steps_per_external_eval c)) (steps_done es))) \<and>
    steps_done es = (case train_step w h of None \<Rightarrow> [] | Some r \<Rightarrow> [step_global_step r]) \<and>
    global_step v' =
           (case train_step w h of None \<Rightarrow> global_step v | Some r \<Rightarrow> step_global_step r)"
  proof (cases "train_step w h")
    case None
    with sub have "next_epoch w fl c v (h @ [TrainStep None]) = (es', Inr (fw, v'))" by simp
    from postD [OF next_epoch_post this] None es show ?thesis
      by (cases fw) (auto simp: proj_simps quiet_events)
  next
    case (Some r)
    with sub have "after_step w fl c r v (h @ [TrainStep (Some r)]) = (es', Inr (fw, v'))"
      by simp
    from postD [OF after_step_post this] Some es show ?thesis
      by (cases fw) (auto simp: proj_simps)
  qed
  then show "length (all_dev_perplexities v') =
           length (all_dev_perplexities v) + length (filter is_save_eval_msg es)"
    and "length (all_test_perplexities v') =
           length (all_test_perplexities v) + length (filter is_save_eval_msg es)"
    and "length (all_steps v') = length (all_steps v) + length (filter is_save_eval_msg es)"
    and "fw = Break \<longleftrightarrow> list_ex (nan_stats fl) es"
    and "fw = Break \<longrightarrow>
           global_step v' mod loc_steps_per_stats c = 0 \<and> isnan fl (train_ppl v')"
    and "\<not> list_ex (nan_stats fl) es \<longrightarrow>
           train_ckpts es =
             concat (map (step_ckpts (loc_out_dir c) (steps_per_eval c)
                            (loc_steps_per_external_eval c)) (steps_done es))"
    and "steps_done es = (case train_step w h of None \<Rightarrow> [] | Some r \<Rightarrow> [step_global_step r])"
    and "global_step v' =
           (case train_step w h of None \<Rightarrow> global_step v | Some r \<Rightarrow> step_global_step r)"
    by blast+
qed

lemma loop_step:
  assumes "train_loop (Suc n) w fl c v h = Some (es, Inr v')"
  shows "(\<not> loop_condition c v \<and> es = [] \<and> v' = v) \<or>
    (loop_condition c v \<and> train_iteration w fl c v h = (es, Inr (Break, v'))) \<or>
    (loop_condition c v \<and> (\<exists>es1 v1 es2.
        train_iteration w fl c v h = (es1, Inr (Continue, v1)) \<and>
        train_loop n w fl c v1 (h @ es1) = Some (es2, Inr v') \<and> es = es1 @ es2))"
  using assms
  by (auto split: if_splits prod.splits sum.splits flow.splits option.splits)

lemma loop_facts:
  "train_loop n w fl c v h = Some (es, Inr v') \<Longrightarrow>
     length (all_dev_perplexities v') =
       length (all_dev_perplexities v) + length (filter is_save_eval_msg es) \<and>
     length (all_test_perplexities v') =
       length (all_test_perplexities v) + length (filter is_save_eval_msg es) \<and>
     length (all_steps v') = length (all_steps v) + length (filter is_save_eval_msg es) \<and>
     (\<not> list_ex (nan_stats fl) es \<longrightarrow>
        train_ckpts es =
          concat (map (step_ckpts (loc_out_dir c) (steps_per_eval c)
                         (loc_steps_per_external_eval c)) (steps_done es))) \<and>
     (\<not> eval_only c \<longrightarrow>
        loc_num_train_steps c \<le> global_step v' \<or>
        (list_ex (nan_stats fl) es \<and> global_step v' mod loc_steps_per_stats c = 0 \<and>
         isnan fl (train_ppl v')))"
proof (induction n arbitrary: v h es)
  case 0
  then show ?case
    by (auto simp: loop_condition_def proj_simps split: if_splits)
next
  case (Suc n)
  from loop_step [OF Suc.prems] show ?case
  proof (elim disjE conjE exE)
    assume "\<not> loop_condition c v" "es = []" "v' = v"
    then show ?thesis by (auto simp: loop_condition_def proj_simps)
  next
    assume it: "train_iteration w fl c v h = (es, Inr (Break, v'))"
    from iteration_facts [OF it] show ?thesis by simp
  next
    fix es1 v1 es2
    assume it: "train_iteration w fl c v h = (es1, Inr (Continue, v1))"
      and rest: "train_loop n w fl c v1 (h @ es1) = Some (es2, Inr v')"
      and es: "es = es1 @ es2"
    from iteration_facts [OF it] Suc.IH [OF rest] es show ?thesis
      by (auto simp: proj_simps)
  qed
qed

lemma all_ev_mono: "all_ev P m \<Longrightarrow> (\<And>e. P e \<Longrightarrow> Q e) \<Longrightarrow> all_ev Q m"
  unfolding all_ev_def
proof
  fix h
  assume a: "\<forall>h. list_all P (fst (m h))" and b: "\<And>e. P e \<Longrightarrow> Q e"
  from a have "list_all P (fst (m h))" by blast
  then show "list_all Q (fst (m h))" by (rule list_all_mono) (rule b)
qed

lemma no_step_run_internal_eval:
  "all_ev (\<lambda>e. \<not> is_train_step e) (run_internal_eval w c hparams)"
  by (rule all_ev_mono [OF quiet_run_internal_eval]) (simp add: quiet_event)

lemma no_step_run_external_eval:
  "all_ev (\<lambda>e. \<not> is_train_step e) (run_external_eval w fl c hparams)"
  by (rule all_ev_mono [OF quiet_run_external_eval]) (simp add: quiet_event)

lemma no_step_train_start: "all_ev (\<lambda>e. \<not> is_train_step e) (train_start w fl c hparams)"
  unfolding train_start_def
  by (intro all_ev_intros no_step_run_internal_eval no_step_run_external_eval) simp_all

lemma no_step_train_finish: "all_ev (\<lambda>e. \<not> is_train_step e) (train_finish w fl c v)"
  unfolding train_finish_def
  by (intro all_ev_intros no_step_run_internal_eval no_step_run_external_eval) simp_all

lemma start_post:
  "post (train_start w fl c hparams) (\<lambda>es v.
     es \<noteq> [] \<and> last es = InitTrainIterator (batch_size hparams * epoch_step hparams) \<and>
     list_all quiet (butlast es) \<and>
     all_dev_perplexities v = [dev_ppl v] \<and> all_test_perplexities v = [test_ppl v] \<and>
     all_steps v = [global_step v] \<and> (\<exists>b. hp v = hparams\<lparr>best := b\<rparr>))"
  unfolding train_start_def
  by (intro post_intros post_weaken [OF run_external_eval_post]
        post_weaken [OF run_internal_eval_post])
     (auto simp: butlast_append)

lemma finish_post:
  "post (train_finish w fl c v) (\<lambda>es r.
     length (fst r) = length (all_dev_perplexities v) + 1 \<and>
     length (fst (snd r)) = length (all_test_perplexities v) + 1 \<and>
     snd (snd r) = all_steps v @ [global_step v] \<and>
     (eval_only c \<longrightarrow>
        fst r = all_dev_perplexities v @ [dev_ppl v] \<and>
        fst (snd r) = all_test_perplexities v @ [test_ppl v] \<and> list_all quiet es) \<and>
     (\<not> eval_only c \<longrightarrow>
        (\<exists>rest. es = SaveCheckpoint TRAIN (loc_out_dir c) ''translate.ckpt'' (global_step v) # rest \<and>
                list_all quiet rest)))"
  unfolding train_finish_def
  by (intro post_intros post_weaken [OF run_external_eval_post]
        post_weaken [OF run_internal_eval_post])
     auto

lemma next_epoch_split:
  assumes "next_epoch w fl c v h = (es, Inr res)"
  shows "\<exists>rest ds ts hparams1.
     run_external_eval w fl c ((hp v)\<lparr>epoch_step := 0\<rparr>)
       (h @ [PrintOut (FinishedEpochMsg (global_step v))]) = (rest, Inr ((ds, ts), hparams1)) \<and>
     es = PrintOut (FinishedEpochMsg (global_step v)) # rest @ [InitTrainIterator 0] \<and>
     res = (Continue, v\<lparr>hp := hparams1, dev_scores := ds, test_scores := ts\<rparr>)"
  using assms unfolding next_epoch_def thn_def bnd_def emit_def ret_def
  by (auto split: prod.splits sum.splits)


lemma train_returns:
  assumes "train w fl hparams eo fuel = Some (es, Inr res)"
  shows "\<exists>es0 c es1 v es2 v' es3. train_setup w hparams eo [] = (es0, Inr c) \<and>
        train_start w fl c hparams es0 = (es1, Inr v) \<and>
        train_loop fuel w fl c v (es0 @ es1) = Some (es2, Inr v') \<and>
        train_finish w fl c v' (es0 @ es1 @ es2) = (es3, Inr res) \<and>
        es = es0 @ es1 @ es2 @ es3"
  using train_cases [OF assms] by auto

lemma start_events:
  assumes "train_start w fl c hparams h = (es, Inr v)"
  shows "\<exists>pre. es = pre @ [InitTrainIterator (batch_size hparams * epoch_step hparams)] \<and>
     list_all quiet pre"
proof -
  from postD [OF start_post assms]
  have "es \<noteq> []" "last es = InitTrainIterator (batch_size hparams * epoch_step hparams)"
    "list_all quiet (butlast es)" by simp_all
  then show ?thesis
    by (intro exI [of _ "butlast es"]) (metis append_butlast_last_id)
qed

lemma no_step_steps_done: "list_all (\<lambda>e. \<not> is_train_step e) es \<Longrightarrow> steps_done es = []"
proof (induction es)
  case Nil
  show ?case by (simp add: proj_simps)
next
  case (Cons e es)
  from Cons.prems have "\<not> is_train_step e" by simp
  then have "step_of e = []" by (cases e) simp_all
  with Cons show ?case by (simp add: steps_done_def)
qed

lemma no_step_no_nan: "list_all quiet es \<Longrightarrow> \<not> list_ex (nan_stats fl) es"
  by simp

text \<open>A pass that ends in \<open>break\<close>: its training step returned, nothing was saved, and
  \<open>global_step\<close> is the step's.\<close>

lemma iteration_break:
  assumes "train_iteration w fl c v h = (es, Inr (Break, v'))"
  shows "\<exists>r post. es = TrainStep (Some r) # post \<and>
     list_all (\<lambda>e. \<not> is_train_step e) post \<and>
     train_ckpts es = [] \<and> global_step v' = step_global_step r"
proof -
  from iteration_split [OF assms] obtain es' where
    es: "es = TrainStep (train_step w h) # es'"
    and sub: "(case train_step w h of
        None \<Rightarrow> next_epoch w fl c v (h @ [TrainStep None])
      | Some r \<Rightarrow> after_step w fl c r v (h @ [TrainStep (Some r)])) = (es', Inr (Break, v'))"
    by blast
  show ?thesis
  proof (cases "train_step w h")
    case None
    with sub have "next_epoch w fl c v (h @ [TrainStep None]) = (es', Inr (Break, v'))" by simp
    from postD [OF next_epoch_post this] show ?thesis by simp
  next
    case (Some r)
    with sub have a: "after_step w fl c r v (h @ [TrainStep (Some r)]) = (es', Inr (Break, v'))"
      by simp
    from postD [OF after_step_post a]
    have "list_all (\<lambda>e. \<not> is_train_step e \<and> \<not> is_init_train_iterator e) es'"
      and ck: "train_ckpts es' = []" and g: "global_step v' = step_global_step r" by simp_all
    then have "list_all (\<lambda>e. \<not> is_train_step e) es'" by (auto elim: list_all_mono)
    with es Some ck g show ?thesis by (simp add: proj_simps)
  qed
qed

text \<open>The check points of the loop. When no NaN training perplexity is printed they
  are those of all steps that returned; when one is printed, the step before it is the
  last event of its kind, and the check points are those of the steps before that step.\<close>

lemma loop_ckpts:
  "train_loop n w fl c v h = Some (es, Inr v') \<Longrightarrow>
     (\<not> list_ex (nan_stats fl) es \<longrightarrow>
        train_ckpts es =
          concat (map (step_ckpts (loc_out_dir c) (steps_per_eval c)
                         (loc_steps_per_external_eval c)) (steps_done es))) \<and>
     (list_ex (nan_stats fl) es \<longrightarrow>
        (\<exists>pre r post. es = pre @ TrainStep (Some r) # post \<and>
           \<not> list_ex (nan_stats fl) pre \<and> list_all (\<lambda>e. \<not> is_train_step e) post \<and>
           step_global_step r = global_step v' \<and>
           train_ckpts es =
             concat (map (step_ckpts (loc_out_dir c) (steps_per_eval c)
                            (loc_steps_per_external_eval c)) (steps_done pre))))"
proof (induction n arbitrary: v h es)
  case 0
  then show ?case by (auto simp: proj_simps split: if_splits)
next
  case (Suc n)
  from loop_step [OF Suc.prems] show ?case
  proof (elim disjE conjE exE)
    assume "\<not> loop_condition c v" "es = []" "v' = v"
    then show ?thesis by (simp add: proj_simps)
  next
    assume it: "train_iteration w fl c v h = (es, Inr (Break, v'))"
    from iteration_break [OF it] obtain r post where
      b: "es = [] @ TrainStep (Some r) # post" "list_all (\<lambda>e. \<not> is_train_step e) post"
      "train_ckpts es = []" "global_step v' = step_global_step r" by auto
    have "\<exists>pre r post. es = pre @ TrainStep (Some r) # post \<and>
           \<not> list_ex (nan_stats fl) pre \<and> list_all (\<lambda>e. \<not> is_train_step e) post \<and>
           step_global_step r = global_step v' \<and>
           train_ckpts es =
             concat (map (step_ckpts (loc_out_dir c) (steps_per_eval c)
                            (loc_steps_per_external_eval c)) (steps_done pre))"
      using b by (intro exI [of _ "[]"] exI [of _ r] exI [of _ post]) (simp add: proj_simps)
    with iteration_facts(4) [OF it] show ?thesis by simp
  next
    fix es1 v1 es2
    assume it: "train_iteration w fl c v h = (es1, Inr (Continue, v1))"
      and rest: "train_loop n w fl c v1 (h @ es1) = Some (es2, Inr v')"
      and es: "es = es1 @ es2"
    from iteration_facts(4) [OF it] have n1: "\<not> list_ex (nan_stats fl) es1" by simp
    with iteration_facts(6) [OF it]
    have c1: "train_ckpts es1 =
             concat (map (step_ckpts (loc_out_dir c) (steps_per_eval c)
                            (loc_steps_per_external_eval c)) (steps_done es1))" by simp
    from n1 es have nan: "list_ex (nan_stats fl) es \<longleftrightarrow> list_ex (nan_stats fl) es2" by simp
    have clean: "train_ckpts es =
          concat (map (step_ckpts (loc_out_dir c) (steps_per_eval c)
                         (loc_steps_per_external_eval c)) (steps_done es))"
      if "\<not> list_ex (nan_stats fl) es"
      using Suc.IH [OF rest] that nan c1 es by (simp add: proj_simps)
    have broke: "\<exists>pre r post. es = pre @ TrainStep (Some r) # post \<and>
           \<not> list_ex (nan_stats fl) pre \<and> list_all (\<lambda>e. \<not> is_train_step e) post \<and>
           step_global_step r = global_step v' \<and>
           train_ckpts es =
             concat (map (step_ckpts (loc_out_dir c) (steps_per_eval c)
                            (loc_steps_per_external_eval c)) (steps_done pre))"
      if "list_ex (nan_stats fl) es"
    proof -
      from Suc.IH [OF rest] that nan obtain pre r post where
        p: "es2 = pre @ TrainStep (Some r) # post" "\<not> list_ex (nan_stats fl) pre"
          "list_all (\<lambda>e. \<not> is_train_step e) post" "step_global_step r = global_step v'"
          "train_ckpts es2 =
             concat (map (step_ckpts (loc_out_dir c) (steps_per_eval c)
                            (loc_steps_per_external_eval c)) (steps_done pre))"
        by blast
      with n1 c1 es show ?thesis
        by (intro exI [of _ "es1 @ pre"] exI [of _ r] exI [of _ post]) (simp add: proj_simps)
    qed
    from clean broke show ?thesis by blast
  qed
qed

text \<open>Each pass through the body of the loop starts with the training step, so the
  events of a loop that returned are none, or start with a training step.\<close>

lemma iteration_head:
  "\<exists>rest. fst (train_iteration w fl c v h) = TrainStep (train_step w h) # rest"
  unfolding train_iteration_def by (simp add: fst_bnd fst_call)

lemma loop_head:
  assumes "train_loop n w fl c v h = Some (es, r)"
  shows "es = [] \<or> (\<exists>x rest. es = TrainStep x # rest)"
proof (cases n)
  case 0
  with assms show ?thesis by (simp split: if_splits)
next
  case (Suc m)
  from iteration_head [of w fl c v h] obtain rest where
    hd: "fst (train_iteration w fl c v h) = TrainStep (train_step w h) # rest" ..
  from assms Suc hd show ?thesis
    by (auto split: if_splits prod.splits sum.splits flow.splits option.splits)
qed

lemma no_init_run_internal_eval:
  "all_ev (\<lambda>e. \<not> is_train_step e \<and> \<not> is_init_train_iterator e) (run_internal_eval w c hparams)"
  by (rule all_ev_mono [OF quiet_run_internal_eval]) (simp add: quiet_event)

lemma no_init_run_external_eval:
  "all_ev (\<lambda>e. \<not> is_train_step e \<and> \<not> is_init_train_iterator e)
     (run_external_eval w fl c hparams)"
  by (rule all_ev_mono [OF quiet_run_external_eval]) (simp add: quiet_event)

lemma no_init_train_finish:
  "all_ev (\<lambda>e. \<not> is_train_step e \<and> \<not> is_init_train_iterator e) (train_finish w fl c v)"
  unfolding train_finish_def
  by (intro all_ev_intros no_init_run_internal_eval no_init_run_external_eval) simp_all

text \<open>More passes allowed change nothing for a loop that returned.\<close>

lemma loop_fuel_Suc:
  "train_loop n w fl c v h = Some r \<Longrightarrow> train_loop (Suc n) w fl c v h = Some r"
proof (induction n arbitrary: v h r)
  case 0
  then show ?case by (simp split: if_splits)
next
  case (Suc n)
  show ?case
  proof (cases "loop_condition c v")
    case False
    with Suc.prems show ?thesis by (simp add: loop_skipped)
  next
    case True
    obtain es res where it: "train_iteration w fl c v h = (es, res)" by (cases "train_iteration w fl c v h")
    show ?thesis
    proof (cases res)
      case (Inl e)
      with True it Suc.prems show ?thesis by simp
    next
      case (Inr p)
      obtain fw v1 where p: "p = (fw, v1)" by (cases p)
      show ?thesis
      proof (cases fw)
        case Break
        with True it Inr p Suc.prems show ?thesis by simp
      next
        case Continue
        with True it Inr p Suc.prems obtain es' r' where
          inner: "train_loop n w fl c v1 (h @ es) = Some (es', r')" and r: "r = (es @ es', r')"
          by (auto split: option.splits)
        from Suc.IH [OF inner] have "train_loop (Suc n) w fl c v1 (h @ es) = Some (es', r')" .
        then have "train_loop (Suc (Suc n)) w fl c v h = Some (es @ es', r')"
          using True it Inr p Continue by (subst train_loop.simps(2)) (simp del: train_loop.simps)
        with r show ?thesis by simp
      qed
    qed
  qed
qed

lemma loop_fuel_add:
  "train_loop n w fl c v h = Some r \<Longrightarrow> train_loop (n + k) w fl c v h = Some r"
  by (induction k) (simp_all add: loop_fuel_Suc del: train_loop.simps)


text \<open>
  Claim C2, as amended. In a training run (\<open>eval_only=False\<close>) that returns, the check
  points written by the train model's saver are, in order: for every training step that
  returned and did not leave the loop because the training perplexity is NaN, at its
  global step \<open>g\<close>, one \<open>translate.ckpt\<close> under \<open>out_dir\<close> when \<open>g\<close> is divisible by
  \<open>steps_per_eval\<close> (\<open>10 * steps_per_stats\<close>) and one when \<open>g\<close> is divisible by
  \<open>steps_per_external_eval\<close> (the attribute, or \<open>5 * steps_per_eval\<close> when it is falsy);
  then one more, at the final global step, after the loop. A NaN training perplexity is
  printed only after the last training step of the run, which returned, and the final
  global step is the one of that step.
\<close>

theorem training_checkpoints:
  assumes "train w fl hparams False fuel = Some (es, Inr (devs, tests, steps))"
  shows "train_ckpts es =
       concat (map (step_ckpts (out_dir hparams) (10 * steps_per_stats hparams)
                      (external_eval_period hparams)) (completed_steps fl es))
       @ [(out_dir hparams, ''translate.ckpt'', last steps)] \<and>
     (list_ex (nan_stats fl) es \<longrightarrow>
        (\<exists>pre r post. es = pre @ TrainStep (Some r) # post \<and>
           \<not> list_ex (nan_stats fl) pre \<and> list_all (\<lambda>e. \<not> is_train_step e) post \<and>
           step_global_step r = last steps \<and>
           completed_steps fl es = steps_done pre))"
proof -
  from train_returns [OF assms(1)] obtain es0 c es1 v es2 v' es3 where
    su: "train_setup w hparams False [] = (es0, Inr c)"
    and sta: "train_start w fl c hparams es0 = (es1, Inr v)"
    and lo: "train_loop fuel w fl c v (es0 @ es1) = Some (es2, Inr v')"
    and fin: "train_finish w fl c v' (es0 @ es1 @ es2) = (es3, Inr (devs, tests, steps))"
    and es: "es = es0 @ es1 @ es2 @ es3"
    by blast
  from setup_quiet [of w hparams False "[]"] su
  have q0: "train_ckpts es0 = []" "steps_done es0 = []" "\<not> list_ex (nan_stats fl) es0"
    by simp_all
  from start_events [OF sta]
  have q1: "train_ckpts es1 = []" "steps_done es1 = []" "\<not> list_ex (nan_stats fl) es1"
    by (auto simp: proj_simps)
  from postD [OF setup_ctx su]
  have c: "eval_only c = False" "loc_out_dir c = out_dir hparams"
    "steps_per_eval c = 10 * steps_per_stats hparams"
    "loc_steps_per_external_eval c = external_eval_period hparams" by simp_all
  from postD [OF finish_post fin] c(1)
  obtain rest where f: "steps = all_steps v' @ [global_step v']"
    "es3 = SaveCheckpoint TRAIN (loc_out_dir c) ''translate.ckpt'' (global_step v') # rest"
    "list_all quiet rest" by auto
  then have q3: "train_ckpts es3 = [(out_dir hparams, ''translate.ckpt'', last steps)]"
    "steps_done es3 = []" "\<not> list_ex (nan_stats fl) es3"
    "list_all (\<lambda>e. \<not> is_train_step e) es3"
    using c(2) by (auto simp: proj_simps quiet_event elim: list_all_mono)
  from f(1) have lst: "last steps = global_step v'" by simp
  from es q0 q1 q3 have nan: "list_ex (nan_stats fl) es \<longleftrightarrow> list_ex (nan_stats fl) es2"
    by simp
  show ?thesis
  proof (cases "list_ex (nan_stats fl) es")
    case False
    with nan loop_ckpts [OF lo] c
    have "train_ckpts es2 =
          concat (map (step_ckpts (out_dir hparams) (10 * steps_per_stats hparams)
                         (external_eval_period hparams)) (steps_done es2))"
      by simp
    with False es q0 q1 q3 show ?thesis by (simp add: proj_simps completed_steps_def)
  next
    case True
    with nan loop_ckpts [OF lo] c obtain pre r post where
      p: "es2 = pre @ TrainStep (Some r) # post" "\<not> list_ex (nan_stats fl) pre"
        "list_all (\<lambda>e. \<not> is_train_step e) post" "step_global_step r = global_step v'"
        "train_ckpts es2 =
           concat (map (step_ckpts (out_dir hparams) (10 * steps_per_stats hparams)
                          (external_eval_period hparams)) (steps_done pre))"
      by auto
    from no_step_steps_done [OF p(3)] have sp: "steps_done post = []" .
    from es p(1) have shape: "es = (es0 @ es1 @ pre) @ TrainStep (Some r) # (post @ es3)"
      by simp
    from es p(1) q0 q1 q3 sp
    have sd: "steps_done es = steps_done (es0 @ es1 @ pre) @ [step_global_step r]"
      by (simp add: proj_simps)
    with True have cs: "completed_steps fl es = steps_done (es0 @ es1 @ pre)"
      by (simp add: completed_steps_def)
    have ck: "train_ckpts es =
       concat (map (step_ckpts (out_dir hparams) (10 * steps_per_stats hparams)
                      (external_eval_period hparams)) (completed_steps fl es))
       @ [(out_dir hparams, ''translate.ckpt'', last steps)]"
      unfolding cs using es q0 q1 q3 p(5) by (simp add: proj_simps)
    have "\<exists>pre r post. es = pre @ TrainStep (Some r) # post \<and>
           \<not> list_ex (nan_stats fl) pre \<and> list_all (\<lambda>e. \<not> is_train_step e) post \<and>
           step_global_step r = last steps \<and>
           completed_steps fl es = steps_done pre"
      using shape q0 q1 q3 p(2,3,4) lst cs
      by (intro exI [of _ "es0 @ es1 @ pre"] exI [of _ r] exI [of _ "post @ es3"]) simp
    with ck show ?thesis by simp
  qed
qed

text \<open>
  Claim C5. The body of the loop is entered exactly when \<open>global_step\<close> is below
  \<open>num_train_steps\<close> and \<open>eval_only\<close> is not set. With \<open>eval_only\<close> set, the loop returns
  at once, with no event, and no run of \<open>train\<close> has a training step. The loop also
  returns at once when \<open>global_step\<close> has reached \<open>num_train_steps\<close>. When \<open>eval_only\<close>
  is not set and the loop returns, then \<open>global_step\<close> has reached \<open>num_train_steps\<close>, or
  the loop was left at a statistics step (\<open>global_step\<close> divisible by \<open>steps_per_stats\<close>)
  whose training perplexity is NaN. A pass through the body that ends in \<open>break\<close> ends
  the loop whatever \<open>global_step\<close> is, and a pass whose step returned at a statistics
  step ends in \<open>break\<close> exactly when the training perplexity it computed is NaN. A pass
  that does not end in \<open>break\<close> and brings \<open>global_step\<close> to \<open>num_train_steps\<close> or beyond
  ends the loop, with the events and the state of that pass; after such a pass that
  leaves \<open>global_step\<close> below \<open>num_train_steps\<close> the loop goes on from the new state; a
  pass that raises ends the loop with its exception. A loop that returned within some
  number of passes returns the same when more passes are allowed.
\<close>

theorem loop_exit:
  "(eval_only c \<longrightarrow> train_loop n w fl c v h = Some ([], Inr v)) \<and>
   (\<forall>es r. train w fl hparams True fuel = Some (es, r) \<longrightarrow>
      list_all (\<lambda>e. \<not> is_train_step e) es) \<and>
   (loc_num_train_steps c \<le> global_step v \<longrightarrow> train_loop n w fl c v h = Some ([], Inr v)) \<and>
   (\<forall>es v'. \<not> eval_only c \<and> train_loop n w fl c v h = Some (es, Inr v') \<longrightarrow>
      loc_num_train_steps c \<le> global_step v' \<or>
      (list_ex (nan_stats fl) es \<and> global_step v' mod loc_steps_per_stats c = 0 \<and>
       isnan fl (train_ppl v'))) \<and>
   (\<forall>es v'. loop_condition c v \<and> train_iteration w fl c v h = (es, Inr (Break, v')) \<longrightarrow>
      train_loop (Suc n) w fl c v h = Some (es, Inr v')) \<and>
   (\<forall>r es fw v'. train_step w h = Some r \<and>
        train_iteration w fl c v h = (es, Inr (fw, v')) \<and>
        step_global_step r mod loc_steps_per_stats c = 0 \<longrightarrow>
      (fw = Break \<longleftrightarrow> isnan fl (train_ppl v'))) \<and>
   (loop_condition c v \<longleftrightarrow> global_step v < loc_num_train_steps c \<and> \<not> eval_only c) \<and>
   (\<forall>es v'. \<not> eval_only c \<and> global_step v < loc_num_train_steps c \<and>
        train_iteration w fl c v h = (es, Inr (Continue, v')) \<and>
        loc_num_train_steps c \<le> global_step v' \<longrightarrow>
      train_loop (Suc n) w fl c v h = Some (es, Inr v')) \<and>
   (\<forall>es v'. \<not> eval_only c \<and> global_step v < loc_num_train_steps c \<and>
        train_iteration w fl c v h = (es, Inr (Continue, v')) \<and>
        global_step v' < loc_num_train_steps c \<longrightarrow>
      train_loop (Suc n) w fl c v h =
        (case train_loop n w fl c v' (h @ es) of
           None \<Rightarrow> None
         | Some (es', r) \<Rightarrow> Some (es @ es', r))) \<and>
   (\<forall>es e. \<not> eval_only c \<and> global_step v < loc_num_train_steps c \<and>
        train_iteration w fl c v h = (es, Inl e) \<longrightarrow>
      train_loop (Suc n) w fl c v h = Some (es, Inl e)) \<and>
   (\<forall>r k. train_loop n w fl c v h = Some r \<longrightarrow> train_loop (n + k) w fl c v h = Some r)"
proof -
  have p1: "train_loop n w fl c v h = Some ([], Inr v)" if "eval_only c"
    using that by (intro loop_skipped) (simp add: loop_condition_def)
  have p2: "list_all (\<lambda>e. \<not> is_train_step e) es"
    if run: "train w fl hparams True fuel = Some (es, r)" for es r
  proof -
    have s: "list_all (\<lambda>e. \<not> is_train_step e) (fst (train_setup w hparams True []))"
      by (rule list_all_mono [OF setup_quiet]) (simp add: quiet_event)
    have st: "list_all (\<lambda>e. \<not> is_train_step e) (fst (train_start w fl c' hparams h'))" for c' h'
      by (rule all_evD [OF no_step_train_start])
    have fi: "list_all (\<lambda>e. \<not> is_train_step e) (fst (train_finish w fl c' v0 h'))" for c' v0 h'
      by (rule all_evD [OF no_step_train_finish])
    have lp: "es2 = []" if "train_setup w hparams True [] = (es0, Inr c')"
      "train_loop fuel w fl c' v0 h' = Some (es2, r2)" for es0 c' v0 h' es2 r2
    proof -
      from postD [OF setup_ctx that(1)] have "\<not> loop_condition c' v0"
        by (simp add: loop_condition_def)
      from loop_skipped [OF this, of fuel w fl h'] that(2) show ?thesis by simp
    qed
    from train_cases [OF run] show ?thesis
    proof (elim disjE exE conjE)
      fix e
      assume "train_setup w hparams True [] = (es, Inl e)"
      with s show ?thesis by simp
    next
      fix es0 c' es1 e
      assume a: "train_setup w hparams True [] = (es0, Inr c')"
        "train_start w fl c' hparams es0 = (es1, Inl e)" "es = es0 @ es1"
      with s st [of c' es0] show ?thesis by simp
    next
      fix es0 c' es1 v0 es2 e
      assume a: "train_setup w hparams True [] = (es0, Inr c')"
        "train_start w fl c' hparams es0 = (es1, Inr v0)"
        "train_loop fuel w fl c' v0 (es0 @ es1) = Some (es2, Inl e)" "es = es0 @ es1 @ es2"
      with s st [of c' es0] lp [OF a(1) a(3)] show ?thesis by simp
    next
      fix es0 c' es1 v0 es2 v1 es3
      assume a: "train_setup w hparams True [] = (es0, Inr c')"
        "train_start w fl c' hparams es0 = (es1, Inr v0)"
        "train_loop fuel w fl c' v0 (es0 @ es1) = Some (es2, Inr v1)"
        "train_finish w fl c' v1 (es0 @ es1 @ es2) = (es3, r)" "es = es0 @ es1 @ es2 @ es3"
      with s st [of c' es0] lp [OF a(1) a(3)] fi [of c' v1 "es0 @ es1 @ es2"]
      show ?thesis by simp
    qed
  qed
  have p3: "train_loop n w fl c v h = Some ([], Inr v)" if "loc_num_train_steps c \<le> global_step v"
    using that by (intro loop_skipped) (simp add: loop_condition_def)
  have p4: "loc_num_train_steps c \<le> global_step v' \<or>
      (list_ex (nan_stats fl) es \<and> global_step v' mod loc_steps_per_stats c = 0 \<and>
       isnan fl (train_ppl v'))"
    if "\<not> eval_only c" "train_loop n w fl c v h = Some (es, Inr v')" for es v'
    using loop_facts [OF that(2)] that(1) by blast
  have p5: "train_loop (Suc n) w fl c v h = Some (es, Inr v')"
    if "loop_condition c v" "train_iteration w fl c v h = (es, Inr (Break, v'))" for es v'
    using that by simp
  have p6: "fw = Break \<longleftrightarrow> isnan fl (train_ppl v')"
    if "train_step w h = Some r" "train_iteration w fl c v h = (es, Inr (fw, v'))"
      "step_global_step r mod loc_steps_per_stats c = 0" for r es fw v'
  proof -
    from iteration_split [OF that(2)] that(1) obtain es' where
      "after_step w fl c r v (h @ [TrainStep (Some r)]) = (es', Inr (fw, v'))" by auto
    from postD [OF after_step_post this] that(3) show ?thesis by (cases fw) auto
  qed
  have p7: "loop_condition c v \<longleftrightarrow> global_step v < loc_num_train_steps c \<and> \<not> eval_only c"
    by (simp add: loop_condition_def)
  have p8: "train_loop (Suc n) w fl c v h = Some (es, Inr v')"
    if "\<not> eval_only c" "global_step v < loc_num_train_steps c"
      "train_iteration w fl c v h = (es, Inr (Continue, v'))"
      "loc_num_train_steps c \<le> global_step v'" for es v'
  proof -
    from that(4) have "\<not> loop_condition c v'" by (simp add: loop_condition_def)
    then have "train_loop n w fl c v' (h @ es) = Some ([], Inr v')" by (rule loop_skipped)
    moreover from that(1,2) have "loop_condition c v" by (simp add: loop_condition_def)
    ultimately show ?thesis using that(3) by simp
  qed
  have p9: "train_loop (Suc n) w fl c v h =
        (case train_loop n w fl c v' (h @ es) of
           None \<Rightarrow> None
         | Some (es', r) \<Rightarrow> Some (es @ es', r))"
    if "\<not> eval_only c" "global_step v < loc_num_train_steps c"
      "train_iteration w fl c v h = (es, Inr (Continue, v'))"
      "global_step v' < loc_num_train_steps c" for es v'
  proof -
    from that(1,2) have "loop_condition c v" by (simp add: loop_condition_def)
    with that(3) show ?thesis by simp
  qed
  have p10: "train_loop (Suc n) w fl c v h = Some (es, Inl e)"
    if "\<not> eval_only c" "global_step v < loc_num_train_steps c"
      "train_iteration w fl c v h = (es, Inl e)" for es e
  proof -
    from that(1,2) have "loop_condition c v" by (simp add: loop_condition_def)
    with that(3) show ?thesis by simp
  qed
  have p11: "train_loop (n + k) w fl c v h = Some r"
    if "train_loop n w fl c v h = Some r" for r k
    using that by (rule loop_fuel_add)
  show ?thesis
    by (intro conjI allI impI; (elim conjE)?;
        (rule p1 p2 p3 p4 p5 p6 p7 p8 p9 p10 p11; assumption))
qed


text \<open>
  Claim C9. Let a pass through the body of the loop find the training data exhausted
  (the step raises \<open>tf.errors.OutOfRangeError\<close>) and return. Then the pass ends in
  \<open>continue\<close>; \<open>step_time\<close>, \<open>checkpoint_loss\<close>, \<open>checkpoint_predict_count\<close>,
  \<open>checkpoint_total_count\<close> and \<open>global_step\<close> are as before; \<open>hparams.epoch_step\<close> is 0;
  the events of the pass are the failed step, the line \<open># Finished an epoch ...\<close>, those
  of one external evaluation run on the hyperparameters with \<open>epoch_step\<close> 0 (among
  them no training step and no initialisation of the train iterator), and the train
  iterator initialised with skip count 0; and the loop goes on from the new state.
\<close>

theorem out_of_range_step:
  assumes "train_step w h = None"
    and "train_iteration w fl c v h = (es, Inr (fw, v'))"
  shows "fw = Continue \<and>
    step_time v' = step_time v \<and> checkpoint_loss v' = checkpoint_loss v \<and>
    checkpoint_predict_count v' = checkpoint_predict_count v \<and>
    checkpoint_total_count v' = checkpoint_total_count v \<and>
    global_step v' = global_step v \<and> epoch_step (hp v') = 0 \<and>
    (\<exists>rest r.
       run_external_eval w fl c ((hp v)\<lparr>epoch_step := 0\<rparr>)
         (h @ [TrainStep None, PrintOut (FinishedEpochMsg (global_step v))]) = (rest, Inr r) \<and>
       hp v' = snd r \<and>
       es = [TrainStep None, PrintOut (FinishedEpochMsg (global_step v))] @ rest
            @ [InitTrainIterator 0] \<and>
       list_all (\<lambda>e. \<not> is_train_step e \<and> \<not> is_init_train_iterator e) rest) \<and>
    (loop_condition c v \<longrightarrow>
       train_loop (Suc n) w fl c v h =
         (case train_loop n w fl c v' (h @ es) of
            None \<Rightarrow> None
          | Some (es', r) \<Rightarrow> Some (es @ es', r)))"
proof -
  from iteration_split [OF assms(2)] assms(1) obtain es' where
    es: "es = TrainStep None # es'"
    and ne: "next_epoch w fl c v (h @ [TrainStep None]) = (es', Inr (fw, v'))"
    by auto
  from next_epoch_split [OF ne] obtain rest ds ts hparams1 where
    run: "run_external_eval w fl c ((hp v)\<lparr>epoch_step := 0\<rparr>)
       (h @ [TrainStep None, PrintOut (FinishedEpochMsg (global_step v))])
         = (rest, Inr ((ds, ts), hparams1))"
    and es': "es' = PrintOut (FinishedEpochMsg (global_step v)) # rest @ [InitTrainIterator 0]"
    and res: "(fw, v') = (Continue, v\<lparr>hp := hparams1, dev_scores := ds, test_scores := ts\<rparr>)"
    by auto
  from postD [OF run_external_eval_post run]
  obtain b where q: "list_all quiet rest" and keep: "hparams1 = (hp v)\<lparr>epoch_step := 0, best := b\<rparr>"
    by auto
  from res have fw: "fw = Continue"
    and v': "v' = v\<lparr>hp := hparams1, dev_scores := ds, test_scores := ts\<rparr>" by simp_all
  have shape: "\<exists>rest r.
       run_external_eval w fl c ((hp v)\<lparr>epoch_step := 0\<rparr>)
         (h @ [TrainStep None, PrintOut (FinishedEpochMsg (global_step v))]) = (rest, Inr r) \<and>
       hp v' = snd r \<and>
       es = [TrainStep None, PrintOut (FinishedEpochMsg (global_step v))] @ rest
            @ [InitTrainIterator 0] \<and>
       list_all (\<lambda>e. \<not> is_train_step e \<and> \<not> is_init_train_iterator e) rest"
    using run es es' q v' by (intro exI [of _ rest] exI [of _ "((ds, ts), hparams1)"]) simp
  have goes_on: "train_loop (Suc n) w fl c v h =
         (case train_loop n w fl c v' (h @ es) of
            None \<Rightarrow> None
          | Some (es', r) \<Rightarrow> Some (es @ es', r))" if "loop_condition c v"
    using that assms(2) fw by simp
  from fw v' keep shape goes_on show ?thesis by simp
qed

text \<open>
  Claim C10. Every run of \<open>train\<close> that returns or reaches a training step initialises
  the train iterator, before any training step and before any other initialisation of
  it, with the skip count \<open>hparams.batch_size * hparams.epoch_step\<close>; and the loop
  starts right after that: the next event is the first training step, or else no
  training step and no other initialisation of the train iterator follows at all.
  Every pass through the body of the loop whose training step returned leaves
  \<open>hparams.epoch_step\<close> greater by 1.
\<close>

theorem train_iterator_skip:
  "(\<forall>es r. train w fl hparams eo fuel = Some (es, r) \<and>
       (list_ex is_train_step es \<or> (\<exists>res. r = Inr res)) \<longrightarrow>
      (\<exists>pre rest.
         es = pre @ InitTrainIterator (batch_size hparams * epoch_step hparams) # rest \<and>
         list_all (\<lambda>e. \<not> is_train_step e \<and> \<not> is_init_train_iterator e) pre \<and>
         ((\<exists>x rest'. rest = TrainStep x # rest') \<or>
          list_all (\<lambda>e. \<not> is_train_step e \<and> \<not> is_init_train_iterator e) rest))) \<and>
   (\<forall>r es fw v'. train_step w h = Some r \<and>
        train_iteration w fl c v h = (es, Inr (fw, v')) \<longrightarrow>
      epoch_step (hp v') = epoch_step (hp v) + 1)"
proof -
  have p1: "\<exists>pre rest.
         es = pre @ InitTrainIterator (batch_size hparams * epoch_step hparams) # rest \<and>
         list_all (\<lambda>e. \<not> is_train_step e \<and> \<not> is_init_train_iterator e) pre \<and>
         ((\<exists>x rest'. rest = TrainStep x # rest') \<or>
          list_all (\<lambda>e. \<not> is_train_step e \<and> \<not> is_init_train_iterator e) rest)"
    if run: "train w fl hparams eo fuel = Some (es, r)"
      and reach: "list_ex is_train_step es \<or> (\<exists>res. r = Inr res)" for es r
  proof -
    have s: "list_all quiet (fst (train_setup w hparams eo []))" by (rule setup_quiet)
    have st: "list_all (\<lambda>e. \<not> is_train_step e) (fst (train_start w fl c' hparams h'))" for c' h'
      by (rule all_evD [OF no_step_train_start])
    have found: ?thesis
      if a: "train_setup w hparams eo [] = (es0, Inr c')"
        "train_start w fl c' hparams es0 = (es1, Inr v0)" "es = es0 @ es1 @ tl"
        "(\<exists>x rest'. tl = TrainStep x # rest') \<or>
          list_all (\<lambda>e. \<not> is_train_step e \<and> \<not> is_init_train_iterator e) tl"
      for es0 c' es1 v0 tl
    proof -
      from start_events [OF a(2)] obtain pre where
        es1: "es1 = pre @ [InitTrainIterator (batch_size hparams * epoch_step hparams)]"
        and pre: "list_all quiet pre" by blast
      from s a(1) have "list_all quiet es0" by simp
      with pre have "list_all (\<lambda>e. \<not> is_train_step e \<and> \<not> is_init_train_iterator e) (es0 @ pre)"
        by simp
      with es1 a(3,4) show ?thesis
        by (intro exI [of _ "es0 @ pre"] exI [of _ tl]) simp
    qed
    from train_cases [OF run] show ?thesis
    proof (elim disjE exE conjE)
      fix e
      assume a: "train_setup w hparams eo [] = (es, Inl e)" "r = Inl e"
      with s have "list_all (\<lambda>e. \<not> is_train_step e) es"
        by (auto elim: list_all_mono simp: quiet_event)
      with reach a(2) show ?thesis by (auto simp: list_all_iff list_ex_iff)
    next
      fix es0 c' es1 e
      assume a: "train_setup w hparams eo [] = (es0, Inr c')"
        "train_start w fl c' hparams es0 = (es1, Inl e)" "es = es0 @ es1" "r = Inl e"
      from s a(1) have "list_all (\<lambda>e. \<not> is_train_step e) es0"
        by (auto elim: list_all_mono simp: quiet_event)
      with st [of c' es0] a have "list_all (\<lambda>e. \<not> is_train_step e) es" by simp
      with reach a(4) show ?thesis by (auto simp: list_all_iff list_ex_iff)
    next
      fix es0 c' es1 v0 es2 e
      assume a: "train_setup w hparams eo [] = (es0, Inr c')"
        "train_start w fl c' hparams es0 = (es1, Inr v0)" "es = es0 @ es1 @ es2"
        and lo: "train_loop fuel w fl c' v0 (es0 @ es1) = Some (es2, Inl e)"
      from loop_head [OF lo]
      have "(\<exists>x rest'. es2 = TrainStep x # rest') \<or>
          list_all (\<lambda>e. \<not> is_train_step e \<and> \<not> is_init_train_iterator e) es2"
        by auto
      with a show ?thesis by (rule found)
    next
      fix es0 c' es1 v0 es2 v1 es3
      assume a: "train_setup w hparams eo [] = (es0, Inr c')"
        "train_start w fl c' hparams es0 = (es1, Inr v0)" "es = es0 @ es1 @ es2 @ es3"
        and lo: "train_loop fuel w fl c' v0 (es0 @ es1) = Some (es2, Inr v1)"
        and fin: "train_finish w fl c' v1 (es0 @ es1 @ es2) = (es3, r)"
      from all_evD [OF no_init_train_finish, of w fl c' v1 "es0 @ es1 @ es2"] fin
      have f: "list_all (\<lambda>e. \<not> is_train_step e \<and> \<not> is_init_train_iterator e) es3" by simp
      from loop_head [OF lo] f
      have tl: "(\<exists>x rest'. es2 @ es3 = TrainStep x # rest') \<or>
          list_all (\<lambda>e. \<not> is_train_step e \<and> \<not> is_init_train_iterator e) (es2 @ es3)"
        by auto
      show ?thesis by (rule found [OF a(1,2) _ tl]) (simp add: a(3))
    qed
  qed
  have p2: "epoch_step (hp v') = epoch_step (hp v) + 1"
    if "train_step w h = Some r" "train_iteration w fl c v h = (es, Inr (fw, v'))"
    for r es fw v'
  proof -
    from iteration_split [OF that(2)] that(1) obtain es' where
      "after_step w fl c r v (h @ [TrainStep (Some r)]) = (es', Inr (fw, v'))" by auto
    from postD [OF after_step_post this] show ?thesis by auto
  qed
  show ?thesis
    by (intro conjI allI impI; (elim conjE)?; (rule p1 p2; assumption))
qed

section \<open>Concrete runs, witnesses\<close>

lemmas run_defs = train_def train_setup_def train_start_def train_finish_def
  train_iteration_def after_step_def next_epoch_def print_statistics_def save_eval_def
  save_external_eval_def model_creator_of_def create_train_model_def
  create_eval_model_def get_best_results_def format_results_def loop_condition_def
  py_mod_def dot_def step_at_def steps_done_def eval_defs

lemma run_ok_value:
  "\<exists>es. run_ok = Some (es, Inr ([Fin 50, Fin 50, Fin 50],
                                 [Some (Fin 50), Some (Fin 50), Some (Fin 50)], [0, 10, 10])) \<and>
     steps_done es = [10] \<and> \<not> list_ex (nan_stats exact_fops) es \<and>
     length (filter is_save_eval_msg es) = 1 \<and> list_ex is_train_step es"
  by (simp add: run_ok_def run_defs)

lemma run_nan_value:
  "\<exists>es. run_nan = Some (es, Inr ([Fin 50, Fin 50], [Some (Fin 50), Some (Fin 50)], [0, 10])) \<and>
     steps_done es = [10] \<and> list_ex (nan_stats exact_fops) es \<and>
     train_ckpts es = [(''out'', ''translate.ckpt'', 10)]"
  by (simp add: run_nan_def hp_nan_def run_defs)

lemma run_eval_only_value:
  "\<exists>es. run_eval_only = Some (es, Inr ([Fin 50, Fin 50], [Some (Fin 50), Some (Fin 50)], [0, 0]))"
  by (simp add: run_eval_only_def run_defs)


lemma run_ok_train:
  "\<exists>es. train (script_world [Some (step_at 10 (Fin 3))]) exact_fops hp0 False (Suc (Suc 0)) =
          Some (es, Inr ([Fin 50, Fin 50, Fin 50],
                         [Some (Fin 50), Some (Fin 50), Some (Fin 50)], [0, 10, 10])) \<and>
     events_of run_ok = es \<and> returned run_ok \<and>
     steps_done es = [10] \<and> \<not> list_ex (nan_stats exact_fops) es \<and> list_ex is_train_step es"
  using run_ok_value by (auto simp: run_ok_def events_of_def returned_def)

lemma run_eval_only_train:
  "\<exists>es. train (script_world []) exact_fops hp0 True 0 =
          Some (es, Inr ([Fin 50, Fin 50], [Some (Fin 50), Some (Fin 50)], [0, 0])) \<and>
     events_of run_eval_only = es \<and> returned run_eval_only"
  using run_eval_only_value by (auto simp: run_eval_only_def events_of_def returned_def)

theorem model_class_selection_witness:
  "model_creator_of hp0 = Inr Model \<and> returned run_ok \<and>
   take 7 (events_of run_ok) =
     [NewGraph TRAIN, NewIterator TRAIN, NewModel Model TRAIN,
      NewGraph EVAL, NewIterator EVAL, NewModel Model EVAL, CreateInferModel Model] \<and>
   train (script_world []) exact_fops
     (hp0\<lparr>attention := ''luong'', attention_architecture := ''bahdanau''\<rparr>) False 0
     = Some ([], Inl ValueError)"
proof -
  have mc: "model_creator_of hp0 = Inr Model" by (simp add: model_creator_of_def hp0_def)
  from run_ok_train obtain es where
    run: "train (script_world [Some (step_at 10 (Fin 3))]) exact_fops hp0 False (Suc (Suc 0)) =
          Some (es, Inr ([Fin 50, Fin 50, Fin 50],
                         [Some (Fin 50), Some (Fin 50), Some (Fin 50)], [0, 10, 10]))"
    and ev: "events_of run_ok = es" "returned run_ok" by blast
  from model_class_selection [where hparams = hp0, THEN conjunct2, THEN conjunct2,
      THEN conjunct2, THEN conjunct2, rule_format, OF conjI [OF mc run]]
  have first: "take 7 es =
     [NewGraph TRAIN, NewIterator TRAIN, NewModel Model TRAIN,
      NewGraph EVAL, NewIterator EVAL, NewModel Model EVAL, CreateInferModel Model]"
    by auto
  have bad: "attention (hp0\<lparr>attention := ''luong'', attention_architecture := ''bahdanau''\<rparr>) \<noteq> [] \<and>
    attention_architecture (hp0\<lparr>attention := ''luong'', attention_architecture := ''bahdanau''\<rparr>)
      \<notin> {''standard'', ''gnmt'', ''gnmt_v2''}"
    by simp
  from model_class_selection [where
      hparams = "hp0\<lparr>attention := ''luong'', attention_architecture := ''bahdanau''\<rparr>",
      THEN conjunct2, THEN conjunct2, THEN conjunct2, THEN conjunct1, rule_format, OF bad]
  have "train (script_world []) exact_fops
     (hp0\<lparr>attention := ''luong'', attention_architecture := ''bahdanau''\<rparr>) False 0
     = Some ([], Inl ValueError)" .
  with mc ev first show ?thesis by simp
qed

theorem eval_only_mode_witness:
  "length (metrics (hp0\<lparr>metrics := []\<rparr>)) \<noteq> 1 \<and>
   (\<exists>es. train (script_world []) exact_fops (hp0\<lparr>metrics := []\<rparr>) True 0
            = Some (es, Inl ValueError) \<and>
         list_all (\<lambda>e. \<not> opens_session_or_log e) es) \<and>
   metrics hp0 = [''bleu''] \<and> best_dir hp0 ''bleu'' = Some ''out/best_bleu'' \<and>
   returned run_eval_only \<and>
   list_all (dirs_ok ''out/best_bleu'' ''eval_log'') (events_of run_eval_only) \<and>
   (\<exists>g. CreateOrLoadModel TRAIN ''out/best_bleu'' g \<in> set (events_of run_eval_only)) \<and>
   NewSummaryWriter ''out'' ''eval_log'' \<in> set (events_of run_eval_only)"
proof -
  have len: "length (metrics (hp0\<lparr>metrics := []\<rparr>)) \<noteq> 1" by simp
  from eval_only_mode [where hparams = "hp0\<lparr>metrics := []\<rparr>", THEN conjunct1, rule_format, OF len]
  have p1: "\<exists>es. train (script_world []) exact_fops (hp0\<lparr>metrics := []\<rparr>) True 0
            = Some (es, Inl ValueError) \<and>
         list_all (\<lambda>e. \<not> opens_session_or_log e) es" .
  have m: "metrics hp0 = [''bleu'']" and d: "best_dir hp0 ''bleu'' = Some ''out/best_bleu''"
    and out: "out_dir hp0 = ''out''"
    by (simp_all add: hp0_def)
  from run_eval_only_train obtain es where
    run: "train (script_world []) exact_fops hp0 True 0 =
          Some (es, Inr ([Fin 50, Fin 50], [Some (Fin 50), Some (Fin 50)], [0, 0]))"
    and ev: "events_of run_eval_only = es" "returned run_eval_only" by blast
  from eval_only_mode [where hparams = hp0, THEN conjunct2, THEN conjunct1, rule_format,
      OF conjI [OF m conjI [OF d run]]] out
  have "list_all (dirs_ok ''out/best_bleu'' ''eval_log'') es \<and>
   (\<exists>g. CreateOrLoadModel TRAIN ''out/best_bleu'' g \<in> set es) \<and>
   NewSummaryWriter ''out'' ''eval_log'' \<in> set es"
    by auto
  with len p1 m d ev show ?thesis by simp
qed


lemma run_two_value:
  "\<exists>es. train (script_world [Some (step_at 10 (Fin 3)), Some (step_at 20 NaN)]) exact_fops
            (hp0\<lparr>num_train_steps := 30\<rparr>) False (Suc (Suc 0)) =
          Some (es, Inr ([Fin 50, Fin 50, Fin 50],
                         [Some (Fin 50), Some (Fin 50), Some (Fin 50)], [0, 10, 20])) \<and>
     steps_done es = [10, 20] \<and> list_ex (nan_stats exact_fops) es"
  by (simp add: run_defs)

theorem training_checkpoints_witness:
  "returned run_ok \<and> \<not> list_ex (nan_stats exact_fops) (events_of run_ok) \<and>
   completed_steps exact_fops (events_of run_ok) = [10] \<and>
   train_ckpts (events_of run_ok) =
     [(''out'', ''translate.ckpt'', 10), (''out'', ''translate.ckpt'', 10)] \<and>
   returned run_two \<and> list_ex (nan_stats exact_fops) (events_of run_two) \<and>
   steps_done (events_of run_two) = [10, 20] \<and>
   completed_steps exact_fops (events_of run_two) = [10] \<and>
   train_ckpts (events_of run_two) =
     [(''out'', ''translate.ckpt'', 10), (''out'', ''translate.ckpt'', 20)]"
proof -
  from run_ok_train obtain es where
    run: "train (script_world [Some (step_at 10 (Fin 3))]) exact_fops hp0 False (Suc (Suc 0)) =
          Some (es, Inr ([Fin 50, Fin 50, Fin 50],
                         [Some (Fin 50), Some (Fin 50), Some (Fin 50)], [0, 10, 10]))"
    and ev: "events_of run_ok = es" "returned run_ok"
    and st: "steps_done es = [10]" and nn: "\<not> list_ex (nan_stats exact_fops) es" by blast
  from st nn have cs: "completed_steps exact_fops es = [10]" by (simp add: completed_steps_def)
  from training_checkpoints [OF run, THEN conjunct1] cs
  have ck: "train_ckpts es = [(''out'', ''translate.ckpt'', 10), (''out'', ''translate.ckpt'', 10)]"
    by (simp add: step_ckpts_def external_eval_period_def truthy_int_def hp0_def)
  from run_two_value obtain es' where
    run': "train (script_world [Some (step_at 10 (Fin 3)), Some (step_at 20 NaN)]) exact_fops
            (hp0\<lparr>num_train_steps := 30\<rparr>) False (Suc (Suc 0)) =
          Some (es', Inr ([Fin 50, Fin 50, Fin 50],
                         [Some (Fin 50), Some (Fin 50), Some (Fin 50)], [0, 10, 20]))"
    and st': "steps_done es' = [10, 20]" and nan': "list_ex (nan_stats exact_fops) es'" by blast
  from run' have ev': "events_of run_two = es'" "returned run_two"
    by (simp_all add: run_two_def events_of_def returned_def)
  from st' nan' have cs': "completed_steps exact_fops es' = [10]"
    by (simp add: completed_steps_def)
  from training_checkpoints [OF run', THEN conjunct1] cs'
  have ck': "train_ckpts es' =
      [(''out'', ''translate.ckpt'', 10), (''out'', ''translate.ckpt'', 20)]"
    by (simp add: step_ckpts_def external_eval_period_def truthy_int_def hp0_def)
  from ev nn cs ck ev' nan' st' cs' ck' show ?thesis by simp
qed

text \<open>
  Claim C2, as stated, fails. The run \<open>run_nan\<close> is a training run that returns; its one
  training step returns at global step 10, which \<open>steps_per_eval\<close> (10) divides; the
  training perplexity of that step is NaN, so the loop is left before the check point
  of line 370, and the only check point of the run is the one after the loop.
\<close>

theorem training_checkpoints_counterexample:
  "returned run_nan \<and> steps_done (events_of run_nan) = [10] \<and>
   (10 :: int) mod (10 * steps_per_stats hp_nan) = 0 \<and>
   train_ckpts (events_of run_nan) = [(''out'', ''translate.ckpt'', 10)] \<and>
   train_ckpts (events_of run_nan) \<noteq>
     concat (map (step_ckpts (out_dir hp_nan) (10 * steps_per_stats hp_nan)
                    (external_eval_period hp_nan)) (steps_done (events_of run_nan)))
     @ [(out_dir hp_nan, ''translate.ckpt'', 10)]"
proof -
  from run_nan_value obtain es where
    run: "run_nan = Some (es, Inr ([Fin 50, Fin 50], [Some (Fin 50), Some (Fin 50)], [0, 10]))"
    and st: "steps_done es = [10]"
    and ck: "train_ckpts es = [(''out'', ''translate.ckpt'', 10)]" by blast
  have ev: "events_of run_nan = es" "returned run_nan"
    unfolding events_of_def returned_def run by simp_all
  show ?thesis
    using ev st ck
    by (simp add: step_ckpts_def external_eval_period_def truthy_int_def hp_nan_def hp0_def)
qed

lemma loop_nan_value:
  "\<exists>es v'. train_loop (Suc (Suc 0)) (script_world [Some (step_at 5 NaN)]) exact_fops ctx0 vars0 []
             = Some (es, Inr v') \<and> global_step v' = 5"
  by (simp add: run_defs vars0_def)

lemma last_step_value:
  "\<exists>es v'. train_iteration (script_world [Some (step_at 10 (Fin 3))]) exact_fops ctx0 vars0 []
             = (es, Inr (Continue, v')) \<and> global_step v' = 10 \<and>
     \<not> list_ex (nan_stats exact_fops) es \<and> steps_done es = [10]"
  by (simp add: run_defs vars0_def)

theorem loop_exit_witness:
  "\<not> eval_only ctx0 \<and> global_step vars0 < loc_num_train_steps ctx0 \<and>
   (\<exists>es v'. train_iteration (script_world [Some (step_at 10 (Fin 3))]) exact_fops ctx0 vars0 []
              = (es, Inr (Continue, v')) \<and>
            loc_num_train_steps ctx0 \<le> global_step v' \<and> steps_done es = [10] \<and>
            \<not> list_ex (nan_stats exact_fops) es \<and>
            train_loop (Suc 0) (script_world [Some (step_at 10 (Fin 3))]) exact_fops ctx0 vars0 []
              = Some (es, Inr v') \<and>
            train_loop (Suc 0 + 7) (script_world [Some (step_at 10 (Fin 3))]) exact_fops ctx0
              vars0 [] = Some (es, Inr v')) \<and>
   (\<exists>es v'. train_loop (Suc (Suc 0)) (script_world [Some (step_at 5 NaN)]) exact_fops ctx0 vars0 []
              = Some (es, Inr v') \<and>
            global_step v' = 5 \<and> \<not> loc_num_train_steps ctx0 \<le> global_step v' \<and>
            list_ex (nan_stats exact_fops) es \<and> isnan exact_fops (train_ppl v')) \<and>
   returned run_eval_only \<and> list_all (\<lambda>e. \<not> is_train_step e) (events_of run_eval_only)"
proof -
  have eo: "\<not> eval_only ctx0" and n: "loc_num_train_steps ctx0 = 10"
    and g0: "global_step vars0 < loc_num_train_steps ctx0"
    by (simp_all add: ctx0_def vars0_def)
  from last_step_value obtain es1 v1 where
    it: "train_iteration (script_world [Some (step_at 10 (Fin 3))]) exact_fops ctx0 vars0 []
             = (es1, Inr (Continue, v1))" and g1: "global_step v1 = 10"
    and fine: "\<not> list_ex (nan_stats exact_fops) es1" "steps_done es1 = [10]" by blast
  from g1 n have reached: "loc_num_train_steps ctx0 \<le> global_step v1" by simp
  from loop_exit [where c = ctx0 and v = vars0 and n = 0, THEN conjunct2, THEN conjunct2,
      THEN conjunct2, THEN conjunct2, THEN conjunct2, THEN conjunct2, THEN conjunct2,
      THEN conjunct1, rule_format, OF conjI [OF eo conjI [OF g0 conjI [OF it reached]]]]
  have lp1: "train_loop (Suc 0) (script_world [Some (step_at 10 (Fin 3))]) exact_fops ctx0 vars0 []
              = Some (es1, Inr v1)" .
  from loop_exit [where c = ctx0 and v = vars0 and n = "Suc 0", THEN conjunct2, THEN conjunct2,
      THEN conjunct2, THEN conjunct2, THEN conjunct2, THEN conjunct2, THEN conjunct2,
      THEN conjunct2, THEN conjunct2, THEN conjunct2, rule_format, OF lp1, of 7]
  have lp8: "train_loop (Suc 0 + 7) (script_world [Some (step_at 10 (Fin 3))]) exact_fops ctx0
              vars0 [] = Some (es1, Inr v1)" .
  from it reached fine lp1 lp8 have p8: "\<exists>es v'.
       train_iteration (script_world [Some (step_at 10 (Fin 3))]) exact_fops ctx0 vars0 []
              = (es, Inr (Continue, v')) \<and>
            loc_num_train_steps ctx0 \<le> global_step v' \<and> steps_done es = [10] \<and>
            \<not> list_ex (nan_stats exact_fops) es \<and>
            train_loop (Suc 0) (script_world [Some (step_at 10 (Fin 3))]) exact_fops ctx0 vars0 []
              = Some (es, Inr v') \<and>
            train_loop (Suc 0 + 7) (script_world [Some (step_at 10 (Fin 3))]) exact_fops ctx0
              vars0 [] = Some (es, Inr v')"
    by (intro exI [of _ es1] exI [of _ v1] conjI)
  from loop_nan_value obtain es v' where
    lp: "train_loop (Suc (Suc 0)) (script_world [Some (step_at 5 NaN)]) exact_fops ctx0 vars0 []
             = Some (es, Inr v')" and g: "global_step v' = 5" by blast
  from loop_exit [where c = ctx0 and v = vars0, THEN conjunct2, THEN conjunct2, THEN conjunct2,
      THEN conjunct1, rule_format, OF conjI [OF eo lp]] g n
  have "list_ex (nan_stats exact_fops) es \<and> isnan exact_fops (train_ppl v')" by simp
  with lp g n have p4: "\<exists>es v'.
       train_loop (Suc (Suc 0)) (script_world [Some (step_at 5 NaN)]) exact_fops ctx0 vars0 []
              = Some (es, Inr v') \<and>
            global_step v' = 5 \<and> \<not> loc_num_train_steps ctx0 \<le> global_step v' \<and>
            list_ex (nan_stats exact_fops) es \<and> isnan exact_fops (train_ppl v')"
    by (intro exI [of _ es] exI [of _ v']) simp
  from run_eval_only_train obtain es' where
    run': "train (script_world []) exact_fops hp0 True 0 =
          Some (es', Inr ([Fin 50, Fin 50], [Some (Fin 50), Some (Fin 50)], [0, 0]))"
    and ev': "events_of run_eval_only = es'" "returned run_eval_only" by blast
  from loop_exit [where hparams = hp0, THEN conjunct2, THEN conjunct1, rule_format, OF run']
  have "list_all (\<lambda>e. \<not> is_train_step e) es'" .
  with eo g0 p8 p4 ev' show ?thesis by (simp del: train_loop.simps)
qed

lemma epoch_end_value:
  "\<exists>es fw v'. train_iteration (script_world []) exact_fops ctx0 vars0 [] = (es, Inr (fw, v'))"
  by (simp add: run_defs vars0_def)

theorem out_of_range_step_witness:
  "train_step (script_world []) [] = None \<and>
   (\<exists>es v'. train_iteration (script_world []) exact_fops ctx0 vars0 [] = (es, Inr (Continue, v')) \<and>
      epoch_step (hp vars0) = 3 \<and> epoch_step (hp v') = 0 \<and>
      global_step v' = global_step vars0 \<and> step_time v' = step_time vars0 \<and>
      last es = InitTrainIterator 0)"
proof -
  have none: "train_step (script_world []) [] = None" by (simp add: script_world_def)
  from epoch_end_value obtain es fw v' where
    it: "train_iteration (script_world []) exact_fops ctx0 vars0 [] = (es, Inr (fw, v'))"
    by blast
  from out_of_range_step [OF none it, of 0]
  have fw: "fw = Continue" and "epoch_step (hp v') = 0" "global_step v' = global_step vars0"
    "step_time v' = step_time vars0" "last es = InitTrainIterator 0"
    by auto
  moreover have "epoch_step (hp vars0) = 3" by (simp add: vars0_def hp0_def)
  ultimately show ?thesis using none it by (intro conjI exI [of _ es] exI [of _ v']) simp_all
qed

lemma step_value:
  "\<exists>es fw v'. train_iteration (script_world [Some (step_at 5 (Fin 3))]) exact_fops ctx0 vars0 []
      = (es, Inr (fw, v'))"
  by (simp add: run_defs vars0_def)

theorem train_iterator_skip_witness:
  "returned run_ok \<and> list_ex is_train_step (events_of run_ok) \<and>
   (\<exists>pre x rest. events_of run_ok = pre @ InitTrainIterator 12 # TrainStep x # rest \<and>
      list_all (\<lambda>e. \<not> is_train_step e \<and> \<not> is_init_train_iterator e) pre) \<and>
   train_step (script_world [Some (step_at 5 (Fin 3))]) [] = Some (step_at 5 (Fin 3)) \<and>
   (\<exists>es fw v'. train_iteration (script_world [Some (step_at 5 (Fin 3))]) exact_fops ctx0 vars0 []
      = (es, Inr (fw, v')) \<and> epoch_step (hp vars0) = 3 \<and> epoch_step (hp v') = 4)"
proof -
  from run_ok_train obtain es where
    run: "train (script_world [Some (step_at 10 (Fin 3))]) exact_fops hp0 False (Suc (Suc 0)) =
          Some (es, Inr ([Fin 50, Fin 50, Fin 50],
                         [Some (Fin 50), Some (Fin 50), Some (Fin 50)], [0, 10, 10]))"
    and ev: "events_of run_ok = es" "returned run_ok"
    and ts: "list_ex is_train_step es" by blast
  have k: "batch_size hp0 * epoch_step hp0 = 12" by (simp add: hp0_def)
  from ts have reach: "list_ex is_train_step es \<or>
     (\<exists>res. (Inr ([Fin 50, Fin 50, Fin 50],
                  [Some (Fin 50), Some (Fin 50), Some (Fin 50)], [0, 10, 10])
             :: error + xfloat list \<times> xfloat option list \<times> int list) = Inr res)"
    by simp
  from train_iterator_skip [where hparams = hp0, THEN conjunct1, rule_format,
      OF conjI [OF run reach]] k
  obtain pre rest where sh: "es = pre @ InitTrainIterator 12 # rest"
    and pre: "list_all (\<lambda>e. \<not> is_train_step e \<and> \<not> is_init_train_iterator e) pre"
    and nxt: "(\<exists>x rest'. rest = TrainStep x # rest') \<or>
          list_all (\<lambda>e. \<not> is_train_step e \<and> \<not> is_init_train_iterator e) rest"
    by auto
  from ts sh pre have "list_ex is_train_step rest" by (auto simp: list_all_iff list_ex_iff)
  then have "\<not> list_all (\<lambda>e. \<not> is_train_step e \<and> \<not> is_init_train_iterator e) rest"
    by (auto simp: list_all_iff list_ex_iff)
  with nxt obtain x rest' where "rest = TrainStep x # rest'" by blast
  with sh pre have p1: "\<exists>pre x rest. es = pre @ InitTrainIterator 12 # TrainStep x # rest \<and>
      list_all (\<lambda>e. \<not> is_train_step e \<and> \<not> is_init_train_iterator e) pre"
    by (intro exI [of _ pre] exI [of _ x] exI [of _ rest']) simp
  have some: "train_step (script_world [Some (step_at 5 (Fin 3))]) [] = Some (step_at 5 (Fin 3))"
    by (simp add: script_world_def)
  from step_value obtain es' fw v' where
    it: "train_iteration (script_world [Some (step_at 5 (Fin 3))]) exact_fops ctx0 vars0 []
      = (es', Inr (fw, v'))" by blast
  from train_iterator_skip [THEN conjunct2, rule_format, OF conjI [OF some it]]
  have "epoch_step (hp v') = epoch_step (hp vars0) + 1" .
  moreover have "epoch_step (hp vars0) = 3" by (simp add: vars0_def hp0_def)
  ultimately have p2: "\<exists>es fw v'.
      train_iteration (script_world [Some (step_at 5 (Fin 3))]) exact_fops ctx0 vars0 []
      = (es, Inr (fw, v')) \<and> epoch_step (hp vars0) = 3 \<and> epoch_step (hp v') = 4"
    using it by (intro exI [of _ es'] exI [of _ fw] exI [of _ v']) simp
  from ev ts p1 some p2 show ?thesis by simp
qed

end
